theory Spec2Isabelle
  imports Main "HOL-Library.AList"
begin

section \<open>Values of the host language\<close>

text \<open>
  The engine is JavaScript. An exception is a value of \<open>js_error\<close>; a statement sequence
  ends normally or by a throw; a promise is resolved, rejected or never settled.
  \<open>TypeError\<close> is what reading a property of \<open>undefined\<close> or \<open>null\<close> throws.
\<close>

datatype js_error = Error string | TypeError

datatype outcome = Normal | Throw js_error

text \<open>
  A rejection reason: a string, a template literal \<open>`prefix${e.message}`\<close>, or the
  error object itself.
\<close>

datatype reason = Message string | MessageOf string js_error | Raised js_error

datatype 'a promise = Resolved 'a | Rejected reason | Pending

text \<open>A variable or an argument that may be \<open>undefined\<close> or \<open>null\<close>.\<close>

datatype 'a js_arg = Undefined | Null | Given 'a

text \<open>The second argument of \<open>participantConnected\<close>, tested only for truthiness.\<close>

datatype js_value = JUndefined | JBool bool | JString string

fun truthy :: "js_value \<Rightarrow> bool" where
  "truthy JUndefined = False"
| "truthy (JBool b) = b"
| "truthy (JString s) = (s \<noteq> [])"

text \<open>A string argument is falsy when it is missing or empty.\<close>

fun supplied :: "string option \<Rightarrow> bool" where
  "supplied None = False"
| "supplied (Some s) = (s \<noteq> [])"

section \<open>Objects of the conferencing SDK\<close>

text \<open>
  The SDK (twilio-video) is not part of the repository. Its objects are modelled by the
  fields the engine reads: a track, a track publication, a participant with its map of
  publications (insertion order), a room with its local participant and its map of remote
  participants keyed by participant SID.
\<close>

datatype media_kind = Video | Audio

datatype priority = Low | Standard | High

record track =
  track_name :: string
  track_kind :: media_kind

record publication =
  trackSid :: string
  pub_kind :: media_kind
  isSubscribed :: bool
  pub_track :: "track option"
  pub_priority :: priority

record participant =
  sid :: string
  tracks :: "publication list"

record room =
  room_sid :: string
  localParticipant :: participant
  participants :: "(string \<times> participant) list"

text \<open>\<open>participant.videoTracks\<close> and \<open>participant.audioTracks\<close>: the publications of one kind.\<close>

definition videoTracks :: "participant \<Rightarrow> publication list" where
  "videoTracks p = filter (\<lambda>pub. pub_kind pub = Video) (tracks p)"

definition audioTracks :: "participant \<Rightarrow> publication list" where
  "audioTracks p = filter (\<lambda>pub. pub_kind pub = Audio) (tracks p)"

section \<open>Notifications and effects\<close>

datatype conference_event =
    RoomConnected | RoomCompleted | ParticipantConnected | ParticipantDisconnected
  | ParticipantSubscribedTrack | ParticipantUnsubscribedTrack | DominantSpeakerChanged
  | ExistingParticipantsReportingComplete | ErrorOccured | Debug

fun event_name :: "conference_event \<Rightarrow> string" where
  "event_name RoomConnected = ''RoomConnected''"
| "event_name RoomCompleted = ''RoomCompleted''"
| "event_name ParticipantConnected = ''ParticipantConnected''"
| "event_name ParticipantDisconnected = ''ParticipantDisconnected''"
| "event_name ParticipantSubscribedTrack = ''ParticipantSubscribedTrack''"
| "event_name ParticipantUnsubscribedTrack = ''ParticipantUnsubscribedTrack''"
| "event_name DominantSpeakerChanged = ''DominantSpeakerChanged''"
| "event_name ExistingParticipantsReportingComplete = ''ExistingParticipantsReportingComplete''"
| "event_name ErrorOccured = ''ErrorOccured''"
| "event_name Debug = ''Debug''"

text \<open>
  The track member of a track notification: the SDK's track object itself, or an object
  literal. The literal \<open>{...publication.track, sid: publication.trackSid}\<close> copies the
  own fields of the track when there is one (of which the model keeps \<open>kind\<close>) and adds
  \<open>sid\<close>; the literal \<open>{kind: MediaType.Video}\<close> has a kind and no sid.
\<close>

datatype descriptor = TrackObject track | Plain "media_kind option" "string option"

fun descr_kind :: "descriptor \<Rightarrow> media_kind option" where
  "descr_kind (TrackObject t) = Some (track_kind t)"
| "descr_kind (Plain k s) = k"

fun descr_sid :: "descriptor \<Rightarrow> string option" where
  "descr_sid (TrackObject t) = None"
| "descr_sid (Plain k s) = s"

definition spread :: "publication \<Rightarrow> descriptor" where
  "spread pub = Plain (map_option track_kind (pub_track pub)) (Some (trackSid pub))"

text \<open>
  What a callback receives. Participants and rooms are objects with identity, so a payload
  refers to them by SID; \<open>None\<close> is \<open>null\<close>.
\<close>

datatype payload =
    PRoom string
  | PParticipant "string option"
  | PTrack descriptor "string option"
  | PText string
  | PError js_error

text \<open>
  The SDK objects that emit events. An object is referred to by the identifier that stands
  for it in the model: the SID of a room, of a participant, of a publication, the name of a
  track. Two objects with the same identifier are the same object.
\<close>

datatype emitter = OnRoom string | OnParticipant string | OnPublication string | OnTrack string

text \<open>The closures the engine installs as listeners, with the variables they capture.\<close>

datatype handler =
    MuteDisabled track string
  | MuteEnabled track string
  | PublicationSubscribed string bool
  | PublicationUnsubscribed string
  | ParticipantTrackSubscribed string bool
  | ParticipantTrackUnsubscribed string
  | ParticipantTrackPublished string
  | ParticipantTrackUnpublished string
  | RoomParticipantConnected
  | RoomParticipantDisconnected
  | RoomTrackSubscribed
  | RoomDominantSpeakerChanged
  | RoomDisconnected

text \<open>Connect options: the fields \<open>joinRoom\<close> and \<open>startScreenShare\<close> touch.\<close>

datatype device_id = Exact "string option" | Bare string

fun device_truthy :: "device_id option \<Rightarrow> bool" where
  "device_truthy None = False"
| "device_truthy (Some (Exact x)) = True"
| "device_truthy (Some (Bare s)) = (s \<noteq> [])"

record media_options =
  deviceId :: "device_id option"
  opt_width :: "nat option"
  opt_height :: "nat option"

record connect_options =
  opt_name :: "string option"
  opt_audio :: "media_options option"
  opt_video :: "media_options option"

text \<open>
  The calls into the SDK. \<open>publishTrack\<close> is logged with the priority option it is given,
  if any.
\<close>

datatype sdk_call =
    VideoConnect "string option" connect_options
  | CreateLocalTrack media_kind media_options
  | UnpublishTrack string
  | StopTrack string
  | SetPriority string priority
  | PublishTrack string "priority option"
  | RoomDisconnect string

text \<open>
  Everything the engine does to the outside, in order: a call of \<open>notifyOfEvent\<close> (with
  whether a callback was registered for the event, so was invoked), the installation of a
  listener (the flag says \<open>once\<close>), a call into the SDK.
\<close>

datatype effect =
    Notify conference_event payload bool
  | Listen emitter string handler bool
  | Call sdk_call

type_synonym fx = "effect list \<times> outcome"

text \<open>Statement sequencing: a throw skips the rest.\<close>

fun andThen :: "fx \<Rightarrow> fx \<Rightarrow> fx" where
  "andThen (es, Normal) (es', out) = (es @ es', out)"
| "andThen (es, Throw e) _ = (es, Throw e)"

fun forEach :: "('a \<Rightarrow> fx) \<Rightarrow> 'a list \<Rightarrow> fx" where
  "forEach f [] = ([], Normal)"
| "forEach f (x # xs) = andThen (f x) (forEach f xs)"

section \<open>The engine: callbacks and track notifications\<close>

text \<open>
  \<open>eventCallbacks\<close> is an object; only which properties hold a function matters, so it
  is the list of those property names. \<open>registerCallbacks\<close> builds the object the engine
  expects, with a wrapper under each of ten names.
\<close>

type_synonym callbacks = "string list"

definition registerCallbacks :: callbacks where
  "registerCallbacks =
     [''onRoomConnected'', ''onRoomDisconnected'', ''onParticipantConnected'',
      ''onParticipantDisconnected'', ''onParticipantSubscribedTrack'',
      ''onParticipantUnsubscribedTrack'', ''onDominantSpeakerChanged'',
      ''onExistingParticipantsReportingComplete'', ''onErrorOccured'', ''onDebug'']"

definition has_callback :: "callbacks \<Rightarrow> conference_event \<Rightarrow> bool" where
  "has_callback cb ev = (''on'' @ event_name ev \<in> set cb)"

text \<open>
  \<open>notifyOfEvent\<close>: \<open>eventCallbacks[`on${eventType}`]\<close> throws when \<open>eventCallbacks\<close> is
  \<open>undefined\<close> or \<open>null\<close>; otherwise the callback is invoked if there is one.
\<close>

definition notifyOfEvent :: "callbacks option \<Rightarrow> conference_event \<Rightarrow> payload \<Rightarrow> fx" where
  "notifyOfEvent cbs ev args =
     (case cbs of
        None \<Rightarrow> ([], Throw TypeError)
      | Some cb \<Rightarrow> ([Notify ev args (has_callback cb ev)], Normal))"

definition participantDisconnected :: "callbacks option \<Rightarrow> participant \<Rightarrow> fx" where
  "participantDisconnected cbs p =
     notifyOfEvent cbs ParticipantDisconnected (PParticipant (Some (sid p)))"

definition dominantSpeakerChanged :: "callbacks option \<Rightarrow> participant \<Rightarrow> fx" where
  "dominantSpeakerChanged cbs p =
     notifyOfEvent cbs DominantSpeakerChanged (PParticipant (Some (sid p)))"

definition trackSubscribed :: "callbacks option \<Rightarrow> payload \<Rightarrow> fx" where
  "trackSubscribed cbs tr = notifyOfEvent cbs ParticipantSubscribedTrack tr"

text \<open>
  \<open>trackUnsubscribed\<close> first tests \<open>track.on\<close> on its argument. The argument is always the
  object literal \<open>{track, participant}\<close>, which has no \<open>on\<close>, so no listener is installed.
\<close>

definition trackUnsubscribed :: "callbacks option \<Rightarrow> payload \<Rightarrow> fx" where
  "trackUnsubscribed cbs tr = notifyOfEvent cbs ParticipantUnsubscribedTrack tr"

text \<open>\<open>setupTrackMuteEvents\<close>: guarded by \<open>track && track.on\<close>; an SDK track has \<open>on\<close>.\<close>

definition setupTrackMuteEvents :: "track option \<Rightarrow> string \<Rightarrow> fx" where
  "setupTrackMuteEvents tr p =
     (case tr of
        None \<Rightarrow> ([], Normal)
      | Some t \<Rightarrow>
          ([Listen (OnTrack (track_name t)) ''disabled'' (MuteDisabled t p) False,
            Listen (OnTrack (track_name t)) ''enabled'' (MuteEnabled t p) False], Normal))"

text \<open>The body of the \<open>participant.tracks.forEach\<close> loop of \<open>participantConnected\<close>.\<close>

definition attachPublication :: "callbacks option \<Rightarrow> participant \<Rightarrow> bool \<Rightarrow> publication \<Rightarrow> fx" where
  "attachPublication cbs p isRemote pub =
     andThen
       (if isSubscribed pub \<or> pub_track pub \<noteq> None then
          andThen
            (if isRemote \<and> pub_track pub \<noteq> None
             then setupTrackMuteEvents (pub_track pub) (sid p) else ([], Normal))
            (trackSubscribed cbs (PTrack (spread pub) (Some (sid p))))
        else ([], Normal))
       ([Listen (OnPublication (trackSid pub)) ''subscribed'' (PublicationSubscribed (sid p) isRemote) False,
         Listen (OnPublication (trackSid pub)) ''unsubscribed'' (PublicationUnsubscribed (sid p)) False],
        Normal)"

text \<open>
  \<open>participantConnected(participant, isRemote = true)\<close>: the default applies when the
  second argument is \<open>undefined\<close>; afterwards \<open>isRemote\<close> is only tested for truthiness.
\<close>

definition isRemote_of :: "js_value \<Rightarrow> bool" where
  "isRemote_of v = (case v of JUndefined \<Rightarrow> True | _ \<Rightarrow> truthy v)"

definition participantConnected :: "callbacks option \<Rightarrow> participant \<Rightarrow> js_value \<Rightarrow> fx" where
  "participantConnected cbs p isRemote =
     andThen (notifyOfEvent cbs ParticipantConnected (PParticipant (Some (sid p))))
    (andThen (forEach (attachPublication cbs p (isRemote_of isRemote)) (tracks p))
       ([Listen (OnParticipant (sid p)) ''trackSubscribed''
           (ParticipantTrackSubscribed (sid p) (isRemote_of isRemote)) False,
         Listen (OnParticipant (sid p)) ''trackUnsubscribed'' (ParticipantTrackUnsubscribed (sid p)) False,
         Listen (OnParticipant (sid p)) ''trackPublished'' (ParticipantTrackPublished (sid p)) False,
         Listen (OnParticipant (sid p)) ''trackUnpublished'' (ParticipantTrackUnpublished (sid p)) False],
        Normal))"

text \<open>
  What the SDK passes to a listener. The room's \<open>disconnected\<close> event passes the room and,
  after an unexpected disconnect, an error.
\<close>

datatype native =
    NParticipant participant
  | NTrack track
  | NRoomTrack track publication participant
  | NPublication publication
  | NDisconnected room "js_error option"

text \<open>
  The bodies of the listeners. The \<open>disconnected\<close> listener is \<open>(error) => ...\<close>: it binds
  the first argument the SDK passes, which is the room, so its test \<open>!error\<close> is false and
  it notifies ErrorOccured with the room. The last equation stands for a listener called
  with the arguments of another event, which the SDK does not do.
\<close>

fun run_handler :: "callbacks option \<Rightarrow> handler \<Rightarrow> native \<Rightarrow> fx" where
  "run_handler cbs (MuteDisabled t p) _ = trackUnsubscribed cbs (PTrack (TrackObject t) (Some p))"
| "run_handler cbs (MuteEnabled t p) _ = trackSubscribed cbs (PTrack (TrackObject t) (Some p))"
| "run_handler cbs (PublicationSubscribed p isRemote) (NTrack t) =
     andThen (if isRemote then setupTrackMuteEvents (Some t) p else ([], Normal))
             (trackSubscribed cbs (PTrack (TrackObject t) (Some p)))"
| "run_handler cbs (PublicationUnsubscribed p) (NTrack t) =
     trackUnsubscribed cbs (PTrack (TrackObject t) (Some p))"
| "run_handler cbs (ParticipantTrackSubscribed p isRemote) (NTrack t) =
     andThen (if isRemote then setupTrackMuteEvents (Some t) p else ([], Normal))
             (trackSubscribed cbs (PTrack (TrackObject t) (Some p)))"
| "run_handler cbs (ParticipantTrackUnsubscribed p) (NTrack t) =
     trackUnsubscribed cbs (PTrack (TrackObject t) (Some p))"
| "run_handler cbs (ParticipantTrackPublished p) (NPublication pub) =
     trackSubscribed cbs (PTrack (spread pub) (Some p))"
| "run_handler cbs (ParticipantTrackUnpublished p) (NPublication pub) =
     trackUnsubscribed cbs (PTrack (spread pub) (Some p))"
| "run_handler cbs RoomParticipantConnected (NParticipant p) = participantConnected cbs p JUndefined"
| "run_handler cbs RoomParticipantDisconnected (NParticipant p) = participantDisconnected cbs p"
| "run_handler cbs RoomTrackSubscribed (NRoomTrack t pub p) = setupTrackMuteEvents (Some t) (sid p)"
| "run_handler cbs RoomDominantSpeakerChanged (NParticipant p) = dominantSpeakerChanged cbs p"
| "run_handler cbs RoomDisconnected (NDisconnected r err) =
     andThen (participantDisconnected cbs (localParticipant r))
    (andThen (forEach (\<lambda>(k, p). participantDisconnected cbs p) (participants r))
             (notifyOfEvent cbs ErrorOccured (PRoom (room_sid r))))"
| "run_handler cbs _ _ = ([], Normal)"

section \<open>The engine: state\<close>

text \<open>
  \<open>currentConnectOptions\<close> refers either to the module-level \<open>defaultConnectOptions\<close>
  object, which \<open>joinRoom\<close> mutates in place, or to the object the caller passed (taken
  by value: what the caller does to its object later is outside the engine). The module
  \<open>defaultConnectOptions\<close> is not among the sources, so its value is a parameter of a new
  engine.
\<close>

datatype options_ref = DefaultOptions | CallerOptions connect_options

record device_ids =
  dev_audio :: "string option"
  dev_video :: "string option"

text \<open>
  The variables of the engine's closure, the browser's \<open>localStorage\<close>, the listeners
  installed on SDK objects, and the trace of effects so far. \<open>currentRoom\<close> is \<open>undefined\<close>
  until a connect succeeds and \<open>null\<close> after \<open>leaveRoom\<close>; \<open>turnOnMyAudio\<close> and
  \<open>turnOnMyVideo\<close> tell the two apart. For the other variables \<open>None\<close> is \<open>undefined\<close>
  or \<open>null\<close>, which the code treats alike.
\<close>

record engine =
  eventCallbacks :: "callbacks option"
  currentRoom :: "room js_arg"
  currentConnectOptions :: "options_ref option"
  currentScreenTrack :: "track option"
  deviceIds :: "device_ids option"
  localStorage :: "(string \<times> string) list"
  defaultConnectOptions :: connect_options
  listeners :: "(emitter \<times> string \<times> handler \<times> bool) list"
  trace :: "effect list"

definition new_engine :: "connect_options \<Rightarrow> (string \<times> string) list \<Rightarrow> engine" where
  "new_engine defaults storage =
     \<lparr>eventCallbacks = None, currentRoom = Undefined, currentConnectOptions = None,
      currentScreenTrack = None, deviceIds = None, localStorage = storage,
      defaultConnectOptions = defaults, listeners = [], trace = []\<rparr>"

fun listener_of :: "effect \<Rightarrow> (emitter \<times> string \<times> handler \<times> bool) list" where
  "listener_of (Listen em n h once) = [(em, n, h, once)]"
| "listener_of _ = []"

definition perform :: "effect list \<Rightarrow> engine \<Rightarrow> engine" where
  "perform es s =
     s\<lparr>listeners := listeners s @ concat (map listener_of es), trace := trace s @ es\<rparr>"

definition options_of :: "engine \<Rightarrow> options_ref \<Rightarrow> connect_options" where
  "options_of s ref = (case ref of DefaultOptions \<Rightarrow> defaultConnectOptions s | CallerOptions opts \<Rightarrow> opts)"

section \<open>Device preferences\<close>

definition getItem :: "engine \<Rightarrow> string \<Rightarrow> string option" where
  "getItem s key = map_of (localStorage s) key"

definition setItem :: "string \<Rightarrow> string \<Rightarrow> engine \<Rightarrow> engine" where
  "setItem key v s = s\<lparr>localStorage := AList.update key v (localStorage s)\<rparr>"

definition removeItem :: "string \<Rightarrow> engine \<Rightarrow> engine" where
  "removeItem key s = s\<lparr>localStorage := AList.delete key (localStorage s)\<rparr>"

text \<open>\<open>fetchDeviceIds\<close>: the object it assigns to \<open>deviceIds\<close>.\<close>

definition fetchDeviceIds :: "engine \<Rightarrow> device_ids" where
  "fetchDeviceIds s =
     \<lparr>dev_audio = getItem s ''audioInputDeviceId'', dev_video = getItem s ''videoDeviceId''\<rparr>"

definition assignDefaultAudioInputDeviceId :: "string \<Rightarrow> engine \<Rightarrow> engine" where
  "assignDefaultAudioInputDeviceId v = setItem ''audioInputDeviceId'' v"

definition assignDefaultAudioOutputDeviceId :: "string \<Rightarrow> engine \<Rightarrow> engine" where
  "assignDefaultAudioOutputDeviceId v = setItem ''audioOutputDeviceId'' v"

definition assignDefaultVideoInputDeviceId :: "string \<Rightarrow> engine \<Rightarrow> engine" where
  "assignDefaultVideoInputDeviceId v = setItem ''videoDeviceId'' v"

definition clearDefaultAudioInputDeviceId :: "engine \<Rightarrow> engine" where
  "clearDefaultAudioInputDeviceId = removeItem ''audioInputDeviceId''"

definition clearDefaultAudioOutputDeviceId :: "engine \<Rightarrow> engine" where
  "clearDefaultAudioOutputDeviceId = removeItem ''audioOutputDeviceId''"

definition clearDefaultVideoInputDeviceId :: "engine \<Rightarrow> engine" where
  "clearDefaultVideoInputDeviceId = removeItem ''videoDeviceId''"

definition clearAllDefaultMediaDeviceIds :: "engine \<Rightarrow> engine" where
  "clearAllDefaultMediaDeviceIds s =
     clearDefaultVideoInputDeviceId (clearDefaultAudioOutputDeviceId (clearDefaultAudioInputDeviceId s))"

text \<open>
  \<open>selectDefaultVideoSource\<close> and \<open>selectDefaultAudioSource\<close> call \<open>selectDefaultMedia\<close> of
  \<open>selectmedia.js\<close>, which captures from the first input device the browser lists and
  stores its identifier under \<open>`${kind}DeviceId`\<close>, that is \<open>videoDeviceId\<close> or
  \<open>audioDeviceId\<close>. \<open>None\<close> stands for an enumeration or a capture that fails, which rejects
  before the store is written.
\<close>

definition selectDefaultMedia :: "media_kind \<Rightarrow> string option \<Rightarrow> engine \<Rightarrow> engine" where
  "selectDefaultMedia kind first_device s =
     (case first_device of
        None \<Rightarrow> s
      | Some d \<Rightarrow> setItem ((case kind of Audio \<Rightarrow> ''audio'' | Video \<Rightarrow> ''video'') @ ''DeviceId'') d s)"

definition selectDefaultVideoSource :: "string option \<Rightarrow> engine \<Rightarrow> engine" where
  "selectDefaultVideoSource = selectDefaultMedia Video"

definition selectDefaultAudioSource :: "string option \<Rightarrow> engine \<Rightarrow> engine" where
  "selectDefaultAudioSource = selectDefaultMedia Audio"

text \<open>
  \<open>onMediaDevicesListChange(callback)\<close> notifies ErrorOccured when no callback is given, and
  hands the callback to \<open>selectmedia.js\<close> in any case; a throw rejects the promise of the
  \<open>async\<close> function.
\<close>

definition onMediaDevicesListChange :: "bool \<Rightarrow> engine \<Rightarrow> engine \<times> outcome" where
  "onMediaDevicesListChange callback s =
     (if callback then (s, Normal)
      else (case notifyOfEvent (eventCallbacks s) ErrorOccured
                   (PText (''onMediaDevicesListChange - callback was not supplied, ''
                           @ ''no change handler will be registered'')) of
              (es, out) \<Rightarrow> (perform es s, out)))"

section \<open>init and joinRoom\<close>

text \<open>
  \<open>init\<close> throws on \<open>undefined\<close>, stores anything else (also \<open>null\<close>), and returns an
  error object when the SDK does not support the browser.
\<close>

definition init :: "bool \<Rightarrow> callbacks js_arg \<Rightarrow> engine \<Rightarrow> engine \<times> (js_error + js_error option)" where
  "init isSupported event_callbacks s =
     (case event_callbacks of
        Undefined \<Rightarrow> (s, Inl (Error ''Init without Event callbacks''))
      | Null \<Rightarrow>
          (s\<lparr>eventCallbacks := None\<rparr>,
           Inr (if isSupported then None
                else Some (Error ''Sorry, this browser is not supported by Twilio Video'')))
      | Given cb \<Rightarrow>
          (s\<lparr>eventCallbacks := Some cb\<rparr>,
           Inr (if isSupported then None
                else Some (Error ''Sorry, this browser is not supported by Twilio Video''))))"

text \<open>
  \<open>if (m && !m.deviceId) m.deviceId = {exact: stored}\<close>, for an options object \<open>m\<close>
  that is there.
\<close>

definition resolveDevice :: "media_options \<Rightarrow> string option \<Rightarrow> media_options" where
  "resolveDevice m stored =
     (if \<not> device_truthy (deviceId m) then m\<lparr>deviceId := Some (Exact stored)\<rparr> else m)"

text \<open>A mutation of the options object reaches the engine's state when the object is the default one.\<close>

definition commit :: "options_ref \<Rightarrow> connect_options \<Rightarrow> engine \<Rightarrow> engine" where
  "commit ref opts s =
     (case ref of DefaultOptions \<Rightarrow> s\<lparr>defaultConnectOptions := opts\<rparr> | CallerOptions _ \<Rightarrow> s)"

text \<open>\<open>connectOptions || defaultConnectOptions\<close>: which object \<open>joinRoom\<close> works on.\<close>

definition options_arg :: "connect_options option \<Rightarrow> options_ref" where
  "options_arg connectOptions =
     (case connectOptions of None \<Rightarrow> DefaultOptions | Some opts \<Rightarrow> CallerOptions opts)"

definition reref :: "options_ref \<Rightarrow> connect_options \<Rightarrow> options_ref" where
  "reref ref opts = (case ref of DefaultOptions \<Rightarrow> DefaultOptions | CallerOptions _ \<Rightarrow> CallerOptions opts)"

text \<open>
  \<open>joinRoom\<close> up to and including the call of \<open>Video.connect\<close>: the checks, the choice of
  the options object, the device identifiers. It returns the thrown error, or the options
  handed to the SDK.
\<close>

definition joinRoom_begin ::
  "string option \<Rightarrow> string option \<Rightarrow> connect_options option \<Rightarrow> engine
     \<Rightarrow> engine \<times> (js_error + connect_options)" where
  "joinRoom_begin accessToken roomName connectOptions s =
     (if \<not> supplied accessToken then (s, Inl (Error ''User access token not supplied''))
      else if \<not> supplied roomName then (s, Inl (Error ''Room name is not supplied''))
      else if eventCallbacks s = None then
        (s, Inl (Error ''Event callbacks not registered, please register and initialize event callbacks''))
      else
        let ref = options_arg connectOptions;
            o1 = (options_of s ref)\<lparr>opt_name := roomName\<rparr>;
            ids = (case deviceIds s of None \<Rightarrow> fetchDeviceIds s | Some d \<Rightarrow> d);
            s1 = s\<lparr>deviceIds := Some ids\<rparr>
        in (case opt_audio o1 of
              None \<Rightarrow> (commit ref o1 s1, Inl (Error ''Sorry no audio info found''))
            | Some a \<Rightarrow>
                (let a' = resolveDevice a (dev_audio ids);
                     o2 = o1\<lparr>opt_audio := Some a'\<rparr>
                 in (case opt_video o2 of
                       None \<Rightarrow> (commit ref o2 s1, Inl (Error ''Sorry no video info found''))
                     | Some v \<Rightarrow>
                         (let v' = resolveDevice v (dev_video ids);
                              o3 = o2\<lparr>opt_video := Some v'\<rparr>
                          in if \<not> device_truthy (deviceId a') then
                               (commit ref o3 s1,
                                Inl (Error ''Sorry, can't access audio - no device id found''))
                             else if \<not> device_truthy (deviceId v') then
                               (commit ref o3 s1,
                                Inl (Error ''Sorry, can't access video - no device id found''))
                             else
                               (perform [Call (VideoConnect accessToken o3)]
                                  ((commit ref o3 s1)\<lparr>currentConnectOptions := Some (reref ref o3)\<rparr>),
                                Inr o3))))))"

text \<open>The \<open>then\<close> handler of \<open>Video.connect\<close>; a throw inside it reaches the \<open>catch\<close>, which rejects.\<close>

definition joinRoom_connected :: "room \<Rightarrow> engine \<Rightarrow> engine \<times> room promise" where
  "joinRoom_connected r s =
     (case notifyOfEvent (eventCallbacks s) RoomConnected (PRoom (room_sid r)) of
        (es, Throw e) \<Rightarrow> (perform es s, Rejected (Raised e))
      | (es, Normal) \<Rightarrow>
          let s1 = (perform es s)\<lparr>currentRoom := Given r\<rparr>;
              cbs = eventCallbacks s1
          in (case andThen (participantConnected cbs (localParticipant r) (JBool False))
                 (andThen (forEach (\<lambda>(k, p). participantConnected cbs p (JString k)) (participants r))
                 (andThen ([Listen (OnRoom (room_sid r)) ''participantConnected'' RoomParticipantConnected False,
                            Listen (OnRoom (room_sid r)) ''participantDisconnected'' RoomParticipantDisconnected False,
                            Listen (OnRoom (room_sid r)) ''trackSubscribed'' RoomTrackSubscribed False], Normal)
                 (andThen (notifyOfEvent cbs ExistingParticipantsReportingComplete (PRoom (room_sid r)))
                          ([Listen (OnRoom (room_sid r)) ''dominantSpeakerChanged'' RoomDominantSpeakerChanged False,
                            Listen (OnRoom (room_sid r)) ''disconnected'' RoomDisconnected True], Normal)))) of
                (es', Throw e) \<Rightarrow> (perform es' s1, Rejected (Raised e))
              | (es', Normal) \<Rightarrow> (perform es' s1, Resolved r)))"

datatype connect_result = ConnectOk room | ConnectFailed js_error

text \<open>\<open>joinRoom\<close>, given what \<open>Video.connect\<close> answers.\<close>

definition joinRoom ::
  "connect_result \<Rightarrow> string option \<Rightarrow> string option \<Rightarrow> connect_options option \<Rightarrow> engine
     \<Rightarrow> engine \<times> room promise" where
  "joinRoom sdk accessToken roomName connectOptions s =
     (case joinRoom_begin accessToken roomName connectOptions s of
        (s1, Inl e) \<Rightarrow> (s1, Rejected (Raised e))
      | (s1, Inr opts) \<Rightarrow>
          (case sdk of
             ConnectFailed e \<Rightarrow> (s1, Rejected (Raised e))
           | ConnectOk r \<Rightarrow> joinRoom_connected r s1))"

section \<open>Events of the SDK\<close>

text \<open>
  An SDK object emits an event: its listeners run in the order of their installation; a
  \<open>once\<close> listener is removed before it runs; a throw of a listener ends the emission.
\<close>

fun run_listeners ::
  "(emitter \<times> string \<times> handler \<times> bool) list \<Rightarrow> native \<Rightarrow> engine \<Rightarrow> engine \<times> outcome" where
  "run_listeners [] args s = (s, Normal)"
| "run_listeners ((em, n, h, once) # ls) args s =
     (let s1 = (if once then s\<lparr>listeners := remove1 (em, n, h, once) (listeners s)\<rparr> else s)
      in (case run_handler (eventCallbacks s1) h args of
            (es, Throw e) \<Rightarrow> (perform es s1, Throw e)
          | (es, Normal) \<Rightarrow> run_listeners ls args (perform es s1)))"

definition fire :: "emitter \<Rightarrow> string \<Rightarrow> native \<Rightarrow> engine \<Rightarrow> engine \<times> outcome" where
  "fire em n args s =
     run_listeners (filter (\<lambda>(em', n', h, once). em' = em \<and> n' = n) (listeners s)) args s"

section \<open>Local tracks\<close>

text \<open>
  What the SDK does to the room object: \<open>unpublishTrack\<close> removes the publication of the
  track from the local participant, \<open>publishTrack\<close> adds one, \<open>setPriority\<close> sets the
  priority of a publication.
\<close>

definition unpublished :: "track \<Rightarrow> room \<Rightarrow> room" where
  "unpublished t r =
     r\<lparr>localParticipant :=
         (localParticipant r)\<lparr>tracks := filter (\<lambda>pub. pub_track pub \<noteq> Some t)
                                              (tracks (localParticipant r))\<rparr>\<rparr>"

definition local_publication :: "string \<Rightarrow> track \<Rightarrow> priority \<Rightarrow> publication" where
  "local_publication tsid t prio =
     \<lparr>trackSid = tsid, pub_kind = track_kind t, isSubscribed = False,
      pub_track = Some t, pub_priority = prio\<rparr>"

definition published :: "string \<Rightarrow> track \<Rightarrow> priority \<Rightarrow> room \<Rightarrow> room" where
  "published tsid t prio r =
     r\<lparr>localParticipant :=
         (localParticipant r)\<lparr>tracks := tracks (localParticipant r) @ [local_publication tsid t prio]\<rparr>\<rparr>"

definition setPriority :: "priority \<Rightarrow> publication \<Rightarrow> publication" where
  "setPriority prio pub = pub\<lparr>pub_priority := prio\<rparr>"

definition prioritized :: "priority \<Rightarrow> room \<Rightarrow> room" where
  "prioritized prio r =
     r\<lparr>localParticipant :=
         (localParticipant r)\<lparr>tracks :=
            map (\<lambda>pub. if pub_kind pub = Video then setPriority prio pub else pub)
                (tracks (localParticipant r))\<rparr>\<rparr>"

text \<open>
  \<open>turnOffMyVideo\<close> and \<open>turnOffMyAudio\<close> differ in the kind and in their messages. The
  body is a promise executor: after the first \<open>reject\<close> the executor goes on, and the
  \<open>TypeError\<close> of reading \<open>currentRoom.localParticipant\<close> without a room ends it with the
  promise already rejected.
\<close>

definition turnOffMy ::
  "media_kind \<Rightarrow> string \<Rightarrow> string \<Rightarrow> string \<Rightarrow> string \<Rightarrow> engine \<Rightarrow> engine \<times> unit promise" where
  "turnOffMy kind missing none_found no_info failed s =
     (case currentRoom s of
        Undefined \<Rightarrow> (s, Rejected (Message missing))
      | Null \<Rightarrow> (s, Rejected (Message missing))
      | Given r \<Rightarrow>
          (case filter (\<lambda>pub. pub_kind pub = kind) (tracks (localParticipant r)) of
             [] \<Rightarrow> (s, Rejected (Message none_found))
           | pub # _ \<Rightarrow>
               (case pub_track pub of
                  None \<Rightarrow> (s, Rejected (Message no_info))
                | Some t \<Rightarrow>
                    (let s1 = (perform [Call (UnpublishTrack (track_name t)),
                                        Call (StopTrack (track_name t))] s)
                                \<lparr>currentRoom := Given (unpublished t r)\<rparr>
                     in (case trackUnsubscribed (eventCallbacks s1)
                                (PTrack (Plain (Some kind) None) (Some (sid (localParticipant r)))) of
                           (es, Throw e) \<Rightarrow> (perform es s1, Rejected (MessageOf failed e))
                         | (es, Normal) \<Rightarrow> (perform es s1, Resolved ()))))))"

definition turnOffMyVideo :: "engine \<Rightarrow> engine \<times> unit promise" where
  "turnOffMyVideo =
     turnOffMy Video ''Room, local participant or video track info is missing''
       ''No video tracks found to unpublish'' ''No video track info found to unpublish''
       ''An error occured while stopping video track - ''"

definition turnOffMyAudio :: "engine \<Rightarrow> engine \<times> unit promise" where
  "turnOffMyAudio =
     turnOffMy Audio ''Room, local participant or audio track info is missing''
       ''No audio track found to unpublish'' ''No audio track info found to unpublish''
       ''An error occured while stopping audio track - ''"

text \<open>
  What \<open>Video.createLocalAudioTrack\<close> or \<open>Video.createLocalVideoTrack\<close> answers, and what
  \<open>publishTrack\<close> answers (the SID of the new publication).
\<close>

datatype create_result = Created track | CreateFailed js_error

datatype publish_result = Published string | PublishFailed js_error

text \<open>A promise settles once: a later \<open>resolve\<close> or \<open>reject\<close> changes nothing.\<close>

definition settle :: "'a promise option \<Rightarrow> 'a promise \<Rightarrow> 'a promise" where
  "settle early later = (case early of None \<Rightarrow> later | Some first \<Rightarrow> first)"

definition media_of :: "media_kind \<Rightarrow> connect_options \<Rightarrow> media_options option" where
  "media_of kind opts = (case kind of Audio \<Rightarrow> opt_audio opts | Video \<Rightarrow> opt_video opts)"

definition with_media :: "media_kind \<Rightarrow> media_options \<Rightarrow> connect_options \<Rightarrow> connect_options" where
  "with_media kind m opts =
     (case kind of Audio \<Rightarrow> opts\<lparr>opt_audio := Some m\<rparr> | Video \<Rightarrow> opts\<lparr>opt_video := Some m\<rparr>)"

text \<open>
  \<open>turnOnMyAudio(deviceId)\<close> and \<open>turnOnMyVideo(deviceId)\<close> differ in the kind and in their
  messages. The executor rejects when \<open>currentRoom\<close> is \<open>undefined\<close> and goes on. Reading
  \<open>currentConnectOptions.audio\<close> before any connect throws, which rejects the promise unless
  it is rejected already. A device identifier that is given is written into the options
  object of the session, which is the module's default object when the connect was made
  without options. With a device identifier in the options the track is created; the
  \<open>then\<close> handler reads \<open>currentRoom.localParticipant\<close>, whose \<open>TypeError\<close> without a room
  reaches the \<open>catch\<close> of the creation; \<open>publishTrack(track)\<close> is called without options,
  and the SDK then publishes at standard priority.
\<close>

definition turnOnMy ::
  "media_kind \<Rightarrow> string \<Rightarrow> string \<Rightarrow> string \<Rightarrow> string \<Rightarrow> create_result \<Rightarrow> publish_result
     \<Rightarrow> string option \<Rightarrow> engine \<Rightarrow> engine \<times> unit promise" where
  "turnOnMy kind no_room publish_failed create_failed no_device create publish device s =
     (let early = (if currentRoom s = Undefined then Some (Rejected (Message no_room)) else None)
      in (case currentConnectOptions s of
            None \<Rightarrow> (s, settle early (Rejected (Raised TypeError)))
          | Some ref \<Rightarrow>
              (let opts = options_of s ref;
                   opts1 = (case (device, media_of kind opts) of
                              (Some d, Some m) \<Rightarrow>
                                if d \<noteq> [] then with_media kind (m\<lparr>deviceId := Some (Bare d)\<rparr>) opts
                                else opts
                            | _ \<Rightarrow> opts);
                   s1 = (commit ref opts1 s)\<lparr>currentConnectOptions := Some (reref ref opts1)\<rparr>
               in (case media_of kind opts1 of
                     None \<Rightarrow> (s1, settle early (Rejected (Message no_device)))
                   | Some m \<Rightarrow>
                       if \<not> device_truthy (deviceId m)
                       then (s1, settle early (Rejected (Message no_device)))
                       else
                         (let s2 = perform [Call (CreateLocalTrack kind m)] s1
                          in (case create of
                                CreateFailed e \<Rightarrow>
                                  (s2, settle early (Rejected (MessageOf create_failed e)))
                              | Created t \<Rightarrow>
                                  (case currentRoom s2 of
                                     Given r \<Rightarrow>
                                       (let s3 = perform [Call (PublishTrack (track_name t) None)] s2
                                        in (case publish of
                                              PublishFailed e \<Rightarrow>
                                                (s3, settle early (Rejected (MessageOf publish_failed e)))
                                            | Published tsid \<Rightarrow>
                                                (s3\<lparr>currentRoom := Given (published tsid t Standard r)\<rparr>,
                                                 settle early (Resolved ()))))
                                   | _ \<Rightarrow>
                                       (s2, settle early
                                              (Rejected (MessageOf create_failed TypeError))))))))))"

definition turnOnMyAudio ::
  "create_result \<Rightarrow> publish_result \<Rightarrow> string option \<Rightarrow> engine \<Rightarrow> engine \<times> unit promise" where
  "turnOnMyAudio =
     turnOnMy Audio ''Can't turn on audio - room is null'' ''Could not publish audio track ''
       ''Can't turn on audio - an issue occured when creating local audio track - ''
       ''Can't turn on audio - Audio device id not found''"

definition turnOnMyVideo ::
  "create_result \<Rightarrow> publish_result \<Rightarrow> string option \<Rightarrow> engine \<Rightarrow> engine \<times> unit promise" where
  "turnOnMyVideo =
     turnOnMy Video ''Can't turn on video - room is null'' ''Could not publish video track - ''
       ''Can't turn on video - an issue occured when creating local video track - ''
       ''Can't turn on video - Video device id not found''"

section \<open>Screen share\<close>

text \<open>
  \<open>createScreenTrack\<close> of \<open>screenshare.js\<close>, over what the browser answers: whether it can
  share the screen, which of the two capture calls it supports, and the first video track
  of the stream each call yields (\<open>None\<close> when the call is rejected). The result is a
  \<open>LocalVideoTrack\<close> around that stream track.
\<close>

record browser =
  canScreenshare :: bool
  supportsGetDisplayMedia :: bool
  getDisplayMedia :: "string option"
  getUserMedia :: "string option"

definition notSupported :: js_error where
  "notSupported = Error ''Screen sharing is not supported''"

definition LocalVideoTrack :: "string \<Rightarrow> track" where
  "LocalVideoTrack stream_track = \<lparr>track_name = stream_track, track_kind = Video\<rparr>"

definition createScreenTrack :: "browser \<Rightarrow> nat option \<Rightarrow> nat option \<Rightarrow> js_error + track" where
  "createScreenTrack env height width =
     (if \<not> canScreenshare env then Inl notSupported
      else if supportsGetDisplayMedia env then
        (case getDisplayMedia env of Some st \<Rightarrow> Inr (LocalVideoTrack st) | None \<Rightarrow> Inl notSupported)
      else
        (case getUserMedia env of Some st \<Rightarrow> Inr (LocalVideoTrack st) | None \<Rightarrow> Inl notSupported))"

text \<open>\<open>a || b\<close> on optional numbers: \<open>undefined\<close> and \<open>0\<close> are falsy.\<close>

fun truthy_num :: "nat option \<Rightarrow> bool" where
  "truthy_num None = False"
| "truthy_num (Some n) = (n \<noteq> 0)"

definition num_or :: "nat option \<Rightarrow> nat option \<Rightarrow> nat option" where
  "num_or a b = (case a of None \<Rightarrow> b | Some n \<Rightarrow> if n = 0 then b else a)"

definition setPriorities :: "priority \<Rightarrow> room \<Rightarrow> engine \<Rightarrow> engine" where
  "setPriorities prio r s =
     (perform (map (\<lambda>pub. Call (SetPriority (trackSid pub) prio)) (videoTracks (localParticipant r))) s)
       \<lparr>currentRoom := Given (prioritized prio r)\<rparr>"

text \<open>
  \<open>width || currentConnectOptions.video.width\<close>: the option is read only when the argument
  is falsy, and reading it throws when there are no connect options or no video options.
\<close>

definition dimension ::
  "nat option \<Rightarrow> (media_options \<Rightarrow> nat option) \<Rightarrow> engine \<Rightarrow> js_error + nat option" where
  "dimension arg field s =
     (if truthy_num arg then Inr arg
      else (case currentConnectOptions s of
              None \<Rightarrow> Inl TypeError
            | Some ref \<Rightarrow>
                (case opt_video (options_of s ref) of
                   None \<Rightarrow> Inl TypeError
                 | Some v \<Rightarrow> Inr (field v))))"

text \<open>
  \<open>startScreenShare\<close>, given the browser and what \<open>publishTrack\<close> answers. The width is
  worked out first, then the height; a throw there rejects the promise of the \<open>async\<close>
  function with the error. A throw inside the \<open>then\<close> handler reaches the \<open>catch\<close>.
\<close>

definition startScreenShare ::
  "browser \<Rightarrow> publish_result \<Rightarrow> nat option \<Rightarrow> nat option \<Rightarrow> engine \<Rightarrow> engine \<times> unit promise" where
  "startScreenShare env sdk height width s =
     (case dimension width opt_width s of
        Inl e \<Rightarrow> (s, Rejected (Raised e))
      | Inr w \<Rightarrow>
          (case dimension height opt_height s of
             Inl e \<Rightarrow> (s, Rejected (Raised e))
           | Inr h \<Rightarrow>
               (case createScreenTrack env h w of
                  Inl e \<Rightarrow> (s, Rejected (MessageOf ''An error occured while starting screen share - '' e))
                | Inr t \<Rightarrow>
                    (let s1 = s\<lparr>currentScreenTrack := Some t\<rparr>
                     in (case currentRoom s1 of
                           Given r \<Rightarrow>
                             (let s2 = perform [Call (PublishTrack (track_name t) (Some High))]
                                         (setPriorities Low r s1)
                              in (case sdk of
                                    PublishFailed e \<Rightarrow>
                                      (s2, Rejected (MessageOf ''Could not publish video track '' e))
                                  | Published tsid \<Rightarrow>
                                      (s2\<lparr>currentRoom := Given (published tsid t High (prioritized Low r))\<rparr>,
                                       Resolved ())))
                         | _ \<Rightarrow>
                             (s1, Rejected (MessageOf ''An error occured while starting screen share - ''
                                              TypeError)))))))"

text \<open>\<open>stopScreenShare\<close>: neither \<open>resolve\<close> nor \<open>reject\<close> is reached without a screen track.\<close>

definition stopScreenShare :: "engine \<Rightarrow> engine \<times> unit promise" where
  "stopScreenShare s =
     (case currentScreenTrack s of
        None \<Rightarrow> (s, Pending)
      | Some t \<Rightarrow>
          (let s1 = (perform [Call (StopTrack (track_name t))] s)\<lparr>currentScreenTrack := None\<rparr>
           in (case currentRoom s1 of
                 Given r \<Rightarrow> (setPriorities High r s1, Resolved ())
               | _ \<Rightarrow> (s1, Rejected (MessageOf ''Error when stopping screen track: '' TypeError)))))"

section \<open>leaveRoom\<close>

text \<open>
  What the SDK emits while a call into it runs: the events, in order. A throw of a listener
  ends the emission and leaves the call.
\<close>

type_synonym emission = "emitter \<times> string \<times> native"

fun emit_all :: "emission list \<Rightarrow> engine \<Rightarrow> engine \<times> outcome" where
  "emit_all [] s = (s, Normal)"
| "emit_all ((em, n, args) # rest) s =
     (case fire em n args s of
        (s1, Throw e) \<Rightarrow> (s1, Throw e)
      | (s1, Normal) \<Rightarrow> emit_all rest s1)"

text \<open>
  \<open>leaveRoom\<close>, given what the SDK emits during \<open>room.disconnect()\<close>. The promises of
  \<open>turnOffMyVideo\<close> and \<open>turnOffMyAudio\<close> are dropped. The listeners of the emitted events
  run between the call of \<open>disconnect\<close> and the assignment \<open>currentRoom = null\<close>. As the SDK
  documents it, a room that is disconnected, also by the local participant's own
  \<open>disconnect()\<close>, unsubscribes the tracks of the remote participants and emits its
  \<open>disconnected\<close> event with the room and no error.
\<close>

definition leaveRoom :: "emission list \<Rightarrow> string \<Rightarrow> engine \<Rightarrow> engine \<times> outcome" where
  "leaveRoom emitted roomName s =
     (let s1 = fst (turnOffMyVideo s);
          s2 = fst (turnOffMyAudio s1);
          cbs = eventCallbacks s2
      in (case notifyOfEvent cbs ParticipantDisconnected
                 (PParticipant (case currentRoom s2 of
                                  Given r \<Rightarrow> Some (sid (localParticipant r)) | _ \<Rightarrow> None)) of
            (es, Throw e) \<Rightarrow> (perform es s2, Throw e)
          | (es, Normal) \<Rightarrow>
              (let s3 = perform es s2
               in (case currentRoom s3 of
                     Given r \<Rightarrow>
                       (case andThen
                               (forEach (\<lambda>(k, p). notifyOfEvent cbs ParticipantDisconnected
                                                     (PParticipant (Some (sid p)))) (participants r))
                               (notifyOfEvent cbs Debug (PText (''Disconnected from room '' @ roomName))) of
                          (es', Throw e) \<Rightarrow> (perform es' s3, Throw e)
                        | (es', Normal) \<Rightarrow>
                            (case emit_all emitted
                                    (perform (es' @ [Call (RoomDisconnect (room_sid r))]) s3) of
                               (s4, Throw e) \<Rightarrow> (s4, Throw e)
                             | (s4, Normal) \<Rightarrow> (s4\<lparr>currentRoom := Null\<rparr>, Normal)))
                   | _ \<Rightarrow> (s3, Normal)))))"

section \<open>Notions for the theorems\<close>

text \<open>
  The effects of wrapping one participant: \<open>participantConnected\<close> with callbacks
  registered and a Boolean \<open>isRemote\<close>.
\<close>

definition wrapped :: "callbacks \<Rightarrow> participant \<Rightarrow> bool \<Rightarrow> effect list" where
  "wrapped cb p isRemote = fst (participantConnected (Some cb) p (JBool isRemote))"

text \<open>
  An effect that belongs to the wrapping of a participant: the notification of the
  participant or of one of its tracks, or the installation of a listener.
\<close>

fun roster_effect :: "effect \<Rightarrow> bool" where
  "roster_effect (Notify ev a d) = (ev = ParticipantConnected \<or> ev = ParticipantSubscribedTrack)"
| "roster_effect (Listen em n h once) = True"
| "roster_effect (Call c) = False"

text \<open>The device identifier of one kind in the options of the current session.\<close>

definition session_device :: "(connect_options \<Rightarrow> media_options option) \<Rightarrow> engine \<Rightarrow> device_id option" where
  "session_device sel s =
     (case currentConnectOptions s of
        None \<Rightarrow> None
      | Some ref \<Rightarrow> (case sel (options_of s ref) of None \<Rightarrow> None | Some m \<Rightarrow> deviceId m))"

text \<open>
  The device identifiers a connect works with: the cached ones, or those it reads from the
  store when none are cached; and the options object as a connect that passes its checks
  leaves it.
\<close>

definition connect_ids :: "engine \<Rightarrow> device_ids" where
  "connect_ids s = (case deviceIds s of None \<Rightarrow> fetchDeviceIds s | Some d \<Rightarrow> d)"

definition resolved_options :: "string option \<Rightarrow> connect_options option \<Rightarrow> engine \<Rightarrow> connect_options" where
  "resolved_options roomName connectOptions s =
     (options_of s (options_arg connectOptions))
       \<lparr>opt_name := roomName,
        opt_audio := map_option (\<lambda>a. resolveDevice a (dev_audio (connect_ids s)))
                       (opt_audio (options_of s (options_arg connectOptions))),
        opt_video := map_option (\<lambda>v. resolveDevice v (dev_video (connect_ids s)))
                       (opt_video (options_of s (options_arg connectOptions)))\<rparr>"

text \<open>Options that name no device: both media objects are there, without a device identifier.\<close>

definition no_explicit_device :: "connect_options \<Rightarrow> bool" where
  "no_explicit_device opts =
     (case (opt_audio opts, opt_video opts) of
        (Some a, Some v) \<Rightarrow> \<not> device_truthy (deviceId a) \<and> \<not> device_truthy (deviceId v)
      | _ \<Rightarrow> False)"

text \<open>
  What a connect needs of the options object it works on, for given cached device
  identifiers, to resolve both devices to the cached ones: both media objects are there,
  and each holds no device identifier or \<open>{exact: cached}\<close>.
\<close>

definition resolves_to :: "device_ids \<Rightarrow> connect_options \<Rightarrow> bool" where
  "resolves_to ids opts =
     (case (opt_audio opts, opt_video opts) of
        (Some a, Some v) \<Rightarrow>
          (\<not> device_truthy (deviceId a) \<or> deviceId a = Some (Exact (dev_audio ids)))
          \<and> (\<not> device_truthy (deviceId v) \<or> deviceId v = Some (Exact (dev_video ids)))
      | _ \<Rightarrow> False)"

text \<open>
  Two states of the engine with the same settings: callbacks, options of the session,
  cached device identifiers, store and default options.
\<close>

definition same_settings :: "engine \<Rightarrow> engine \<Rightarrow> bool" where
  "same_settings s s' =
     (eventCallbacks s' = eventCallbacks s \<and> currentConnectOptions s' = currentConnectOptions s
      \<and> deviceIds s' = deviceIds s \<and> localStorage s' = localStorage s
      \<and> defaultConnectOptions s' = defaultConnectOptions s)"

text \<open>The preference operations of the public interface.\<close>

datatype pref_op =
    AssignAudioInput string | AssignAudioOutput string | AssignVideoInput string
  | ClearAudioInput | ClearAudioOutput | ClearVideoInput | ClearAll

fun change_pref :: "pref_op \<Rightarrow> engine \<Rightarrow> engine" where
  "change_pref (AssignAudioInput v) = assignDefaultAudioInputDeviceId v"
| "change_pref (AssignAudioOutput v) = assignDefaultAudioOutputDeviceId v"
| "change_pref (AssignVideoInput v) = assignDefaultVideoInputDeviceId v"
| "change_pref ClearAudioInput = clearDefaultAudioInputDeviceId"
| "change_pref ClearAudioOutput = clearDefaultAudioOutputDeviceId"
| "change_pref ClearVideoInput = clearDefaultVideoInputDeviceId"
| "change_pref ClearAll = clearAllDefaultMediaDeviceIds"

text \<open>
  The video publications of the local participant of the current room, and whether
  \<open>stop\<close> has been called on a track.
\<close>

definition published_video :: "engine \<Rightarrow> publication list" where
  "published_video s = (case currentRoom s of Given r \<Rightarrow> videoTracks (localParticipant r) | _ \<Rightarrow> [])"

definition stopped :: "engine \<Rightarrow> track \<Rightarrow> bool" where
  "stopped s t = (Call (StopTrack (track_name t)) \<in> set (trace s))"

text \<open>
  What happens to an engine: a call of one of its operations, with what the SDK or the
  browser answers; an event that an SDK object emits to the installed listeners; the SDK
  changing the contents of the room object the engine holds. A run is a sequence of these.
  The operations of the interface that are left out (the listings of devices,
  \<open>changeVideoSource\<close>, \<open>changeAudioSource\<close>, the helpers for URLs, credentials and the
  microphone level) are defined outside the engine's closure: they reach neither its
  variables nor \<open>notifyOfEvent\<close>, and those among the sources leave the store alone.
\<close>

datatype input =
    Init bool "callbacks js_arg"
  | JoinRoom connect_result "string option" "string option" "connect_options option"
  | LeaveRoom "emission list" string
  | TurnOnMyAudio create_result publish_result "string option"
  | TurnOnMyVideo create_result publish_result "string option"
  | TurnOffMyAudio
  | TurnOffMyVideo
  | StartScreenShare browser publish_result "nat option" "nat option"
  | StopScreenShare
  | ChangePref pref_op
  | SelectDefaultVideoSource "string option"
  | SelectDefaultAudioSource "string option"
  | OnMediaDevicesListChange bool
  | Emit emitter string native
  | RoomUpdate room

fun step :: "input \<Rightarrow> engine \<Rightarrow> engine" where
  "step (Init isSupported event_callbacks) s = fst (init isSupported event_callbacks s)"
| "step (JoinRoom sdk accessToken roomName connectOptions) s =
     fst (joinRoom sdk accessToken roomName connectOptions s)"
| "step (LeaveRoom emitted roomName) s = fst (leaveRoom emitted roomName s)"
| "step (TurnOnMyAudio create publish device) s = fst (turnOnMyAudio create publish device s)"
| "step (TurnOnMyVideo create publish device) s = fst (turnOnMyVideo create publish device s)"
| "step TurnOffMyAudio s = fst (turnOffMyAudio s)"
| "step TurnOffMyVideo s = fst (turnOffMyVideo s)"
| "step (StartScreenShare env publish height width) s = fst (startScreenShare env publish height width s)"
| "step StopScreenShare s = fst (stopScreenShare s)"
| "step (ChangePref x) s = change_pref x s"
| "step (SelectDefaultVideoSource first_device) s = selectDefaultVideoSource first_device s"
| "step (SelectDefaultAudioSource first_device) s = selectDefaultAudioSource first_device s"
| "step (OnMediaDevicesListChange callback) s = fst (onMediaDevicesListChange callback s)"
| "step (Emit em n args) s = fst (fire em n args s)"
| "step (RoomUpdate r') s =
     (case currentRoom s of
        Given r \<Rightarrow> if room_sid r' = room_sid r then s\<lparr>currentRoom := Given r'\<rparr> else s
      | _ \<Rightarrow> s)"

definition run :: "input list \<Rightarrow> engine \<Rightarrow> engine" where
  "run ins s = fold step ins s"

text \<open>Whether an input is a \<open>turnOnMyAudio\<close> or \<open>turnOnMyVideo\<close> call that names a device.\<close>

fun names_device :: "input \<Rightarrow> bool" where
  "names_device (TurnOnMyAudio create publish device) = supplied device"
| "names_device (TurnOnMyVideo create publish device) = supplied device"
| "names_device _ = False"

text \<open>
  The publications the SDK hands to the engine with an input: those of the participants of
  the room a connect yields, of a participant that an event passes, or the publication
  that an event passes.
\<close>

fun shown :: "native \<Rightarrow> publication list" where
  "shown (NParticipant p) = tracks p"
| "shown (NPublication pub) = [pub]"
| "shown _ = []"

fun handed :: "input \<Rightarrow> publication list" where
  "handed (JoinRoom (ConnectOk r) accessToken roomName connectOptions) =
     tracks (localParticipant r) @ concat (map (\<lambda>(k, p). tracks p) (participants r))"
| "handed (Emit em n args) = shown args"
| "handed (LeaveRoom emitted roomName) = concat (map (\<lambda>(em, n, args). shown args) emitted)"
| "handed _ = []"

text \<open>The kinds of the forced unpublish that an input may notify.\<close>

fun forced :: "input \<Rightarrow> media_kind list" where
  "forced TurnOffMyVideo = [Video]"
| "forced TurnOffMyAudio = [Audio]"
| "forced (LeaveRoom emitted roomName) = [Video, Audio]"
| "forced _ = []"

text \<open>
  What the track member of a track notification is, given the publications handed to the
  engine and the kinds of forced unpublish: the SDK's track object, which has its kind; or
  a copy of one of the publications, with the SID of the publication and with the kind of
  its track exactly when the publication has its track; or the literal of a forced
  unpublish, with one of the kinds and without SID.
\<close>

fun described :: "publication list \<Rightarrow> media_kind list \<Rightarrow> descriptor \<Rightarrow> bool" where
  "described pubs kinds (TrackObject t) = (descr_kind (TrackObject t) = Some (track_kind t))"
| "described pubs kinds (Plain k x) =
     ((\<exists>pub \<in> set pubs. k = map_option track_kind (pub_track pub) \<and> x = Some (trackSid pub))
      \<or> (x = None \<and> (\<exists>kind \<in> set kinds. k = Some kind)))"

text \<open>
  What every track notification carries: a participant that is not \<open>null\<close>, and a track
  member as described. Other effects are not constrained.
\<close>

fun carries :: "publication list \<Rightarrow> media_kind list \<Rightarrow> effect \<Rightarrow> bool" where
  "carries pubs kinds (Notify ev a d) =
     (if ev = ParticipantSubscribedTrack \<or> ev = ParticipantUnsubscribedTrack
      then (case a of PTrack tr p \<Rightarrow> p \<noteq> None \<and> described pubs kinds tr | _ \<Rightarrow> False)
      else True)"
| "carries pubs kinds (Listen em n h once) = True"
| "carries pubs kinds (Call c) = True"

text \<open>The participants of the ParticipantDisconnected notifications among a list of effects, in order.\<close>

fun disconnection_of :: "effect \<Rightarrow> string option list" where
  "disconnection_of (Notify ev a d) =
     (case a of PParticipant p \<Rightarrow> (if ev = ParticipantDisconnected then [p] else []) | _ \<Rightarrow> [])"
| "disconnection_of (Listen em n h once) = []"
| "disconnection_of (Call c) = []"

definition disconnections :: "effect list \<Rightarrow> string option list" where
  "disconnections es = concat (map disconnection_of es)"

text \<open>The notifications among a list of effects, in order.\<close>

fun notification_of :: "effect \<Rightarrow> (conference_event \<times> payload) list" where
  "notification_of (Notify ev a d) = [(ev, a)]"
| "notification_of (Listen em n h once) = []"
| "notification_of (Call c) = []"

definition notifications :: "effect list \<Rightarrow> (conference_event \<times> payload) list" where
  "notifications es = concat (map notification_of es)"

section \<open>A session to run the engine on\<close>

definition example_defaults :: connect_options where
  "example_defaults =
     \<lparr>opt_name = None,
      opt_audio = Some \<lparr>deviceId = None, opt_width = None, opt_height = None\<rparr>,
      opt_video = Some \<lparr>deviceId = None, opt_width = Some 1280, opt_height = Some 720\<rparr>\<rparr>"

definition camera :: track where
  "camera = \<lparr>track_name = ''camera'', track_kind = Video\<rparr>"

definition microphone :: track where
  "microphone = \<lparr>track_name = ''microphone'', track_kind = Audio\<rparr>"

definition example_local :: participant where
  "example_local =
     \<lparr>sid = ''PA-local'',
      tracks = [\<lparr>trackSid = ''MT-mic'', pub_kind = Audio, isSubscribed = False,
                 pub_track = Some microphone, pub_priority = Standard\<rparr>,
                \<lparr>trackSid = ''MT-cam'', pub_kind = Video, isSubscribed = False,
                 pub_track = Some camera, pub_priority = Standard\<rparr>]\<rparr>"

definition example_remote :: participant where
  "example_remote =
     \<lparr>sid = ''PA-remote'',
      tracks = [\<lparr>trackSid = ''MT-far'', pub_kind = Video, isSubscribed = True,
                 pub_track = Some \<lparr>track_name = ''far-camera'', track_kind = Video\<rparr>,
                 pub_priority = Standard\<rparr>]\<rparr>"

definition example_room :: room where
  "example_room =
     \<lparr>room_sid = ''RM-1'', localParticipant = example_local,
      participants = [(''PA-remote'', example_remote)]\<rparr>"

definition idle_engine :: engine where
  "idle_engine = new_engine example_defaults []"

definition registered :: engine where
  "registered = fst (init True (Given registerCallbacks) idle_engine)"

text \<open>The engine after a connect to a room, with the default options.\<close>

definition connected_to :: "room \<Rightarrow> engine" where
  "connected_to r = fst (joinRoom (ConnectOk r) (Some ''token'') (Some ''lobby'') None registered)"

text \<open>Rooms whose local participant publishes no video, and a video publication without track.\<close>

definition audio_only_room :: room where
  "audio_only_room =
     \<lparr>room_sid = ''RM-2'',
      localParticipant =
        \<lparr>sid = ''PA-local'',
         tracks = [\<lparr>trackSid = ''MT-mic'', pub_kind = Audio, isSubscribed = False,
                    pub_track = Some microphone, pub_priority = Standard\<rparr>]\<rparr>,
      participants = []\<rparr>"

definition trackless_room :: room where
  "trackless_room =
     \<lparr>room_sid = ''RM-3'',
      localParticipant =
        \<lparr>sid = ''PA-local'',
         tracks = [\<lparr>trackSid = ''MT-cam'', pub_kind = Video, isSubscribed = False,
                    pub_track = None, pub_priority = Standard\<rparr>]\<rparr>,
      participants = []\<rparr>"

definition second_room :: room where
  "second_room =
     \<lparr>room_sid = ''RM-9'',
      localParticipant = \<lparr>sid = ''PA-again'', tracks = []\<rparr>,
      participants = [(''PA-other'', \<lparr>sid = ''PA-other'', tracks = []\<rparr>)]\<rparr>"

text \<open>A browser that shares the screen through \<open>getDisplayMedia\<close>, yielding a given stream track.\<close>

definition sharing_browser :: "string \<Rightarrow> browser" where
  "sharing_browser stream_track =
     \<lparr>canScreenshare = True, supportsGetDisplayMedia = True,
      getDisplayMedia = Some stream_track, getUserMedia = None\<rparr>"

text \<open>Two screen shares started in succession in the example session, then a stop.\<close>

definition one_share :: engine where
  "one_share =
     fst (startScreenShare (sharing_browser ''screen-1'') (Published ''MT-s1'') None None
            (connected_to example_room))"

definition two_shares :: engine where
  "two_shares =
     fst (startScreenShare (sharing_browser ''screen-2'') (Published ''MT-s2'') None None one_share)"

definition shares_stopped :: engine where
  "shares_stopped = fst (stopScreenShare two_shares)"

text \<open>
  A publication of the remote participant that was never subscribed to (no track), and the
  example session after the participant unpublishes it, as a run of a new engine.
\<close>

definition trackless_far :: publication where
  "trackless_far =
     \<lparr>trackSid = ''MT-far'', pub_kind = Video, isSubscribed = False,
      pub_track = None, pub_priority = Standard\<rparr>"

definition far_unpublished :: engine where
  "far_unpublished =
     fst (fire (OnParticipant ''PA-remote'') ''trackUnpublished'' (NPublication trackless_far)
            (connected_to example_room))"

definition unpublishing_run :: "input list" where
  "unpublishing_run =
     [Init True (Given registerCallbacks),
      JoinRoom (ConnectOk example_room) (Some ''token'') (Some ''lobby'') None,
      Emit (OnParticipant ''PA-remote'') ''trackUnpublished'' (NPublication trackless_far)]"

text \<open>
  What the SDK emits when the example room is disconnected: the subscribed track of the
  remote participant is unsubscribed, then the room emits \<open>disconnected\<close> with the room (the
  local tracks are unpublished by then) and no error. The example session after
  \<open>leaveRoom\<close>.
\<close>

definition far_camera :: track where
  "far_camera = \<lparr>track_name = ''far-camera'', track_kind = Video\<rparr>"

definition example_disconnect :: "emission list" where
  "example_disconnect =
     [(OnPublication ''MT-far'', ''unsubscribed'', NTrack far_camera),
      (OnParticipant ''PA-remote'', ''trackUnsubscribed'', NTrack far_camera),
      (OnRoom ''RM-1'', ''disconnected'',
         NDisconnected (unpublished microphone (unpublished camera example_room)) None)]"

definition example_left :: engine where
  "example_left = fst (leaveRoom example_disconnect ''lobby'' (connected_to example_room))"

text \<open>
  A stored camera and a first connect; then two preference changes, a \<open>turnOnMyVideo\<close>
  that names no device and a \<open>leaveRoom\<close>; then a second connect.
\<close>

definition stored_cam1 :: engine where
  "stored_cam1 = assignDefaultVideoInputDeviceId ''cam-1'' registered"

definition after_first :: engine where
  "after_first =
     fst (joinRoom (ConnectOk example_room) (Some ''token'') (Some ''lobby'') None stored_cam1)"

definition spare_camera :: track where
  "spare_camera = \<lparr>track_name = ''spare-camera'', track_kind = Video\<rparr>"

definition between :: "input list" where
  "between =
     [ChangePref (AssignVideoInput ''cam-2''), ChangePref ClearAudioInput,
      TurnOnMyVideo (Created spare_camera) (Published ''MT-spare'') None,
      LeaveRoom example_disconnect ''lobby'']"

definition after_changes :: engine where
  "after_changes = run between after_first"

definition after_second :: engine where
  "after_second =
     fst (joinRoom (ConnectOk second_room) (Some ''token'') (Some ''lobby'') None after_changes)"

text \<open>
  The same, but \<open>turnOnMyVideo\<close> names a device after the first connect; then a
  \<open>leaveRoom\<close> and a second connect.
\<close>

definition camera_named :: engine where
  "camera_named =
     fst (turnOnMyVideo (Created spare_camera) (Published ''MT-spare'') (Some ''cam-X'') after_first)"

definition after_named :: engine where
  "after_named =
     fst (joinRoom (ConnectOk second_room) (Some ''token'') (Some ''lobby'') None
            (fst (leaveRoom example_disconnect ''lobby'' camera_named)))"

section \<open>Basic facts\<close>

lemma perform_fields [simp]:
  "eventCallbacks (perform es s) = eventCallbacks s"
  "currentRoom (perform es s) = currentRoom s"
  "currentConnectOptions (perform es s) = currentConnectOptions s"
  "currentScreenTrack (perform es s) = currentScreenTrack s"
  "deviceIds (perform es s) = deviceIds s"
  "localStorage (perform es s) = localStorage s"
  "defaultConnectOptions (perform es s) = defaultConnectOptions s"
  "listeners (perform es s) = listeners s @ concat (map listener_of es)"
  "trace (perform es s) = trace s @ es"
  by (simp_all add: perform_def)

lemma perform_Nil [simp]: "perform [] s = s"
  by (simp add: perform_def)

lemma notifyOfEvent_Some [simp]:
  "notifyOfEvent (Some cb) ev a = ([Notify ev a (has_callback cb ev)], Normal)"
  by (simp add: notifyOfEvent_def)

lemma notifyOfEvent_None [simp]: "notifyOfEvent None ev a = ([], Throw TypeError)"
  by (simp add: notifyOfEvent_def)

lemma andThen_Normal [simp]: "andThen (es, Normal) m = (es @ fst m, snd m)"
  by (cases m) simp

lemma andThen_Normal_snd: "snd a = Normal \<Longrightarrow> andThen a b = (fst a @ fst b, snd b)"
  by (cases a; cases b) simp

lemma forEach_Normal:
  "(\<And>x. x \<in> set xs \<Longrightarrow> snd (f x) = Normal) \<Longrightarrow>
   forEach f xs = (concat (map (\<lambda>x. fst (f x)) xs), Normal)"
  by (induction xs) (simp_all add: andThen_Normal_snd)

lemma setupTrackMuteEvents_Normal [simp]: "snd (setupTrackMuteEvents tr p) = Normal"
  by (simp add: setupTrackMuteEvents_def split: option.split)

lemma attachPublication_Normal [simp]: "snd (attachPublication (Some cb) p b pub) = Normal"
  by (simp add: attachPublication_def trackSubscribed_def andThen_Normal_snd)

lemma participantConnected_Normal [simp]: "snd (participantConnected (Some cb) p v) = Normal"
  by (simp add: participantConnected_def forEach_Normal)

text \<open>
  The remote participants of the room reach \<open>participantConnected\<close> through \<open>Map.forEach\<close>,
  which passes the key as second argument: \<open>isRemote\<close> is the participant's SID, a
  non-empty string, and counts as \<open>true\<close>.
\<close>

lemma participantConnected_key:
  "k \<noteq> [] \<Longrightarrow> participantConnected cbs p (JString k) = participantConnected cbs p (JBool True)"
  by (simp add: participantConnected_def isRemote_of_def)

lemma roster_effect_attach:
  "e \<in> set (fst (attachPublication (Some cb) p b pub)) \<Longrightarrow> roster_effect e"
  by (auto simp add: attachPublication_def trackSubscribed_def setupTrackMuteEvents_def
        split: if_splits option.splits)

lemma roster_effect_wrapped: "e \<in> set (wrapped cb p b) \<Longrightarrow> roster_effect e"
  by (auto simp add: wrapped_def participantConnected_def forEach_Normal dest: roster_effect_attach)

lemma joinRoom_connected_Some:
  assumes "eventCallbacks s = Some cb" and "\<forall>(k, p) \<in> set (participants r). k \<noteq> []"
  shows "joinRoom_connected r s =
     (perform
        (Notify RoomConnected (PRoom (room_sid r)) (has_callback cb RoomConnected)
         # wrapped cb (localParticipant r) False
         @ concat (map (\<lambda>(k, p). wrapped cb p True) (participants r))
         @ [Listen (OnRoom (room_sid r)) ''participantConnected'' RoomParticipantConnected False,
            Listen (OnRoom (room_sid r)) ''participantDisconnected'' RoomParticipantDisconnected False,
            Listen (OnRoom (room_sid r)) ''trackSubscribed'' RoomTrackSubscribed False,
            Notify ExistingParticipantsReportingComplete (PRoom (room_sid r))
              (has_callback cb ExistingParticipantsReportingComplete),
            Listen (OnRoom (room_sid r)) ''dominantSpeakerChanged'' RoomDominantSpeakerChanged False,
            Listen (OnRoom (room_sid r)) ''disconnected'' RoomDisconnected True])
        (s\<lparr>currentRoom := Given r\<rparr>), Resolved r)"
proof -
  have each: "\<And>x. x \<in> set (participants r) \<Longrightarrow>
      (case x of (k, p) \<Rightarrow> participantConnected (Some cb) p (JString k)) =
      (case x of (k, p) \<Rightarrow> participantConnected (Some cb) p (JBool True))"
    using assms(2) by (auto simp add: participantConnected_key)
  have roster: "forEach (\<lambda>(k, p). participantConnected (Some cb) p (JString k)) (participants r) =
      (concat (map (\<lambda>(k, p). wrapped cb p True) (participants r)), Normal)"
  proof -
    have "forEach (\<lambda>(k, p). participantConnected (Some cb) p (JString k)) (participants r) =
        (concat (map (\<lambda>x. fst (case x of (k, p) \<Rightarrow> participantConnected (Some cb) p (JString k)))
           (participants r)), Normal)"
      by (rule forEach_Normal) (auto split: prod.splits)
    also have "map (\<lambda>x. fst (case x of (k, p) \<Rightarrow> participantConnected (Some cb) p (JString k)))
           (participants r) = map (\<lambda>(k, p). wrapped cb p True) (participants r)"
      using each by (auto simp add: wrapped_def split: prod.splits)
    finally show ?thesis .
  qed
  show ?thesis
    using assms(1)
    by (simp add: joinRoom_connected_def roster andThen_Normal_snd wrapped_def perform_def Let_def)
qed

lemma turnOffMyVideo_unfold:
  "turnOffMyVideo s =
     (case currentRoom s of
        Undefined \<Rightarrow> (s, Rejected (Message ''Room, local participant or video track info is missing''))
      | Null \<Rightarrow> (s, Rejected (Message ''Room, local participant or video track info is missing''))
      | Given r \<Rightarrow>
          (case videoTracks (localParticipant r) of
             [] \<Rightarrow> (s, Rejected (Message ''No video tracks found to unpublish''))
           | pub # _ \<Rightarrow>
               (case pub_track pub of
                  None \<Rightarrow> (s, Rejected (Message ''No video track info found to unpublish''))
                | Some t \<Rightarrow>
                    (let s1 = (perform [Call (UnpublishTrack (track_name t)),
                                        Call (StopTrack (track_name t))] s)
                                \<lparr>currentRoom := Given (unpublished t r)\<rparr>
                     in (case trackUnsubscribed (eventCallbacks s1)
                                (PTrack (Plain (Some Video) None) (Some (sid (localParticipant r)))) of
                           (es, Throw e) \<Rightarrow>
                             (perform es s1, Rejected (MessageOf ''An error occured while stopping video track - '' e))
                         | (es, Normal) \<Rightarrow> (perform es s1, Resolved ()))))))"
  unfolding turnOffMyVideo_def turnOffMy_def videoTracks_def by (rule refl)

section \<open>Facts about joinRoom\<close>

lemma device_truthy_resolveDevice [simp]: "device_truthy (deviceId (resolveDevice m x))"
  by (simp add: resolveDevice_def)

lemma resolveDevice_falsy:
  "\<not> device_truthy (deviceId m) \<Longrightarrow> deviceId (resolveDevice m x) = Some (Exact x)"
  by (simp add: resolveDevice_def)

lemma resolveDevice_truthy:
  "device_truthy (deviceId m) \<Longrightarrow> resolveDevice m x = m"
  by (simp add: resolveDevice_def)

lemma commit_fields [simp]:
  "eventCallbacks (commit ref opts s) = eventCallbacks s"
  "localStorage (commit ref opts s) = localStorage s"
  "deviceIds (commit ref opts s) = deviceIds s"
  "currentRoom (commit ref opts s) = currentRoom s"
  "currentScreenTrack (commit ref opts s) = currentScreenTrack s"
  "currentConnectOptions (commit ref opts s) = currentConnectOptions s"
  "listeners (commit ref opts s) = listeners s"
  "trace (commit ref opts s) = trace s"
  by (simp_all add: commit_def split: options_ref.split)

lemma joinRoom_begin_ok:
  assumes "supplied accessToken" and "supplied roomName" and "eventCallbacks s = Some cb"
    and "opt_audio (options_of s (options_arg connectOptions)) = Some a"
    and "opt_video (options_of s (options_arg connectOptions)) = Some v"
  shows "joinRoom_begin accessToken roomName connectOptions s =
     (perform [Call (VideoConnect accessToken (resolved_options roomName connectOptions s))]
        ((commit (options_arg connectOptions) (resolved_options roomName connectOptions s)
            (s\<lparr>deviceIds := Some (connect_ids s)\<rparr>))
          \<lparr>currentConnectOptions :=
             Some (reref (options_arg connectOptions) (resolved_options roomName connectOptions s))\<rparr>),
      Inr (resolved_options roomName connectOptions s))"
  unfolding joinRoom_begin_def resolved_options_def connect_ids_def Let_def
  using assms by simp

lemma joinRoom_begin_deviceIds:
  assumes "supplied accessToken" and "supplied roomName" and "eventCallbacks s = Some cb"
  shows "deviceIds (fst (joinRoom_begin accessToken roomName connectOptions s)) = Some (connect_ids s)"
  unfolding joinRoom_begin_def connect_ids_def Let_def
  using assms by (simp split: option.split)

lemma joinRoom_connected_fields [simp]:
  "eventCallbacks (fst (joinRoom_connected r s)) = eventCallbacks s"
  "currentConnectOptions (fst (joinRoom_connected r s)) = currentConnectOptions s"
  "currentScreenTrack (fst (joinRoom_connected r s)) = currentScreenTrack s"
  "deviceIds (fst (joinRoom_connected r s)) = deviceIds s"
  "localStorage (fst (joinRoom_connected r s)) = localStorage s"
  "defaultConnectOptions (fst (joinRoom_connected r s)) = defaultConnectOptions s"
  by (simp_all add: joinRoom_connected_def Let_def split: prod.split outcome.split)

lemma options_of_cong:
  "defaultConnectOptions s' = defaultConnectOptions s \<Longrightarrow> options_of s' ref = options_of s ref"
  by (simp add: options_of_def split: options_ref.split)

lemma session_device_cong:
  "defaultConnectOptions s' = defaultConnectOptions s \<Longrightarrow>
   currentConnectOptions s' = currentConnectOptions s \<Longrightarrow>
   session_device sel s' = session_device sel s"
  by (simp add: session_device_def options_of_def split: option.split options_ref.split)

lemma joinRoom_begin_fields [simp]:
  "eventCallbacks (fst (joinRoom_begin accessToken roomName connectOptions s)) = eventCallbacks s"
  "localStorage (fst (joinRoom_begin accessToken roomName connectOptions s)) = localStorage s"
  "currentRoom (fst (joinRoom_begin accessToken roomName connectOptions s)) = currentRoom s"
  "currentScreenTrack (fst (joinRoom_begin accessToken roomName connectOptions s)) = currentScreenTrack s"
  by (simp_all add: joinRoom_begin_def Let_def split: option.split)

lemma joinRoom_fst:
  "fst (joinRoom sdk accessToken roomName connectOptions s) =
     fst (joinRoom_begin accessToken roomName connectOptions s)
   \<or> (\<exists>r. fst (joinRoom sdk accessToken roomName connectOptions s) =
          fst (joinRoom_connected r (fst (joinRoom_begin accessToken roomName connectOptions s))))"
  by (auto simp add: joinRoom_def split: prod.split sum.split connect_result.split)

lemma joinRoom_fields:
  "eventCallbacks (fst (joinRoom sdk accessToken roomName connectOptions s)) = eventCallbacks s"
  "localStorage (fst (joinRoom sdk accessToken roomName connectOptions s)) = localStorage s"
  "currentScreenTrack (fst (joinRoom sdk accessToken roomName connectOptions s)) = currentScreenTrack s"
  "deviceIds (fst (joinRoom sdk accessToken roomName connectOptions s)) =
     deviceIds (fst (joinRoom_begin accessToken roomName connectOptions s))"
  "currentConnectOptions (fst (joinRoom sdk accessToken roomName connectOptions s)) =
     currentConnectOptions (fst (joinRoom_begin accessToken roomName connectOptions s))"
  "defaultConnectOptions (fst (joinRoom sdk accessToken roomName connectOptions s)) =
     defaultConnectOptions (fst (joinRoom_begin accessToken roomName connectOptions s))"
  using joinRoom_fst [of sdk accessToken roomName connectOptions s]
  by auto

lemma session_device_joinRoom:
  "session_device sel (fst (joinRoom sdk accessToken roomName connectOptions s)) =
   session_device sel (fst (joinRoom_begin accessToken roomName connectOptions s))"
  by (rule session_device_cong) (simp_all add: joinRoom_fields)

lemma session_device_begin:
  assumes "supplied accessToken" and "supplied roomName" and "eventCallbacks s = Some cb"
    and "opt_audio (options_of s (options_arg connectOptions)) = Some a"
    and "opt_video (options_of s (options_arg connectOptions)) = Some v"
  shows "session_device sel (fst (joinRoom_begin accessToken roomName connectOptions s)) =
     (case sel (resolved_options roomName connectOptions s) of None \<Rightarrow> None | Some m \<Rightarrow> deviceId m)"
proof (cases connectOptions)
  case None
  then show ?thesis
    unfolding joinRoom_begin_ok [OF assms]
    by (simp add: session_device_def options_of_def commit_def reref_def options_arg_def)
next
  case (Some opts)
  then show ?thesis
    unfolding joinRoom_begin_ok [OF assms]
    by (simp add: session_device_def options_of_def reref_def options_arg_def)
qed

section \<open>Validation of connect\<close>

text \<open>
  Claim C4. \<open>joinRoom\<close> checks the access token, then the room name, then the registered
  callbacks, and throws at the first check that fails: "User access token not supplied"
  (MissingCredentials), "Room name is not supplied" (MissingRoomName), "Event callbacks
  not registered, ..." (HandlersNotRegistered). In each case the promise is rejected with
  that error and the engine is returned as it was: no room is set, nothing is added to the
  trace, so \<open>Video.connect\<close> is not called, and an idle engine stays idle.
\<close>

theorem joinRoom_validation:
  "(\<not> supplied accessToken \<longrightarrow>
      joinRoom sdk accessToken roomName connectOptions s =
        (s, Rejected (Raised (Error ''User access token not supplied''))))
   \<and> (supplied accessToken \<and> \<not> supplied roomName \<longrightarrow>
      joinRoom sdk accessToken roomName connectOptions s =
        (s, Rejected (Raised (Error ''Room name is not supplied''))))
   \<and> (supplied accessToken \<and> supplied roomName \<and> eventCallbacks s = None \<longrightarrow>
      joinRoom sdk accessToken roomName connectOptions s =
        (s, Rejected (Raised (Error
           ''Event callbacks not registered, please register and initialize event callbacks''))))"
  by (simp add: joinRoom_def joinRoom_begin_def)

theorem joinRoom_validation_witness:
  "joinRoom (ConnectOk example_room) None (Some ''lobby'') None idle_engine =
     (idle_engine, Rejected (Raised (Error ''User access token not supplied'')))
   \<and> joinRoom (ConnectOk example_room) (Some ''token'') None None idle_engine =
     (idle_engine, Rejected (Raised (Error ''Room name is not supplied'')))
   \<and> joinRoom (ConnectOk example_room) (Some ''token'') (Some ''lobby'') None idle_engine =
     (idle_engine, Rejected (Raised (Error
        ''Event callbacks not registered, please register and initialize event callbacks'')))
   \<and> currentRoom idle_engine = Undefined \<and> trace idle_engine = []"
  using joinRoom_validation [where accessToken = None and sdk = "ConnectOk example_room"
        and roomName = "Some ''lobby''" and connectOptions = None and s = idle_engine]
    joinRoom_validation [where accessToken = "Some ''token''" and sdk = "ConnectOk example_room"
        and roomName = None and connectOptions = None and s = idle_engine]
    joinRoom_validation [where accessToken = "Some ''token''" and sdk = "ConnectOk example_room"
        and roomName = "Some ''lobby''" and connectOptions = None and s = idle_engine]
  by (simp add: idle_engine_def new_engine_def)

section \<open>Facts about the preference store\<close>

lemma setItem_fields [simp]:
  "eventCallbacks (setItem k v s) = eventCallbacks s"
  "currentRoom (setItem k v s) = currentRoom s"
  "currentConnectOptions (setItem k v s) = currentConnectOptions s"
  "currentScreenTrack (setItem k v s) = currentScreenTrack s"
  "deviceIds (setItem k v s) = deviceIds s"
  "defaultConnectOptions (setItem k v s) = defaultConnectOptions s"
  "listeners (setItem k v s) = listeners s"
  "trace (setItem k v s) = trace s"
  by (simp_all add: setItem_def)

lemma removeItem_fields [simp]:
  "eventCallbacks (removeItem k s) = eventCallbacks s"
  "currentRoom (removeItem k s) = currentRoom s"
  "currentConnectOptions (removeItem k s) = currentConnectOptions s"
  "currentScreenTrack (removeItem k s) = currentScreenTrack s"
  "deviceIds (removeItem k s) = deviceIds s"
  "defaultConnectOptions (removeItem k s) = defaultConnectOptions s"
  "listeners (removeItem k s) = listeners s"
  "trace (removeItem k s) = trace s"
  by (simp_all add: removeItem_def)

lemma getItem_setItem: "getItem (setItem k v s) k' = (if k' = k then Some v else getItem s k')"
  by (simp add: getItem_def setItem_def update_conv')

lemma options_of_setItem [simp]: "options_of (setItem k v s) ref = options_of s ref"
  by (simp add: options_of_def split: options_ref.split)

lemma change_pref_fields [simp]:
  "eventCallbacks (change_pref x s) = eventCallbacks s"
  "currentRoom (change_pref x s) = currentRoom s"
  "currentConnectOptions (change_pref x s) = currentConnectOptions s"
  "currentScreenTrack (change_pref x s) = currentScreenTrack s"
  "deviceIds (change_pref x s) = deviceIds s"
  "defaultConnectOptions (change_pref x s) = defaultConnectOptions s"
  "listeners (change_pref x s) = listeners s"
  "trace (change_pref x s) = trace s"
  by (cases x; simp add: assignDefaultAudioInputDeviceId_def assignDefaultAudioOutputDeviceId_def
        assignDefaultVideoInputDeviceId_def clearDefaultAudioInputDeviceId_def
        clearDefaultAudioOutputDeviceId_def clearDefaultVideoInputDeviceId_def
        clearAllDefaultMediaDeviceIds_def)+

section \<open>The stored device preference reaches a first connect\<close>

text \<open>
  Claim C9. On an engine that has not connected before (no device identifiers cached), a
  connect that passes its checks and whose options carry no video device identifier,
  made after \<open>assignDefaultVideoInputDeviceId(dev)\<close>, leaves \<open>{exact: dev}\<close> as the video
  device identifier of the session's options, whatever the SDK answers. The claim is the
  instance \<open>dev = "cam-1"\<close>.
\<close>

theorem assigned_video_device_round_trip:
  assumes "deviceIds s = None"
    and "supplied accessToken" and "supplied roomName" and "eventCallbacks s = Some cb"
    and "opt_audio (options_of s (options_arg connectOptions)) = Some a"
    and "opt_video (options_of s (options_arg connectOptions)) = Some v"
    and "\<not> device_truthy (deviceId v)"
  shows "session_device opt_video
           (fst (joinRoom sdk accessToken roomName connectOptions
                   (assignDefaultVideoInputDeviceId dev s))) = Some (Exact (Some dev))"
proof -
  let ?s = "assignDefaultVideoInputDeviceId dev s"
  have ids: "connect_ids ?s = fetchDeviceIds ?s"
    using assms(1) by (simp add: connect_ids_def assignDefaultVideoInputDeviceId_def)
  have stored: "dev_video (fetchDeviceIds ?s) = Some dev"
    by (simp add: fetchDeviceIds_def assignDefaultVideoInputDeviceId_def getItem_setItem)
  have cb: "eventCallbacks ?s = Some cb"
    using assms(4) by (simp add: assignDefaultVideoInputDeviceId_def)
  have a: "opt_audio (options_of ?s (options_arg connectOptions)) = Some a"
    using assms(5) by (simp add: assignDefaultVideoInputDeviceId_def)
  have v: "opt_video (options_of ?s (options_arg connectOptions)) = Some v"
    using assms(6) by (simp add: assignDefaultVideoInputDeviceId_def)
  have "session_device opt_video (fst (joinRoom sdk accessToken roomName connectOptions ?s)) =
      (case opt_video (resolved_options roomName connectOptions ?s) of
         None \<Rightarrow> None | Some m \<Rightarrow> deviceId m)"
    by (simp only: session_device_joinRoom session_device_begin [OF assms(2,3) cb a v])
  also have "\<dots> = Some (Exact (Some dev))"
    using assms(7) by (simp add: resolved_options_def v ids stored resolveDevice_falsy)
  finally show ?thesis .
qed

lemma registered_fields [simp]:
  "eventCallbacks registered = Some registerCallbacks"
  "currentRoom registered = Undefined"
  "currentConnectOptions registered = None"
  "currentScreenTrack registered = None"
  "deviceIds registered = None"
  "localStorage registered = []"
  "defaultConnectOptions registered = example_defaults"
  "listeners registered = []"
  "trace registered = []"
  by (simp_all add: registered_def init_def idle_engine_def new_engine_def)

theorem assigned_video_device_round_trip_witness:
  "session_device opt_video
     (fst (joinRoom (ConnectOk example_room) (Some ''token'') (Some ''lobby'') None
             (assignDefaultVideoInputDeviceId ''cam-1'' registered))) = Some (Exact (Some ''cam-1''))"
  by (rule assigned_video_device_round_trip
        [where cb = registerCallbacks
           and a = "\<lparr>deviceId = None, opt_width = None, opt_height = None\<rparr>"
           and v = "\<lparr>deviceId = None, opt_width = Some 1280, opt_height = Some 720\<rparr>"])
     (simp_all add: options_of_def options_arg_def example_defaults_def)

lemma joinRoom_begin_caller_default:
  "defaultConnectOptions (fst (joinRoom_begin accessToken roomName (Some opts) s)) = defaultConnectOptions s"
  apply (simp add: joinRoom_begin_def options_arg_def)
  apply (simp add: Let_def commit_def split: option.split)
  done

lemma no_explicit_deviceD:
  assumes "no_explicit_device opts"
  obtains a v where "opt_audio opts = Some a" and "opt_video opts = Some v"
    and "\<not> device_truthy (deviceId a)" and "\<not> device_truthy (deviceId v)"
  using assms by (auto simp add: no_explicit_device_def split: option.splits)

lemma resolved_device:
  assumes "sel opts = Some m" and "\<not> device_truthy (deviceId m) \<or> deviceId m = Some (Exact x)"
  shows "deviceId (resolveDevice m x) = Some (Exact x)"
  using assms by (auto simp add: resolveDevice_def)

section \<open>Facts about a connect that succeeds\<close>

lemma perform_perform [simp]: "perform es' (perform es s) = perform (es @ es') s"
  by (simp add: perform_def)

lemma perform_currentRoom: "perform es (s\<lparr>currentRoom := x\<rparr>) = (perform es s)\<lparr>currentRoom := x\<rparr>"
  by (simp add: perform_def)

lemma roster_effect_participantConnected:
  "e \<in> set (fst (participantConnected (Some cb) p v)) \<Longrightarrow> roster_effect e"
  by (auto simp add: participantConnected_def forEach_Normal dest: roster_effect_attach)

lemma forEach_roster:
  "forEach (\<lambda>(k, p). participantConnected (Some cb) p (JString k)) ps =
     (concat (map (\<lambda>(k, p). fst (participantConnected (Some cb) p (JString k))) ps), Normal)"
proof -
  have "forEach (\<lambda>(k, p). participantConnected (Some cb) p (JString k)) ps =
      (concat (map (\<lambda>x. fst (case x of (k, p) \<Rightarrow> participantConnected (Some cb) p (JString k))) ps),
       Normal)"
    by (rule forEach_Normal) (auto split: prod.splits)
  also have "(\<lambda>x. fst (case x of (k, p) \<Rightarrow> participantConnected (Some cb) p (JString k))) =
      (\<lambda>(k, p). fst (participantConnected (Some cb) p (JString k)))"
    by (auto split: prod.splits)
  finally show ?thesis .
qed

lemma joinRoom_connected_ex:
  assumes "eventCallbacks s = Some cb"
  shows "\<exists>es. joinRoom_connected r s = (perform es (s\<lparr>currentRoom := Given r\<rparr>), Resolved r)
           \<and> (\<forall>c. Call c \<notin> set es)"
proof -
  let ?es = "Notify RoomConnected (PRoom (room_sid r)) (has_callback cb RoomConnected)
         # fst (participantConnected (Some cb) (localParticipant r) (JBool False))
         @ concat (map (\<lambda>(k, p). fst (participantConnected (Some cb) p (JString k))) (participants r))
         @ [Listen (OnRoom (room_sid r)) ''participantConnected'' RoomParticipantConnected False,
            Listen (OnRoom (room_sid r)) ''participantDisconnected'' RoomParticipantDisconnected False,
            Listen (OnRoom (room_sid r)) ''trackSubscribed'' RoomTrackSubscribed False,
            Notify ExistingParticipantsReportingComplete (PRoom (room_sid r))
              (has_callback cb ExistingParticipantsReportingComplete),
            Listen (OnRoom (room_sid r)) ''dominantSpeakerChanged'' RoomDominantSpeakerChanged False,
            Listen (OnRoom (room_sid r)) ''disconnected'' RoomDisconnected True]"
  have eq: "joinRoom_connected r s = (perform ?es (s\<lparr>currentRoom := Given r\<rparr>), Resolved r)"
    using assms
    by (simp add: joinRoom_connected_def forEach_roster andThen_Normal_snd perform_def Let_def)
  have "\<forall>c. Call c \<notin> set ?es"
    by (auto dest: roster_effect_participantConnected)
  with eq show ?thesis by blast
qed

lemma joinRoom_ok:
  assumes "supplied accessToken" and "supplied roomName" and "eventCallbacks s = Some cb"
    and "opt_audio (options_of s (options_arg connectOptions)) = Some a"
    and "opt_video (options_of s (options_arg connectOptions)) = Some v"
  shows "joinRoom (ConnectOk r) accessToken roomName connectOptions s =
           joinRoom_connected r (fst (joinRoom_begin accessToken roomName connectOptions s))"
  by (simp add: joinRoom_def joinRoom_begin_ok [OF assms])

lemma example_options [simp]:
  "opt_audio (options_of registered (options_arg None)) =
     Some \<lparr>deviceId = None, opt_width = None, opt_height = None\<rparr>"
  "opt_video (options_of registered (options_arg None)) =
     Some \<lparr>deviceId = None, opt_width = Some 1280, opt_height = Some 720\<rparr>"
  by (simp_all add: options_of_def options_arg_def example_defaults_def)

lemma connected_to_eq:
  "connected_to r =
     fst (joinRoom_connected r (fst (joinRoom_begin (Some ''token'') (Some ''lobby'') None registered)))"
  unfolding connected_to_def
  by (subst joinRoom_ok [where cb = registerCallbacks]) simp_all

lemma connected_to_fields [simp]:
  "eventCallbacks (connected_to r) = Some registerCallbacks"
  "currentRoom (connected_to r) = Given r"
  "currentScreenTrack (connected_to r) = None"
  "currentConnectOptions (connected_to r) = Some DefaultOptions"
  "localStorage (connected_to r) = []"
proof -
  let ?b = "fst (joinRoom_begin (Some ''token'') (Some ''lobby'') None registered)"
  have cb: "eventCallbacks ?b = Some registerCallbacks" by simp
  obtain es where es: "joinRoom_connected r ?b = (perform es (?b\<lparr>currentRoom := Given r\<rparr>), Resolved r)"
    using joinRoom_connected_ex [OF cb] by blast
  show "eventCallbacks (connected_to r) = Some registerCallbacks"
    "currentRoom (connected_to r) = Given r"
    "currentScreenTrack (connected_to r) = None"
    "localStorage (connected_to r) = []"
    by (simp_all add: connected_to_eq es)
  show "currentConnectOptions (connected_to r) = Some DefaultOptions"
    by (simp add: connected_to_eq es
          joinRoom_begin_ok [where cb = registerCallbacks, OF _ _ _ example_options] reref_def options_arg_def)
qed

section \<open>Turning the video off\<close>

text \<open>
  Claim C7. With a room, \<open>turnOffMyVideo\<close> rejects and leaves the engine as it was (so no
  unsubscribed notification, and nothing else, is emitted) when the local participant has
  no video publication ("No video tracks found to unpublish") or when its first video
  publication has no track ("No video track info found to unpublish"); these two messages
  are the NoLocalTrack error. When the first video publication has a track, the engine
  unpublishes it, stops it, and then sends the forced unsubscribed notification; the
  publication is gone from the local participant, and the promise resolves when callbacks
  are registered.
\<close>

theorem turnOffMyVideo_needs_local_track:
  assumes "currentRoom s = Given r"
  shows "(videoTracks (localParticipant r) = [] \<longrightarrow>
            turnOffMyVideo s = (s, Rejected (Message ''No video tracks found to unpublish'')))
       \<and> (\<forall>pub rest. videoTracks (localParticipant r) = pub # rest \<and> pub_track pub = None \<longrightarrow>
            turnOffMyVideo s = (s, Rejected (Message ''No video track info found to unpublish'')))
       \<and> (\<forall>pub rest t. videoTracks (localParticipant r) = pub # rest \<and> pub_track pub = Some t \<longrightarrow>
            fst (turnOffMyVideo s) =
              (perform ([Call (UnpublishTrack (track_name t)), Call (StopTrack (track_name t))]
                        @ fst (trackUnsubscribed (eventCallbacks s)
                                 (PTrack (Plain (Some Video) None) (Some (sid (localParticipant r))))))
                 s)\<lparr>currentRoom := Given (unpublished t r)\<rparr>
            \<and> pub \<notin> set (tracks (localParticipant (unpublished t r)))
            \<and> (eventCallbacks s \<noteq> None \<longrightarrow> snd (turnOffMyVideo s) = Resolved ()))"
  using assms
  by (auto simp add: turnOffMyVideo_unfold trackUnsubscribed_def unpublished_def notifyOfEvent_def
        perform_def split: option.splits prod.splits outcome.splits)

theorem turnOffMyVideo_needs_local_track_witness:
  "turnOffMyVideo (connected_to audio_only_room) =
     (connected_to audio_only_room, Rejected (Message ''No video tracks found to unpublish''))
   \<and> turnOffMyVideo (connected_to trackless_room) =
     (connected_to trackless_room, Rejected (Message ''No video track info found to unpublish''))
   \<and> currentRoom (fst (turnOffMyVideo (connected_to example_room))) = Given (unpublished camera example_room)
   \<and> videoTracks (localParticipant (unpublished camera example_room)) = []
   \<and> snd (turnOffMyVideo (connected_to example_room)) = Resolved ()"
proof -
  have a: "videoTracks (localParticipant audio_only_room) = []"
    by (simp add: videoTracks_def audio_only_room_def)
  have b: "videoTracks (localParticipant trackless_room) =
      [\<lparr>trackSid = ''MT-cam'', pub_kind = Video, isSubscribed = False,
        pub_track = None, pub_priority = Standard\<rparr>]"
    by (simp add: videoTracks_def trackless_room_def)
  have c: "videoTracks (localParticipant example_room) =
      [\<lparr>trackSid = ''MT-cam'', pub_kind = Video, isSubscribed = False,
        pub_track = Some camera, pub_priority = Standard\<rparr>]"
    by (simp add: videoTracks_def example_room_def example_local_def)
  have d: "videoTracks (localParticipant (unpublished camera example_room)) = []"
    by (simp add: videoTracks_def unpublished_def example_room_def example_local_def camera_def
          microphone_def)
  show ?thesis
    using turnOffMyVideo_needs_local_track [of "connected_to audio_only_room" audio_only_room]
      turnOffMyVideo_needs_local_track [of "connected_to trackless_room" trackless_room]
      turnOffMyVideo_needs_local_track [of "connected_to example_room" example_room]
    by (simp add: a b c d)
qed

section \<open>Stopping a screen share that is not running\<close>

text \<open>
  Claim C8. In a connected session without a screen-share track, \<open>stopScreenShare\<close>
  changes nothing, but its promise is never settled: \<open>resolve\<close> is called only inside
  the branch for a held track. The claim asks for a successful completion.
\<close>

theorem stopScreenShare_without_track_pending:
  "stopScreenShare (connected_to example_room) = (connected_to example_room, Pending)"
  by (simp add: stopScreenShare_def)

section \<open>The order of a successful connect\<close>

text \<open>
  Claim C1. A connect that passes its checks and that the SDK answers with a room whose
  participant map is keyed by non-empty SIDs does, after the part before \<open>Video.connect\<close>,
  exactly this, in this order: it notifies RoomConnected, makes the room current, wraps the
  local participant with \<open>isRemote = false\<close>, wraps every participant already in the room
  with \<open>isRemote\<close> true, installs three listeners on the room, notifies
  ExistingParticipantsReportingComplete, installs two more listeners, and resolves with the
  room. The effects of the wrapping are notifications of participants and of their tracks
  and installations of listeners only, so RoomConnected is the first notification of the
  connect and ExistingParticipantsReportingComplete the last, after all wrapping.
\<close>

theorem connect_wraps_roster_between_notifications:
  assumes "supplied accessToken" and "supplied roomName" and "eventCallbacks s = Some cb"
    and "opt_audio (options_of s (options_arg connectOptions)) = Some a"
    and "opt_video (options_of s (options_arg connectOptions)) = Some v"
    and "\<forall>(k, p) \<in> set (participants r). k \<noteq> []"
  shows "joinRoom (ConnectOk r) accessToken roomName connectOptions s =
     (perform
        (Notify RoomConnected (PRoom (room_sid r)) (has_callback cb RoomConnected)
         # wrapped cb (localParticipant r) False
         @ concat (map (\<lambda>(k, p). wrapped cb p True) (participants r))
         @ [Listen (OnRoom (room_sid r)) ''participantConnected'' RoomParticipantConnected False,
            Listen (OnRoom (room_sid r)) ''participantDisconnected'' RoomParticipantDisconnected False,
            Listen (OnRoom (room_sid r)) ''trackSubscribed'' RoomTrackSubscribed False,
            Notify ExistingParticipantsReportingComplete (PRoom (room_sid r))
              (has_callback cb ExistingParticipantsReportingComplete),
            Listen (OnRoom (room_sid r)) ''dominantSpeakerChanged'' RoomDominantSpeakerChanged False,
            Listen (OnRoom (room_sid r)) ''disconnected'' RoomDisconnected True])
        ((fst (joinRoom_begin accessToken roomName connectOptions s))\<lparr>currentRoom := Given r\<rparr>),
      Resolved r)
   \<and> (\<forall>e \<in> set (wrapped cb (localParticipant r) False
                   @ concat (map (\<lambda>(k, p). wrapped cb p True) (participants r))). roster_effect e)"
proof -
  have cb: "eventCallbacks (fst (joinRoom_begin accessToken roomName connectOptions s)) = Some cb"
    using assms(3) by simp
  have "\<forall>e \<in> set (wrapped cb (localParticipant r) False
                   @ concat (map (\<lambda>(k, p). wrapped cb p True) (participants r))). roster_effect e"
    by (auto dest: roster_effect_wrapped)
  then show ?thesis
    by (simp only: joinRoom_ok [OF assms(1-5)] joinRoom_connected_Some [OF cb assms(6)] simp_thms)
qed

lemma wrapped_example_local:
  "notifications (wrapped registerCallbacks example_local False) =
     [(ParticipantConnected, PParticipant (Some ''PA-local'')),
      (ParticipantSubscribedTrack, PTrack (Plain (Some Audio) (Some ''MT-mic'')) (Some ''PA-local'')),
      (ParticipantSubscribedTrack, PTrack (Plain (Some Video) (Some ''MT-cam'')) (Some ''PA-local''))]"
  by (simp add: notifications_def wrapped_def participantConnected_def example_local_def
        attachPublication_def trackSubscribed_def spread_def microphone_def camera_def
        isRemote_of_def andThen_Normal_snd)

lemma wrapped_example_remote:
  "notifications (wrapped registerCallbacks example_remote True) =
     [(ParticipantConnected, PParticipant (Some ''PA-remote'')),
      (ParticipantSubscribedTrack, PTrack (Plain (Some Video) (Some ''MT-far'')) (Some ''PA-remote''))]"
  by (simp add: notifications_def wrapped_def participantConnected_def example_remote_def
        attachPublication_def trackSubscribed_def spread_def setupTrackMuteEvents_def
        isRemote_of_def andThen_Normal_snd)

lemma notifications_append [simp]: "notifications (xs @ ys) = notifications xs @ notifications ys"
  by (simp add: notifications_def)

lemma notifications_Cons [simp]: "notifications (x # xs) = notification_of x @ notifications xs"
  by (simp add: notifications_def)

lemma notifications_Nil [simp]: "notifications [] = []"
  by (simp add: notifications_def)

theorem connect_wraps_roster_between_notifications_witness:
  "notifications (trace (fst (joinRoom (ConnectOk example_room) (Some ''token'') (Some ''lobby'') None registered))) =
     [(RoomConnected, PRoom ''RM-1''),
      (ParticipantConnected, PParticipant (Some ''PA-local'')),
      (ParticipantSubscribedTrack, PTrack (Plain (Some Audio) (Some ''MT-mic'')) (Some ''PA-local'')),
      (ParticipantSubscribedTrack, PTrack (Plain (Some Video) (Some ''MT-cam'')) (Some ''PA-local'')),
      (ParticipantConnected, PParticipant (Some ''PA-remote'')),
      (ParticipantSubscribedTrack, PTrack (Plain (Some Video) (Some ''MT-far'')) (Some ''PA-remote'')),
      (ExistingParticipantsReportingComplete, PRoom ''RM-1'')]
   \<and> snd (joinRoom (ConnectOk example_room) (Some ''token'') (Some ''lobby'') None registered) =
       Resolved example_room"
proof -
  have keys: "\<forall>(k, p) \<in> set (participants example_room). k \<noteq> []"
    by (simp add: example_room_def)
  have started: "trace (fst (joinRoom_begin (Some ''token'') (Some ''lobby'') None registered)) =
      [Call (VideoConnect (Some ''token'') (resolved_options (Some ''lobby'') None registered))]"
    by (simp add: joinRoom_begin_ok [where cb = registerCallbacks, OF _ _ _ example_options])
  show ?thesis
    using connect_wraps_roster_between_notifications
      [where cb = registerCallbacks and s = registered and r = example_room
         and accessToken = "Some ''token''" and roomName = "Some ''lobby''" and connectOptions = None,
       OF _ _ _ example_options keys]
    by (simp add: started wrapped_example_local wrapped_example_remote)
       (simp add: example_room_def wrapped_example_local wrapped_example_remote)
qed

lemma listener_Call: "(\<forall>c. Call c \<notin> set es) \<Longrightarrow> Call c \<in> set (trace (perform es s)) \<Longrightarrow> Call c \<in> set (trace s)"
  by auto

lemma joinRoom_begin_trace:
  "trace (fst (joinRoom_begin accessToken roomName connectOptions s)) = trace s
   \<or> (\<exists>opts. trace (fst (joinRoom_begin accessToken roomName connectOptions s)) =
         trace s @ [Call (VideoConnect accessToken opts)])"
  apply (simp add: joinRoom_begin_def)
  apply (simp add: Let_def split: option.split)
  done

lemma joinRoom_begin_listeners [simp]:
  "listeners (fst (joinRoom_begin accessToken roomName connectOptions s)) = listeners s"
  apply (simp add: joinRoom_begin_def)
  apply (simp add: Let_def split: option.split)
  done

section \<open>A second connect\<close>

text \<open>
  Claim C3, as the code has it. \<open>joinRoom\<close> never looks at the current room, and no
  SessionAlreadyActive error exists. A second connect without a disconnect in between,
  with arguments that pass the checks and a successful SDK connect, is not rejected: its
  promise resolves with the second room, the second room replaces the first as current
  room, the listeners installed before stay installed, and the first room is not
  disconnected (the connect adds no \<open>disconnect\<close> call to the trace).
\<close>

theorem second_connect_replaces_room:
  assumes "currentRoom s = Given r1"
    and "supplied accessToken" and "supplied roomName" and "eventCallbacks s = Some cb"
    and "opt_audio (options_of s (options_arg connectOptions)) = Some a"
    and "opt_video (options_of s (options_arg connectOptions)) = Some v"
  shows "snd (joinRoom (ConnectOk r2) accessToken roomName connectOptions s) = Resolved r2
       \<and> currentRoom (fst (joinRoom (ConnectOk r2) accessToken roomName connectOptions s)) = Given r2
       \<and> take (length (listeners s))
            (listeners (fst (joinRoom (ConnectOk r2) accessToken roomName connectOptions s))) = listeners s
       \<and> (\<forall>x. Call (RoomDisconnect x)
                 \<in> set (trace (fst (joinRoom (ConnectOk r2) accessToken roomName connectOptions s)))
              \<longrightarrow> Call (RoomDisconnect x) \<in> set (trace s))"
proof -
  let ?b = "fst (joinRoom_begin accessToken roomName connectOptions s)"
  have cb: "eventCallbacks ?b = Some cb"
    using assms(4) by simp
  obtain es where es: "joinRoom_connected r2 ?b = (perform es (?b\<lparr>currentRoom := Given r2\<rparr>), Resolved r2)"
    and calls: "\<forall>c. Call c \<notin> set es"
    using joinRoom_connected_ex [OF cb] by blast
  have j: "joinRoom (ConnectOk r2) accessToken roomName connectOptions s =
      (perform es (?b\<lparr>currentRoom := Given r2\<rparr>), Resolved r2)"
    by (simp only: joinRoom_ok [OF assms(2-6)] es)
  have "\<forall>x. Call (RoomDisconnect x) \<in> set (trace ?b) \<longrightarrow> Call (RoomDisconnect x) \<in> set (trace s)"
    using joinRoom_begin_trace [of accessToken roomName connectOptions s] by auto
  then show ?thesis
    using calls by (auto simp add: j)
qed

lemma connected_to_default:
  "defaultConnectOptions (connected_to r) = resolved_options (Some ''lobby'') None registered"
proof -
  let ?b = "fst (joinRoom_begin (Some ''token'') (Some ''lobby'') None registered)"
  have cb: "eventCallbacks ?b = Some registerCallbacks" by simp
  obtain es where es: "joinRoom_connected r ?b = (perform es (?b\<lparr>currentRoom := Given r\<rparr>), Resolved r)"
    using joinRoom_connected_ex [OF cb] by blast
  show ?thesis
    by (simp add: connected_to_eq es
          joinRoom_begin_ok [where cb = registerCallbacks, OF _ _ _ example_options]
          commit_def options_arg_def)
qed

lemma connected_to_options [simp]:
  "opt_audio (options_of (connected_to r) (options_arg None)) =
     Some \<lparr>deviceId = Some (Exact None), opt_width = None, opt_height = None\<rparr>"
  "opt_video (options_of (connected_to r) (options_arg None)) =
     Some \<lparr>deviceId = Some (Exact None), opt_width = Some 1280, opt_height = Some 720\<rparr>"
  by (simp_all add: options_of_def options_arg_def connected_to_default resolved_options_def
        example_defaults_def connect_ids_def fetchDeviceIds_def getItem_def resolveDevice_def)

theorem second_connect_replaces_room_witness:
  "snd (joinRoom (ConnectOk audio_only_room) (Some ''token'') (Some ''lobby'') None
          (connected_to example_room)) = Resolved audio_only_room
   \<and> currentRoom (fst (joinRoom (ConnectOk audio_only_room) (Some ''token'') (Some ''lobby'') None
          (connected_to example_room))) = Given audio_only_room
   \<and> currentRoom (connected_to example_room) = Given example_room"
  using second_connect_replaces_room
    [where s = "connected_to example_room" and ?r1.0 = example_room and ?r2.0 = audio_only_room
       and cb = registerCallbacks and accessToken = "Some ''token''" and roomName = "Some ''lobby''"
       and connectOptions = None, OF _ _ _ _ connected_to_options]
  by simp

text \<open>
  Against claim C3 as stated: in the example session connected to room RM-1, a second
  connect resolves with room RM-9, and RM-9 is the current room afterwards.
\<close>

theorem second_connect_accepted:
  "snd (joinRoom (ConnectOk second_room) (Some ''token'') (Some ''lobby'') None
          (connected_to example_room)) = Resolved second_room
   \<and> currentRoom (connected_to example_room) = Given example_room
   \<and> currentRoom (fst (joinRoom (ConnectOk second_room) (Some ''token'') (Some ''lobby'') None
          (connected_to example_room))) = Given second_room
   \<and> room_sid second_room \<noteq> room_sid example_room"
proof -
  let ?s = "connected_to example_room"
  let ?b = "fst (joinRoom_begin (Some ''token'') (Some ''lobby'') None ?s)"
  have cb: "eventCallbacks ?b = Some registerCallbacks" by simp
  obtain es where es: "joinRoom_connected second_room ?b =
      (perform es (?b\<lparr>currentRoom := Given second_room\<rparr>), Resolved second_room)"
    using joinRoom_connected_ex [OF cb] by blast
  have "joinRoom (ConnectOk second_room) (Some ''token'') (Some ''lobby'') None ?s =
      joinRoom_connected second_room ?b"
    by (rule joinRoom_ok [where cb = registerCallbacks]) simp_all
  moreover have "room_sid second_room \<noteq> room_sid example_room"
    by (simp add: second_room_def example_room_def)
  ultimately show ?thesis by (simp add: es)
qed

section \<open>Facts about screen sharing\<close>

lemma createScreenTrack_kind: "createScreenTrack env h w = Inr t \<Longrightarrow> track_kind t = Video"
  by (auto simp add: createScreenTrack_def LocalVideoTrack_def split: if_splits option.splits)

lemma videoTracks_prioritized:
  "videoTracks (localParticipant (prioritized prio r)) =
     map (setPriority prio) (videoTracks (localParticipant r))"
  by (simp add: videoTracks_def prioritized_def filter_map comp_def setPriority_def)

lemma videoTracks_published:
  "track_kind t = Video \<Longrightarrow>
   videoTracks (localParticipant (published tsid t prio r)) =
     videoTracks (localParticipant r) @ [local_publication tsid t prio]"
  by (simp add: videoTracks_def published_def local_publication_def)

lemma setPriority_local_publication [simp]:
  "setPriority prio (local_publication tsid t prio') = local_publication tsid t prio"
  by (simp add: setPriority_def local_publication_def)

lemma setPriority_setPriority [simp]: "setPriority prio (setPriority prio' pub) = setPriority prio pub"
  by (simp add: setPriority_def)

lemma trackSid_setPriority [simp]: "trackSid (setPriority prio pub) = trackSid pub"
  by (simp add: setPriority_def)

lemma dimension_options:
  assumes "currentConnectOptions s = Some ref" and "opt_video (options_of s ref) = Some v"
  shows "dimension arg field s = Inr (num_or arg (field v))"
  using assms by (cases arg) (simp_all add: dimension_def num_or_def)

lemma startScreenShare_ok:
  assumes "currentConnectOptions s = Some ref" and "opt_video (options_of s ref) = Some v"
    and "createScreenTrack env (num_or height (opt_height v)) (num_or width (opt_width v)) = Inr t"
    and "currentRoom s = Given r"
  shows "startScreenShare env (Published tsid) height width s =
     ((perform (map (\<lambda>pub. Call (SetPriority (trackSid pub) Low)) (videoTracks (localParticipant r))
                @ [Call (PublishTrack (track_name t) (Some High))]) s)
        \<lparr>currentScreenTrack := Some t,
         currentRoom := Given (published tsid t High (prioritized Low r))\<rparr>, Resolved ())"
  using assms
  by (simp add: startScreenShare_def dimension_options [OF assms(1,2)] setPriorities_def perform_def
        Let_def)

lemma stopScreenShare_ok:
  assumes "currentScreenTrack s = Some t" and "currentRoom s = Given r"
  shows "stopScreenShare s =
     ((perform (Call (StopTrack (track_name t))
                # map (\<lambda>pub. Call (SetPriority (trackSid pub) High)) (videoTracks (localParticipant r))) s)
        \<lparr>currentScreenTrack := None, currentRoom := Given (prioritized High r)\<rparr>, Resolved ())"
  using assms
  by (simp add: stopScreenShare_def setPriorities_def perform_def Let_def)

lemma published_video_Some: "currentRoom s = Given r \<Longrightarrow> published_video s = videoTracks (localParticipant r)"
  by (simp add: published_video_def)

lemma start_effect:
  assumes "currentRoom s = Given r"
    and "currentConnectOptions s = Some ref" and "opt_video (options_of s ref) = Some v"
    and "createScreenTrack env (num_or height (opt_height v)) (num_or width (opt_width v)) = Inr t"
    and "s' = fst (startScreenShare env (Published tsid) height width s)"
  shows "currentScreenTrack s' = Some t"
    and "published_video s' = map (setPriority Low) (published_video s) @ [local_publication tsid t High]"
    and "stopped s' x = stopped s x"
    and "currentConnectOptions s' = Some ref" and "opt_video (options_of s' ref) = Some v"
    and "\<exists>r'. currentRoom s' = Given r'"
proof -
  let ?r = "published tsid t High (prioritized Low r)"
  have k: "track_kind t = Video"
    using assms(4) by (rule createScreenTrack_kind)
  have e: "s' = (perform (map (\<lambda>pub. Call (SetPriority (trackSid pub) Low)) (videoTracks (localParticipant r))
                 @ [Call (PublishTrack (track_name t) (Some High))]) s)
         \<lparr>currentScreenTrack := Some t, currentRoom := Given ?r\<rparr>"
    unfolding assms(5) by (simp add: startScreenShare_ok [OF assms(2,3,4,1)])
  show "currentScreenTrack s' = Some t" "currentConnectOptions s' = Some ref"
    "\<exists>r'. currentRoom s' = Given r'"
    using assms(2) by (simp_all add: e)
  show "opt_video (options_of s' ref) = Some v"
    using assms(3) by (cases ref) (simp_all add: e options_of_def)
  show "published_video s' = map (setPriority Low) (published_video s) @ [local_publication tsid t High]"
    by (simp add: e published_video_def assms(1) videoTracks_published k videoTracks_prioritized)
  show "stopped s' x = stopped s x"
    by (auto simp add: e stopped_def)
qed

lemma stop_effect:
  assumes "currentScreenTrack s = Some t" and "currentRoom s = Given r"
    and "s' = fst (stopScreenShare s)"
  shows "currentScreenTrack s' = None"
    and "published_video s' = map (setPriority High) (published_video s)"
    and "stopped s' x = (stopped s x \<or> track_name x = track_name t)"
proof -
  have e: "s' = (perform (Call (StopTrack (track_name t))
                # map (\<lambda>pub. Call (SetPriority (trackSid pub) High)) (videoTracks (localParticipant r))) s)
        \<lparr>currentScreenTrack := None, currentRoom := Given (prioritized High r)\<rparr>"
    unfolding assms(3) by (simp add: stopScreenShare_ok [OF assms(1,2)])
  show "currentScreenTrack s' = None"
    by (simp add: e)
  show "published_video s' = map (setPriority High) (published_video s)"
    by (simp add: e published_video_def assms(2) videoTracks_prioritized)
  show "stopped s' x = (stopped s x \<or> track_name x = track_name t)"
    by (auto simp add: e stopped_def)
qed

section \<open>Two screen shares in succession\<close>

text \<open>
  Claim C5, as the code has it. In a session with a room and connect options, two
  successful \<open>startScreenShare\<close> calls in succession (\<open>s1\<close>, \<open>s2\<close>) and a
  \<open>stopScreenShare\<close> (\<open>s3\<close>): each start makes its new track the held screen track, sets
  every video publication the local participant has at that moment to low priority and
  publishes the new track at high priority; no start stops a track, so after the second
  start the first screen track is still published (now at low priority) and not stopped,
  beside the second. The video publications from before the first share are at low
  priority after each start. \<open>stopScreenShare\<close> stops the held (second) track only, clears
  the held reference and sets every local video publication to high priority.
\<close>

theorem screen_share_twice_keeps_both_tracks:
  assumes "currentRoom s = Given r"
    and "currentConnectOptions s = Some ref" and "opt_video (options_of s ref) = Some v"
    and "createScreenTrack env1 (num_or height1 (opt_height v)) (num_or width1 (opt_width v)) = Inr t1"
    and "createScreenTrack env2 (num_or height2 (opt_height v)) (num_or width2 (opt_width v)) = Inr t2"
    and "s1 = fst (startScreenShare env1 (Published tsid1) height1 width1 s)"
    and "s2 = fst (startScreenShare env2 (Published tsid2) height2 width2 s1)"
    and "s3 = fst (stopScreenShare s2)"
  shows "currentScreenTrack s1 = Some t1 \<and> currentScreenTrack s2 = Some t2 \<and> currentScreenTrack s3 = None
       \<and> published_video s1 = map (setPriority Low) (published_video s) @ [local_publication tsid1 t1 High]
       \<and> published_video s2 = map (setPriority Low) (published_video s)
                                 @ [local_publication tsid1 t1 Low, local_publication tsid2 t2 High]
       \<and> published_video s3 = map (setPriority High) (published_video s)
                                 @ [local_publication tsid1 t1 High, local_publication tsid2 t2 High]
       \<and> (\<forall>t. stopped s2 t = stopped s t)
       \<and> (\<forall>t. stopped s3 t = (stopped s t \<or> track_name t = track_name t2))"
proof -
  note one = start_effect [OF assms(1,2,3,4,6)]
  obtain r1 where r1: "currentRoom s1 = Given r1"
    using one(6) by blast
  note two = start_effect [OF r1 one(4,5) assms(5,7)]
  obtain r2 where r2: "currentRoom s2 = Given r2"
    using two(6) by blast
  note three = stop_effect [OF two(1) r2 assms(8)]
  show ?thesis
    by (simp add: one(1,2,3) two(1,2,3) three(1,2,3))
qed

lemma connected_to_trace:
  "trace (connected_to r) =
     Call (VideoConnect (Some ''token'') (resolved_options (Some ''lobby'') None registered))
     # filter (\<lambda>e. \<forall>c. e \<noteq> Call c) (tl (trace (connected_to r)))"
proof -
  let ?b = "fst (joinRoom_begin (Some ''token'') (Some ''lobby'') None registered)"
  have cb: "eventCallbacks ?b = Some registerCallbacks" by simp
  obtain es where es: "joinRoom_connected r ?b = (perform es (?b\<lparr>currentRoom := Given r\<rparr>), Resolved r)"
    and calls: "\<forall>c. Call c \<notin> set es"
    using joinRoom_connected_ex [OF cb] by blast
  have f: "filter (\<lambda>e. \<forall>c. e \<noteq> Call c) es = es"
    using calls by (auto simp add: filter_id_conv)
  have tb: "trace ?b =
      [Call (VideoConnect (Some ''token'') (resolved_options (Some ''lobby'') None registered))]"
    by (simp add: joinRoom_begin_ok [where cb = registerCallbacks, OF _ _ _ example_options])
  have "trace (connected_to r) = trace ?b @ es"
    by (simp add: connected_to_eq es)
  then show ?thesis
    by (simp add: tb f)
qed

lemma connected_to_not_stopped [simp]: "\<not> stopped (connected_to r) t"
  by (subst stopped_def, subst connected_to_trace) auto

lemma connected_to_video [simp]:
  "opt_video (options_of (connected_to r) DefaultOptions) =
     Some \<lparr>deviceId = Some (Exact None), opt_width = Some 1280, opt_height = Some 720\<rparr>"
  using connected_to_options(2) [of r] by (simp add: options_arg_def)

lemma sharing_browser_track [simp]:
  "createScreenTrack (sharing_browser st) h w = Inr (LocalVideoTrack st)"
  by (simp add: createScreenTrack_def sharing_browser_def)

lemma published_video_example [simp]:
  "published_video (connected_to example_room) =
     [\<lparr>trackSid = ''MT-cam'', pub_kind = Video, isSubscribed = False,
       pub_track = Some camera, pub_priority = Standard\<rparr>]"
  by (simp add: published_video_def videoTracks_def example_room_def example_local_def)

theorem screen_share_twice_keeps_both_tracks_witness:
  "currentScreenTrack one_share = Some (LocalVideoTrack ''screen-1'')
   \<and> currentScreenTrack two_shares = Some (LocalVideoTrack ''screen-2'')
   \<and> currentScreenTrack shares_stopped = None
   \<and> map pub_priority (published_video one_share) = [Low, High]
   \<and> map pub_priority (published_video two_shares) = [Low, Low, High]
   \<and> map pub_priority (published_video shares_stopped) = [High, High, High]
   \<and> stopped shares_stopped (LocalVideoTrack ''screen-2'')
   \<and> \<not> stopped shares_stopped (LocalVideoTrack ''screen-1'')"
  using screen_share_twice_keeps_both_tracks
    [where s = "connected_to example_room" and r = example_room and ref = DefaultOptions
       and ?s1.0 = one_share and ?s2.0 = two_shares and ?s3.0 = shares_stopped
       and ?env1.0 = "sharing_browser ''screen-1''" and ?env2.0 = "sharing_browser ''screen-2''"
       and ?t1.0 = "LocalVideoTrack ''screen-1''" and ?t2.0 = "LocalVideoTrack ''screen-2''"
       and ?tsid1.0 = "''MT-s1''" and ?tsid2.0 = "''MT-s2''"
       and ?height1.0 = None and ?width1.0 = None and ?height2.0 = None and ?width2.0 = None,
     OF _ _ connected_to_video]
  by (simp add: one_share_def two_shares_def shares_stopped_def setPriority_def
        local_publication_def LocalVideoTrack_def)

text \<open>
  Against claim C5 as stated: after two starts in the example session neither screen track
  has been stopped, and both are published beside the camera.
\<close>

theorem second_screen_share_leaves_first_running:
  "\<not> stopped two_shares (LocalVideoTrack ''screen-1'')
   \<and> \<not> stopped two_shares (LocalVideoTrack ''screen-2'')
   \<and> map pub_track (published_video two_shares) =
       [Some camera, Some (LocalVideoTrack ''screen-1''), Some (LocalVideoTrack ''screen-2'')]
   \<and> currentScreenTrack two_shares = Some (LocalVideoTrack ''screen-2'')"
proof -
  have room: "currentRoom (connected_to example_room) = Given example_room"
    and ref: "currentConnectOptions (connected_to example_room) = Some DefaultOptions"
    by simp_all
  have t1: "createScreenTrack (sharing_browser ''screen-1'') (num_or None (opt_height
        \<lparr>deviceId = Some (Exact None), opt_width = Some 1280, opt_height = Some 720\<rparr>))
        (num_or None (opt_width \<lparr>deviceId = Some (Exact None), opt_width = Some 1280,
        opt_height = Some 720\<rparr>)) = Inr (LocalVideoTrack ''screen-1'')"
    and t2: "createScreenTrack (sharing_browser ''screen-2'') (num_or None (opt_height
        \<lparr>deviceId = Some (Exact None), opt_width = Some 1280, opt_height = Some 720\<rparr>))
        (num_or None (opt_width \<lparr>deviceId = Some (Exact None), opt_width = Some 1280,
        opt_height = Some 720\<rparr>)) = Inr (LocalVideoTrack ''screen-2'')"
    by simp_all
  note one = start_effect [OF room ref connected_to_video t1 one_share_def]
  obtain r1 where r1: "currentRoom one_share = Given r1"
    using one(6) by blast
  note two = start_effect [OF r1 one(4,5) t2 two_shares_def]
  show ?thesis
    by (simp add: two(1,2,3) one(2,3) setPriority_def local_publication_def)
qed

section \<open>Facts about the example session\<close>

lemma andThen_effects: "e \<in> set (fst (andThen a b)) \<Longrightarrow> e \<in> set (fst a) \<or> e \<in> set (fst b)"
  by (cases a; cases b; cases "snd a") auto

lemma forEach_effects: "e \<in> set (fst (forEach f xs)) \<Longrightarrow> \<exists>x \<in> set xs. e \<in> set (fst (f x))"
  by (induction xs) (auto dest: andThen_effects)

lemma example_keys: "\<forall>(k, p) \<in> set (participants example_room). k \<noteq> []"
  by (simp add: example_room_def)

lemma connected_example_listeners:
  "listeners (connected_to example_room) =
     concat (map listener_of
       (wrapped registerCallbacks example_local False @ wrapped registerCallbacks example_remote True))
     @ [(OnRoom ''RM-1'', ''participantConnected'', RoomParticipantConnected, False),
        (OnRoom ''RM-1'', ''participantDisconnected'', RoomParticipantDisconnected, False),
        (OnRoom ''RM-1'', ''trackSubscribed'', RoomTrackSubscribed, False),
        (OnRoom ''RM-1'', ''dominantSpeakerChanged'', RoomDominantSpeakerChanged, False),
        (OnRoom ''RM-1'', ''disconnected'', RoomDisconnected, True)]"
proof -
  let ?b = "fst (joinRoom_begin (Some ''token'') (Some ''lobby'') None registered)"
  have cb: "eventCallbacks ?b = Some registerCallbacks" by simp
  have l: "listeners ?b = []" by simp
  show ?thesis
    by (simp add: connected_to_eq joinRoom_connected_Some [OF cb example_keys] l)
       (simp add: example_room_def)
qed

lemma wrapped_local_listeners:
  "concat (map listener_of (wrapped registerCallbacks example_local False)) =
     [(OnPublication ''MT-mic'', ''subscribed'', PublicationSubscribed ''PA-local'' False, False),
      (OnPublication ''MT-mic'', ''unsubscribed'', PublicationUnsubscribed ''PA-local'', False),
      (OnPublication ''MT-cam'', ''subscribed'', PublicationSubscribed ''PA-local'' False, False),
      (OnPublication ''MT-cam'', ''unsubscribed'', PublicationUnsubscribed ''PA-local'', False),
      (OnParticipant ''PA-local'', ''trackSubscribed'', ParticipantTrackSubscribed ''PA-local'' False, False),
      (OnParticipant ''PA-local'', ''trackUnsubscribed'', ParticipantTrackUnsubscribed ''PA-local'', False),
      (OnParticipant ''PA-local'', ''trackPublished'', ParticipantTrackPublished ''PA-local'', False),
      (OnParticipant ''PA-local'', ''trackUnpublished'', ParticipantTrackUnpublished ''PA-local'', False)]"
  by (simp add: wrapped_def participantConnected_def example_local_def
        attachPublication_def trackSubscribed_def spread_def microphone_def camera_def
        isRemote_of_def andThen_Normal_snd)

lemma wrapped_remote_listeners:
  "concat (map listener_of (wrapped registerCallbacks example_remote True)) =
     [(OnTrack ''far-camera'', ''disabled'',
         MuteDisabled \<lparr>track_name = ''far-camera'', track_kind = Video\<rparr> ''PA-remote'', False),
      (OnTrack ''far-camera'', ''enabled'',
         MuteEnabled \<lparr>track_name = ''far-camera'', track_kind = Video\<rparr> ''PA-remote'', False),
      (OnPublication ''MT-far'', ''subscribed'', PublicationSubscribed ''PA-remote'' True, False),
      (OnPublication ''MT-far'', ''unsubscribed'', PublicationUnsubscribed ''PA-remote'', False),
      (OnParticipant ''PA-remote'', ''trackSubscribed'', ParticipantTrackSubscribed ''PA-remote'' True, False),
      (OnParticipant ''PA-remote'', ''trackUnsubscribed'', ParticipantTrackUnsubscribed ''PA-remote'', False),
      (OnParticipant ''PA-remote'', ''trackPublished'', ParticipantTrackPublished ''PA-remote'', False),
      (OnParticipant ''PA-remote'', ''trackUnpublished'', ParticipantTrackUnpublished ''PA-remote'', False)]"
  by (simp add: wrapped_def participantConnected_def example_remote_def
        attachPublication_def trackSubscribed_def spread_def setupTrackMuteEvents_def
        isRemote_of_def andThen_Normal_snd)

lemma has_callback_registered [simp]: "has_callback registerCallbacks ev = (ev \<noteq> RoomCompleted)"
  by (cases ev) (simp_all add: has_callback_def registerCallbacks_def)

lemma fire_unpublished_example:
  "fire (OnParticipant ''PA-remote'') ''trackUnpublished'' (NPublication pub) (connected_to example_room) =
     (perform [Notify ParticipantUnsubscribedTrack (PTrack (spread pub) (Some ''PA-remote'')) True]
        (connected_to example_room), Normal)"
  by (simp add: fire_def connected_example_listeners wrapped_local_listeners wrapped_remote_listeners
        trackUnsubscribed_def)

lemma far_unpublished_trace:
  "trace far_unpublished =
     trace (connected_to example_room)
     @ [Notify ParticipantUnsubscribedTrack (PTrack (Plain None (Some ''MT-far'')) (Some ''PA-remote'')) True]"
  by (simp add: far_unpublished_def fire_unpublished_example spread_def trackless_far_def)

section \<open>Facts about leaveRoom\<close>

lemma disconnections_simps [simp]:
  "disconnections [] = []"
  "disconnections (e # es) = disconnection_of e @ disconnections es"
  "disconnections (es @ es') = disconnections es @ disconnections es'"
  by (simp_all add: disconnections_def)

lemma turnOffMy_room:
  assumes "currentRoom s = Given r" and "eventCallbacks s = Some cb"
  shows "\<exists>es r'. fst (turnOffMy kind m1 m2 m3 m4 s) = (perform es s)\<lparr>currentRoom := Given r'\<rparr>
           \<and> room_sid r' = room_sid r \<and> sid (localParticipant r') = sid (localParticipant r)
           \<and> participants r' = participants r \<and> disconnections es = []
           \<and> (\<forall>x. Call (RoomDisconnect x) \<notin> set es)"
proof (cases "filter (\<lambda>pub. pub_kind pub = kind) (tracks (localParticipant r))")
  case Nil
  have "fst (turnOffMy kind m1 m2 m3 m4 s) = (perform [] s)\<lparr>currentRoom := Given r\<rparr>"
    using assms Nil by (simp add: turnOffMy_def)
  then show ?thesis by (intro exI [of _ "[]"] exI [of _ r]) simp
next
  case (Cons pub rest)
  show ?thesis
  proof (cases "pub_track pub")
    case None
    have "fst (turnOffMy kind m1 m2 m3 m4 s) = (perform [] s)\<lparr>currentRoom := Given r\<rparr>"
      using assms Cons None by (simp add: turnOffMy_def)
    then show ?thesis by (intro exI [of _ "[]"] exI [of _ r]) simp
  next
    case (Some t)
    let ?es = "[Call (UnpublishTrack (track_name t)), Call (StopTrack (track_name t)),
                Notify ParticipantUnsubscribedTrack
                  (PTrack (Plain (Some kind) None) (Some (sid (localParticipant r))))
                  (has_callback cb ParticipantUnsubscribedTrack)]"
    have "fst (turnOffMy kind m1 m2 m3 m4 s) = (perform ?es s)\<lparr>currentRoom := Given (unpublished t r)\<rparr>"
      using assms Cons Some by (simp add: turnOffMy_def trackUnsubscribed_def perform_def)
    then show ?thesis
      by (intro exI [of _ ?es] exI [of _ "unpublished t r"]) (simp add: unpublished_def)
  qed
qed

lemma run_listeners_appends: "\<exists>post. trace (fst (run_listeners ls args s)) = trace s @ post"
proof (induction ls arbitrary: s)
  case Nil
  then show ?case by simp
next
  case (Cons l ls)
  obtain em n h once where l: "l = (em, n, h, once)"
    by (cases l) auto
  let ?s1 = "if once then s\<lparr>listeners := remove1 (em, n, h, once) (listeners s)\<rparr> else s"
  obtain es out where r: "run_handler (eventCallbacks ?s1) h args = (es, out)"
    by (cases "run_handler (eventCallbacks ?s1) h args") auto
  have t1: "trace (perform es ?s1) = trace s @ es"
    by simp
  show ?case
  proof (cases out)
    case Normal
    obtain post where "trace (fst (run_listeners ls args (perform es ?s1))) = trace (perform es ?s1) @ post"
      using Cons.IH by blast
    then show ?thesis
      using r Normal t1 by (simp add: l Let_def)
  next
    case (Throw err)
    then show ?thesis
      using r t1 by (simp add: l Let_def)
  qed
qed

lemma fire_appends: "\<exists>post. trace (fst (fire em n args s)) = trace s @ post"
  unfolding fire_def by (rule run_listeners_appends)

lemma emit_all_appends: "\<exists>post. trace (fst (emit_all emitted s)) = trace s @ post"
proof (induction emitted arbitrary: s)
  case Nil
  then show ?case by simp
next
  case (Cons x rest)
  obtain em n args where x: "x = (em, n, args)"
    by (cases x) auto
  obtain s1 out where f: "fire em n args s = (s1, out)"
    by (cases "fire em n args s") auto
  obtain post1 where p1: "trace s1 = trace s @ post1"
    using fire_appends [of em n args s] f by auto
  show ?case
  proof (cases out)
    case Normal
    obtain post2 where "trace (fst (emit_all rest s1)) = trace s1 @ post2"
      using Cons.IH by blast
    then show ?thesis
      using f Normal p1 by (simp add: x)
  next
    case (Throw err)
    then show ?thesis
      using f p1 by (simp add: x)
  qed
qed

lemma forEach_disconnected:
  "forEach (\<lambda>(k, p). ([Notify ParticipantDisconnected (PParticipant (Some (sid p))) d], Normal)) ps =
     (map (\<lambda>(k, p). Notify ParticipantDisconnected (PParticipant (Some (sid p))) d) ps, Normal)"
  by (induction ps) (auto split: prod.splits)

section \<open>The notifications of a disconnect\<close>

text \<open>
  Claim C2, as the code has it. In a session with a room and registered callbacks (whether
  or not local audio and video are published), what \<open>leaveRoom\<close> adds to the trace before
  it calls \<open>disconnect\<close> on the room holds exactly one ParticipantDisconnected for the
  local participant, followed by exactly one for each participant of the room's map, in the
  order of the map. What follows the \<open>disconnect\<close> call in the trace is what the listeners
  of the events that the SDK emits during the call add.
\<close>

theorem leaveRoom_notifies_each_participant_once_before_disconnect:
  assumes "currentRoom s = Given r" and "eventCallbacks s = Some cb"
  shows "\<exists>pre post. trace (fst (leaveRoom emitted roomName s)) =
             trace s @ pre @ Call (RoomDisconnect (room_sid r)) # post
           \<and> (\<forall>x. Call (RoomDisconnect x) \<notin> set pre)
           \<and> disconnections pre =
               Some (sid (localParticipant r)) # map (\<lambda>(k, p). Some (sid p)) (participants r)"
proof -
  obtain es1 r1 where v: "fst (turnOffMyVideo s) = (perform es1 s)\<lparr>currentRoom := Given r1\<rparr>"
    and r1: "room_sid r1 = room_sid r" "sid (localParticipant r1) = sid (localParticipant r)"
      "participants r1 = participants r"
    and es1: "disconnections es1 = []" "\<forall>x. Call (RoomDisconnect x) \<notin> set es1"
    unfolding turnOffMyVideo_def using turnOffMy_room [OF assms] by blast
  let ?s1 = "(perform es1 s)\<lparr>currentRoom := Given r1\<rparr>"
  have room1: "currentRoom ?s1 = Given r1" and cb1: "eventCallbacks ?s1 = Some cb"
    using assms(2) by simp_all
  obtain es2 r2 where a: "fst (turnOffMyAudio ?s1) = (perform es2 ?s1)\<lparr>currentRoom := Given r2\<rparr>"
    and r2: "room_sid r2 = room_sid r1" "sid (localParticipant r2) = sid (localParticipant r1)"
      "participants r2 = participants r1"
    and es2: "disconnections es2 = []" "\<forall>x. Call (RoomDisconnect x) \<notin> set es2"
    unfolding turnOffMyAudio_def using turnOffMy_room [OF room1 cb1] by blast
  let ?s2 = "(perform es2 ?s1)\<lparr>currentRoom := Given r2\<rparr>"
  let ?pre = "es1 @ es2
      @ Notify ParticipantDisconnected (PParticipant (Some (sid (localParticipant r2))))
          (has_callback cb ParticipantDisconnected)
      # map (\<lambda>(k, p). Notify ParticipantDisconnected (PParticipant (Some (sid p)))
                        (has_callback cb ParticipantDisconnected)) (participants r2)
      @ [Notify Debug (PText (''Disconnected from room '' @ roomName)) (has_callback cb Debug)]"
  let ?s4 = "perform
      (map (\<lambda>(k, p). Notify ParticipantDisconnected (PParticipant (Some (sid p)))
                        (has_callback cb ParticipantDisconnected)) (participants r2)
       @ [Notify Debug (PText (''Disconnected from room '' @ roomName)) (has_callback cb Debug),
          Call (RoomDisconnect (room_sid r2))])
      (perform [Notify ParticipantDisconnected (PParticipant (Some (sid (localParticipant r2))))
                  (has_callback cb ParticipantDisconnected)] ?s2)"
  let ?fired = "emit_all emitted ?s4"
  have l: "fst (leaveRoom emitted roomName s) = fst ?fired
      \<or> fst (leaveRoom emitted roomName s) = (fst ?fired)\<lparr>currentRoom := Null\<rparr>"
    using assms(2)
    by (simp add: leaveRoom_def v a Let_def forEach_disconnected split: prod.split outcome.split)
  obtain post where post: "trace (fst ?fired) = trace ?s4 @ post"
    using emit_all_appends by blast
  have t4: "trace ?s4 = trace s @ ?pre @ [Call (RoomDisconnect (room_sid r))]"
    by (simp add: r2 r1)
  have tr: "trace (fst (leaveRoom emitted roomName s)) =
      trace s @ ?pre @ Call (RoomDisconnect (room_sid r)) # post"
    using l post t4 by auto
  have none: "\<forall>x. Call (RoomDisconnect x) \<notin> set ?pre"
    using es1(2) es2(2) by auto
  have "disconnections (map (\<lambda>(k, p). Notify ParticipantDisconnected (PParticipant (Some (sid p)))
            (has_callback cb ParticipantDisconnected)) ps) = map (\<lambda>(k, p). Some (sid p)) ps" for ps
    by (induction ps) (auto split: prod.splits)
  then have d: "disconnections ?pre =
      Some (sid (localParticipant r)) # map (\<lambda>(k, p). Some (sid p)) (participants r)"
    by (simp add: es1(1) es2(1) r2 r1)
  show ?thesis
    using tr none d by blast
qed

lemma example_room_facts [simp]:
  "room_sid example_room = ''RM-1''"
  "sid (localParticipant example_room) = ''PA-local''"
  "map (\<lambda>(k, p). Some (sid p)) (participants example_room) = [Some ''PA-remote'']"
  by (simp_all add: example_room_def example_local_def example_remote_def)

theorem leaveRoom_notifies_each_participant_once_before_disconnect_witness:
  "\<exists>pre post. trace example_left =
       trace (connected_to example_room) @ pre @ Call (RoomDisconnect ''RM-1'') # post
     \<and> (\<forall>x. Call (RoomDisconnect x) \<notin> set pre)
     \<and> disconnections pre = [Some ''PA-local'', Some ''PA-remote'']"
  using leaveRoom_notifies_each_participant_once_before_disconnect
    [of "connected_to example_room" example_room registerCallbacks example_disconnect "''lobby''"]
  by (simp add: example_left_def)

lemma turnOffMy_ok:
  assumes "currentRoom s = Given r" and "eventCallbacks s = Some cb"
    and "filter (\<lambda>pub. pub_kind pub = kind) (tracks (localParticipant r)) = pub # rest"
    and "pub_track pub = Some t"
  shows "turnOffMy kind m1 m2 m3 m4 s =
     ((perform [Call (UnpublishTrack (track_name t)), Call (StopTrack (track_name t)),
                Notify ParticipantUnsubscribedTrack
                  (PTrack (Plain (Some kind) None) (Some (sid (localParticipant r))))
                  (has_callback cb ParticipantUnsubscribedTrack)] s)
        \<lparr>currentRoom := Given (unpublished t r)\<rparr>, Resolved ())"
  using assms by (simp add: turnOffMy_def trackUnsubscribed_def perform_def)

lemma example_left_trace:
  "trace example_left =
     trace (connected_to example_room)
     @ [Call (UnpublishTrack ''camera''), Call (StopTrack ''camera''),
        Notify ParticipantUnsubscribedTrack (PTrack (Plain (Some Video) None) (Some ''PA-local'')) True,
        Call (UnpublishTrack ''microphone''), Call (StopTrack ''microphone''),
        Notify ParticipantUnsubscribedTrack (PTrack (Plain (Some Audio) None) (Some ''PA-local'')) True,
        Notify ParticipantDisconnected (PParticipant (Some ''PA-local'')) True,
        Notify ParticipantDisconnected (PParticipant (Some ''PA-remote'')) True,
        Notify Debug (PText ''Disconnected from room lobby'') True,
        Call (RoomDisconnect ''RM-1''),
        Notify ParticipantUnsubscribedTrack (PTrack (TrackObject far_camera) (Some ''PA-remote'')) True,
        Notify ParticipantUnsubscribedTrack (PTrack (TrackObject far_camera) (Some ''PA-remote'')) True,
        Notify ParticipantDisconnected (PParticipant (Some ''PA-local'')) True,
        Notify ParticipantDisconnected (PParticipant (Some ''PA-remote'')) True,
        Notify ErrorOccured (PRoom ''RM-1'') True]"
proof -
  let ?s0 = "connected_to example_room"
  let ?rv = "unpublished camera example_room"
  let ?ra = "unpublished microphone ?rv"
  let ?esv = "[Call (UnpublishTrack ''camera''), Call (StopTrack ''camera''),
      Notify ParticipantUnsubscribedTrack (PTrack (Plain (Some Video) None) (Some ''PA-local'')) True]"
  let ?esa = "[Call (UnpublishTrack ''microphone''), Call (StopTrack ''microphone''),
      Notify ParticipantUnsubscribedTrack (PTrack (Plain (Some Audio) None) (Some ''PA-local'')) True]"
  let ?sv = "(perform ?esv ?s0)\<lparr>currentRoom := Given ?rv\<rparr>"
  let ?sa = "(perform ?esa ?sv)\<lparr>currentRoom := Given ?ra\<rparr>"
  have fv: "filter (\<lambda>pub. pub_kind pub = Video) (tracks (localParticipant example_room)) =
      [\<lparr>trackSid = ''MT-cam'', pub_kind = Video, isSubscribed = False,
        pub_track = Some camera, pub_priority = Standard\<rparr>]"
    by (simp add: example_room_def example_local_def)
  have v: "turnOffMyVideo ?s0 = (?sv, Resolved ())"
    unfolding turnOffMyVideo_def
    by (subst turnOffMy_ok [where r = example_room and cb = registerCallbacks and t = camera, OF _ _ fv])
       (simp_all add: camera_def)
  have fa: "filter (\<lambda>pub. pub_kind pub = Audio) (tracks (localParticipant ?rv)) =
      [\<lparr>trackSid = ''MT-mic'', pub_kind = Audio, isSubscribed = False,
        pub_track = Some microphone, pub_priority = Standard\<rparr>]"
    by (simp add: unpublished_def example_room_def example_local_def camera_def microphone_def)
  have lv: "sid (localParticipant ?rv) = ''PA-local''"
    by (simp add: unpublished_def)
  have a: "turnOffMyAudio ?sv = (?sa, Resolved ())"
    unfolding turnOffMyAudio_def
    by (subst turnOffMy_ok [where r = ?rv and cb = registerCallbacks and t = microphone, OF _ _ fa])
       (simp_all add: microphone_def lv)
  have ra: "room_sid ?ra = ''RM-1''" "sid (localParticipant ?ra) = ''PA-local''"
    "participants ?ra = [(''PA-remote'', example_remote)]"
    by (simp_all add: unpublished_def) (simp add: example_room_def)
  have sida: "sid example_remote = ''PA-remote''"
    by (simp add: example_remote_def)
  have fired: "\<And>args s'. listeners s' = listeners ?s0 \<Longrightarrow>
      fire (OnRoom ''RM-1'') ''disconnected'' args s' =
        run_listeners [(OnRoom ''RM-1'', ''disconnected'', RoomDisconnected, True)] args s'"
    "\<And>args s'. listeners s' = listeners ?s0 \<Longrightarrow>
      fire (OnPublication ''MT-far'') ''unsubscribed'' args s' =
        run_listeners [(OnPublication ''MT-far'', ''unsubscribed'', PublicationUnsubscribed ''PA-remote'',
                        False)] args s'"
    "\<And>args s'. listeners s' = listeners ?s0 \<Longrightarrow>
      fire (OnParticipant ''PA-remote'') ''trackUnsubscribed'' args s' =
        run_listeners [(OnParticipant ''PA-remote'', ''trackUnsubscribed'',
                        ParticipantTrackUnsubscribed ''PA-remote'', False)] args s'"
    by (simp_all add: fire_def connected_example_listeners wrapped_local_listeners
          wrapped_remote_listeners)
  show ?thesis
    unfolding example_left_def
    by (simp add: leaveRoom_def v a Let_def ra sida fired participantDisconnected_def
          example_disconnect_def trackUnsubscribed_def)
qed

text \<open>
  Against claim C2 as stated: in the example session, with local audio and video
  published, \<open>leaveRoom\<close> notifies ParticipantDisconnected twice for the local and twice
  for the remote participant: once itself, and once more through the \<open>disconnected\<close>
  listener that \<open>joinRoom\<close> installed, which runs when the room emits \<open>disconnected\<close>
  during \<open>room.disconnect()\<close>.
\<close>

theorem leaveRoom_notifies_each_participant_twice:
  "disconnections (drop (length (trace (connected_to example_room))) (trace example_left)) =
     [Some ''PA-local'', Some ''PA-remote'', Some ''PA-local'', Some ''PA-remote'']
   \<and> currentRoom (connected_to example_room) = Given example_room
   \<and> map pub_kind (tracks (localParticipant example_room)) = [Audio, Video]"
  by (simp add: example_left_trace) (simp add: example_room_def example_local_def)

section \<open>Facts about the settings of the engine\<close>

lemma same_settings_refl [simp]: "same_settings s s"
  by (simp add: same_settings_def)

lemma same_settings_trans: "same_settings s s' \<Longrightarrow> same_settings s' s'' \<Longrightarrow> same_settings s s''"
  by (simp add: same_settings_def)

lemma same_settings_perform [simp]: "same_settings s (perform es s')  = same_settings s s'"
  by (simp add: same_settings_def)

lemma same_settings_updates [simp]:
  "same_settings s (s'\<lparr>currentRoom := cr\<rparr>) = same_settings s s'"
  "same_settings s (s'\<lparr>currentScreenTrack := st\<rparr>) = same_settings s s'"
  "same_settings s (s'\<lparr>listeners := ls\<rparr>) = same_settings s s'"
  by (simp_all add: same_settings_def)

lemma same_settings_run_listeners: "same_settings s (fst (run_listeners ls args s))"
proof -
  have "same_settings s0 s \<Longrightarrow> same_settings s0 (fst (run_listeners ls args s))" for s0
  proof (induction ls arbitrary: s)
    case Nil
    then show ?case by simp
  next
    case (Cons l ls)
    obtain em n h once where l: "l = (em, n, h, once)"
      by (cases l) auto
    let ?s1 = "if once then s\<lparr>listeners := remove1 (em, n, h, once) (listeners s)\<rparr> else s"
    obtain es out where r: "run_handler (eventCallbacks ?s1) h args = (es, out)"
      by (cases "run_handler (eventCallbacks ?s1) h args") auto
    have s1: "same_settings s0 (perform es ?s1)"
      using Cons.prems by simp
    show ?case
    proof (cases out)
      case Normal
      then show ?thesis
        using Cons.IH [OF s1] r by (simp add: l Let_def)
    next
      case (Throw err)
      then show ?thesis
        using s1 r by (simp add: l Let_def)
    qed
  qed
  then show ?thesis by simp
qed

lemma same_settings_fire: "same_settings s (fst (fire em n args s))"
  unfolding fire_def by (rule same_settings_run_listeners)

lemma same_settings_emit_all: "same_settings s (fst (emit_all emitted s))"
proof -
  have "same_settings s0 s \<Longrightarrow> same_settings s0 (fst (emit_all emitted s))" for s0
  proof (induction emitted arbitrary: s)
    case Nil
    then show ?case by simp
  next
    case (Cons x rest)
    obtain em n args where x: "x = (em, n, args)"
      by (cases x) auto
    obtain s1 out where f: "fire em n args s = (s1, out)"
      by (cases "fire em n args s") auto
    have s1: "same_settings s0 s1"
      using same_settings_trans [OF Cons.prems same_settings_fire [of s em n args]] f by simp
    show ?case
    proof (cases out)
      case Normal
      then show ?thesis
        using Cons.IH [OF s1] f by (simp add: x)
    next
      case (Throw err)
      then show ?thesis
        using s1 f by (simp add: x)
    qed
  qed
  then show ?thesis by simp
qed

lemma same_settings_turnOffMy: "same_settings s (fst (turnOffMy kind m1 m2 m3 m4 s))"
proof (cases "currentRoom s")
  case (Given r)
  show ?thesis
  proof (cases "filter (\<lambda>pub. pub_kind pub = kind) (tracks (localParticipant r))")
    case Nil
    then show ?thesis
      using Given by (simp add: turnOffMy_def)
  next
    case (Cons pub rest)
    show ?thesis
    proof (cases "pub_track pub")
      case None
      then show ?thesis
        using Given Cons by (simp add: turnOffMy_def)
    next
      case (Some t)
      then show ?thesis
        using Given Cons by (simp add: turnOffMy_def Let_def split: prod.split outcome.split)
    qed
  qed
qed (simp_all add: turnOffMy_def)

lemma same_settings_startScreenShare:
  "same_settings s (fst (startScreenShare env publish height width s))"
  by (simp add: startScreenShare_def setPriorities_def Let_def
        split: js_arg.split sum.split publish_result.split)

lemma same_settings_stopScreenShare: "same_settings s (fst (stopScreenShare s))"
  by (simp add: stopScreenShare_def setPriorities_def Let_def split: option.split js_arg.split)

lemma same_settings_leaveRoom: "same_settings s (fst (leaveRoom emitted roomName s))"
proof -
  let ?s2 = "fst (turnOffMyAudio (fst (turnOffMyVideo s)))"
  have s2: "same_settings s ?s2"
    unfolding turnOffMyAudio_def turnOffMyVideo_def
    by (rule same_settings_trans [OF same_settings_turnOffMy same_settings_turnOffMy])
  have emitted: "same_settings s (fst (emit_all emitted (perform es ?s2)))" for es
    by (rule same_settings_trans [OF _ same_settings_emit_all]) (simp add: s2)
  have "\<And>x. same_settings s x \<Longrightarrow> same_settings s (x\<lparr>currentRoom := Null\<rparr>)"
    by simp
  show ?thesis
    using s2 emitted
    by (simp add: leaveRoom_def Let_def split: prod.split outcome.split js_arg.split)
       (metis fst_conv same_settings_updates(1))
qed

lemma commit_same [simp]: "commit ref (options_of s ref) s = s"
  by (simp add: commit_def options_of_def split: options_ref.split)

lemma reref_same [simp]: "reref ref (options_of s ref) = ref"
  by (simp add: reref_def options_of_def split: options_ref.split)

lemma turnOnMy_fields:
  "eventCallbacks (fst (turnOnMy kind m1 m2 m3 m4 create publish device s)) = eventCallbacks s"
  "deviceIds (fst (turnOnMy kind m1 m2 m3 m4 create publish device s)) = deviceIds s"
  "localStorage (fst (turnOnMy kind m1 m2 m3 m4 create publish device s)) = localStorage s"
  by (simp_all add: turnOnMy_def Let_def
        split: option.split js_arg.split create_result.split publish_result.split)

lemma same_settings_turnOnMy:
  assumes "\<not> supplied device"
  shows "same_settings s (fst (turnOnMy kind m1 m2 m3 m4 create publish device s))"
proof -
  have "device = None \<or> device = Some []"
    using assms by (cases device) auto
  then show ?thesis
  proof
    assume "device = None"
    then show ?thesis
      by (simp add: turnOnMy_def Let_def same_settings_def
            split: option.split js_arg.split create_result.split publish_result.split)
  next
    assume "device = Some []"
    then show ?thesis
      by (simp add: turnOnMy_def Let_def same_settings_def
            split: option.split js_arg.split create_result.split publish_result.split)
  qed
qed

lemma selectDefaultMedia_fields [simp]:
  "eventCallbacks (selectDefaultMedia kind d s) = eventCallbacks s"
  "currentRoom (selectDefaultMedia kind d s) = currentRoom s"
  "currentConnectOptions (selectDefaultMedia kind d s) = currentConnectOptions s"
  "currentScreenTrack (selectDefaultMedia kind d s) = currentScreenTrack s"
  "deviceIds (selectDefaultMedia kind d s) = deviceIds s"
  "defaultConnectOptions (selectDefaultMedia kind d s) = defaultConnectOptions s"
  "listeners (selectDefaultMedia kind d s) = listeners s"
  "trace (selectDefaultMedia kind d s) = trace s"
  by (simp_all add: selectDefaultMedia_def split: option.split)

lemma same_settings_onMediaDevicesListChange:
  "same_settings s (fst (onMediaDevicesListChange callback s))"
  by (simp add: onMediaDevicesListChange_def split: prod.split)

lemma same_settings_init:
  "deviceIds (fst (init isSupported event_callbacks s)) = deviceIds s"
  "localStorage (fst (init isSupported event_callbacks s)) = localStorage s"
  "defaultConnectOptions (fst (init isSupported event_callbacks s)) = defaultConnectOptions s"
  "currentConnectOptions (fst (init isSupported event_callbacks s)) = currentConnectOptions s"
  by (simp_all add: init_def split: js_arg.split)

lemma same_settings_change_pref:
  "deviceIds (change_pref x s) = deviceIds s"
  "defaultConnectOptions (change_pref x s) = defaultConnectOptions s"
  "eventCallbacks (change_pref x s) = eventCallbacks s"
  by simp_all

lemma deviceIds_joinRoom:
  assumes "deviceIds s = Some ids"
  shows "deviceIds (fst (joinRoom sdk accessToken roomName connectOptions s)) = Some ids"
proof -
  have "deviceIds (fst (joinRoom_begin accessToken roomName connectOptions s)) = Some ids"
    using assms
    apply (simp add: joinRoom_begin_def)
    apply (simp add: Let_def split: option.split)
    done
  then show ?thesis
    by (simp add: joinRoom_fields)
qed

lemma no_explicit_resolves: "no_explicit_device opts \<Longrightarrow> resolves_to ids opts"
  by (auto simp add: no_explicit_device_def resolves_to_def split: option.splits)

lemma resolves_to_joinRoom:
  assumes "connect_ids s = ids" and "resolves_to ids (defaultConnectOptions s)"
  shows "resolves_to ids (defaultConnectOptions (fst (joinRoom sdk accessToken roomName connectOptions s)))"
proof (cases connectOptions)
  case (Some opts)
  then show ?thesis
    using assms(2) by (simp add: joinRoom_fields joinRoom_begin_caller_default)
next
  case None
  obtain a v where a: "opt_audio (defaultConnectOptions s) = Some a"
    and v: "opt_video (defaultConnectOptions s) = Some v"
    and da: "\<not> device_truthy (deviceId a) \<or> deviceId a = Some (Exact (dev_audio ids))"
    and dv: "\<not> device_truthy (deviceId v) \<or> deviceId v = Some (Exact (dev_video ids))"
    using assms(2) by (auto simp add: resolves_to_def split: option.splits)
  show ?thesis
  proof (cases "supplied accessToken \<and> supplied roomName \<and> eventCallbacks s \<noteq> None")
    case False
    then have "fst (joinRoom_begin accessToken roomName connectOptions s) = s"
      by (auto simp add: joinRoom_begin_def)
    then show ?thesis
      using assms(2) by (simp add: joinRoom_fields)
  next
    case True
    then obtain cb where cb: "eventCallbacks s = Some cb" by auto
    have a0: "opt_audio (options_of s (options_arg None)) = Some a"
      and v0: "opt_video (options_of s (options_arg None)) = Some v"
      using a v by (simp_all add: options_of_def options_arg_def)
    have "defaultConnectOptions (fst (joinRoom sdk accessToken roomName connectOptions s)) =
        resolved_options roomName None s"
      using True unfolding None
      by (simp add: joinRoom_fields joinRoom_begin_ok [OF _ _ cb a0 v0] commit_def options_arg_def)
    moreover have "resolves_to ids (resolved_options roomName None s)"
      using da dv a0 v0
      by (auto simp add: resolves_to_def resolved_options_def assms(1) resolveDevice_def)
    ultimately show ?thesis by simp
  qed
qed

lemma connect_ids_Some: "deviceIds s = Some ids \<Longrightarrow> connect_ids s = ids"
  by (simp add: connect_ids_def)

lemma same_settingsD:
  assumes "same_settings s s'"
  shows "eventCallbacks s' = eventCallbacks s" and "currentConnectOptions s' = currentConnectOptions s"
    and "deviceIds s' = deviceIds s" and "localStorage s' = localStorage s"
    and "defaultConnectOptions s' = defaultConnectOptions s"
  using assms by (simp_all add: same_settings_def)

lemma deviceIds_step:
  assumes "deviceIds s = Some ids"
  shows "deviceIds (step i s) = Some ids"
proof (cases i)
  case (JoinRoom sdk accessToken roomName connectOptions)
  then show ?thesis
    using deviceIds_joinRoom [OF assms] by simp
next
  case (LeaveRoom emitted roomName)
  then show ?thesis
    using same_settingsD(3) [OF same_settings_leaveRoom [of s emitted roomName]] assms by simp
next
  case (TurnOnMyAudio create publish device)
  then show ?thesis
    using assms by (simp add: turnOnMyAudio_def turnOnMy_fields)
next
  case (TurnOnMyVideo create publish device)
  then show ?thesis
    using assms by (simp add: turnOnMyVideo_def turnOnMy_fields)
next
  case TurnOffMyAudio
  then show ?thesis
    using same_settingsD(3) [OF same_settings_turnOffMy [of s Audio]] assms
    by (simp add: turnOffMyAudio_def)
next
  case TurnOffMyVideo
  then show ?thesis
    using same_settingsD(3) [OF same_settings_turnOffMy [of s Video]] assms
    by (simp add: turnOffMyVideo_def)
next
  case (StartScreenShare env publish height width)
  then show ?thesis
    using same_settingsD(3) [OF same_settings_startScreenShare [of s env publish height width]] assms
    by simp
next
  case StopScreenShare
  then show ?thesis
    using same_settingsD(3) [OF same_settings_stopScreenShare [of s]] assms by simp
next
  case (Emit em n args)
  then show ?thesis
    using same_settingsD(3) [OF same_settings_fire [of s em n args]] assms by simp
next
  case (OnMediaDevicesListChange callback)
  then show ?thesis
    using same_settingsD(3) [OF same_settings_onMediaDevicesListChange [of s callback]] assms by simp
qed (use assms in \<open>simp_all add: same_settings_init selectDefaultVideoSource_def
      selectDefaultAudioSource_def split: js_arg.split\<close>)

lemma resolves_to_step:
  assumes "deviceIds s = Some ids" and "resolves_to ids (defaultConnectOptions s)"
    and "\<not> names_device i"
  shows "resolves_to ids (defaultConnectOptions (step i s))"
proof (cases i)
  case (JoinRoom sdk accessToken roomName connectOptions)
  then show ?thesis
    using resolves_to_joinRoom [OF connect_ids_Some [OF assms(1)] assms(2)] by simp
next
  case (LeaveRoom emitted roomName)
  then show ?thesis
    using same_settingsD(5) [OF same_settings_leaveRoom [of s emitted roomName]] assms(2) by simp
next
  case (TurnOnMyAudio create publish device)
  then have "\<not> supplied device"
    using assms(3) by simp
  then show ?thesis
    using same_settingsD(5) [OF same_settings_turnOnMy [where device = device and s = s]] assms(2) TurnOnMyAudio
    by (simp add: turnOnMyAudio_def)
next
  case (TurnOnMyVideo create publish device)
  then have "\<not> supplied device"
    using assms(3) by simp
  then show ?thesis
    using same_settingsD(5) [OF same_settings_turnOnMy [where device = device and s = s]] assms(2) TurnOnMyVideo
    by (simp add: turnOnMyVideo_def)
next
  case TurnOffMyAudio
  then show ?thesis
    using same_settingsD(5) [OF same_settings_turnOffMy [of s Audio]] assms(2)
    by (simp add: turnOffMyAudio_def)
next
  case TurnOffMyVideo
  then show ?thesis
    using same_settingsD(5) [OF same_settings_turnOffMy [of s Video]] assms(2)
    by (simp add: turnOffMyVideo_def)
next
  case (StartScreenShare env publish height width)
  then show ?thesis
    using same_settingsD(5) [OF same_settings_startScreenShare [of s env publish height width]] assms(2)
    by simp
next
  case StopScreenShare
  then show ?thesis
    using same_settingsD(5) [OF same_settings_stopScreenShare [of s]] assms(2) by simp
next
  case (Emit em n args)
  then show ?thesis
    using same_settingsD(5) [OF same_settings_fire [of s em n args]] assms(2) by simp
next
  case (OnMediaDevicesListChange callback)
  then show ?thesis
    using same_settingsD(5) [OF same_settings_onMediaDevicesListChange [of s callback]] assms(2) by simp
qed (use assms(2) in \<open>simp_all add: same_settings_init selectDefaultVideoSource_def
      selectDefaultAudioSource_def split: js_arg.split\<close>)

lemma deviceIds_run: "deviceIds s = Some ids \<Longrightarrow> deviceIds (run ins s) = Some ids"
  unfolding run_def by (induction ins arbitrary: s) (simp_all add: deviceIds_step)

lemma resolves_to_run:
  assumes "deviceIds s = Some ids" and "resolves_to ids (defaultConnectOptions s)"
    and "\<forall>i \<in> set ins. \<not> names_device i"
  shows "resolves_to ids (defaultConnectOptions (run ins s))"
  using assms unfolding run_def
proof (induction ins arbitrary: s)
  case Nil
  then show ?case by simp
next
  case (Cons i ins)
  have "deviceIds (step i s) = Some ids"
    using Cons.prems(1) by (rule deviceIds_step)
  moreover have "resolves_to ids (defaultConnectOptions (step i s))"
    using Cons.prems by (intro resolves_to_step) simp_all
  ultimately show ?case
    using Cons.IH [of "step i s"] Cons.prems(3) by simp
qed

section \<open>The device preferences are read once\<close>

text \<open>
  Claim C10, as the code has it. \<open>joinRoom\<close> reads the stored device identifiers only while
  none are cached. The first connect that passes the three argument checks caches what the
  store holds then (\<open>s1\<close>), and nothing that happens afterwards changes the cache: \<open>s2\<close> is
  reached from \<open>s1\<close> by any run, and \<open>s3\<close> by a later connect. A later connect that passes
  its checks with options that name no device (the caller's object, or the default object
  when it named none at the start) resolves both device identifiers to the values read at
  the first connect, provided that, when it works on the default object, no
  \<open>turnOnMyAudio\<close> or \<open>turnOnMyVideo\<close> call of the run named a device. The preference
  changes in between are inputs of the run like any other, and do not matter.
\<close>

theorem device_ids_read_at_first_connect_only:
  assumes "deviceIds s0 = None"
    and "supplied token1" and "supplied room1" and "eventCallbacks s0 = Some cb1"
    and "s1 = fst (joinRoom sdk1 token1 room1 options1 s0)"
    and "s2 = run ins s1"
    and "supplied token2" and "supplied room2" and "eventCallbacks s2 = Some cb2"
    and "no_explicit_device (case options2 of None \<Rightarrow> defaultConnectOptions s0 | Some opts \<Rightarrow> opts)"
    and "options2 = None \<longrightarrow> (\<forall>i \<in> set ins. \<not> names_device i)"
    and "s3 = fst (joinRoom sdk2 token2 room2 options2 s2)"
  shows "deviceIds s1 = Some (fetchDeviceIds s0)
       \<and> deviceIds s2 = Some (fetchDeviceIds s0)
       \<and> deviceIds s3 = Some (fetchDeviceIds s0)
       \<and> session_device opt_audio s3 = Some (Exact (getItem s0 ''audioInputDeviceId''))
       \<and> session_device opt_video s3 = Some (Exact (getItem s0 ''videoDeviceId''))"
proof -
  let ?ids = "fetchDeviceIds s0"
  have ids0: "connect_ids s0 = ?ids"
    using assms(1) by (simp add: connect_ids_def)
  have d1: "deviceIds s1 = Some ?ids"
    unfolding assms(5) by (simp add: joinRoom_fields joinRoom_begin_deviceIds [OF assms(2,3,4)] ids0)
  have d2: "deviceIds s2 = Some ?ids"
    unfolding assms(6) by (rule deviceIds_run [OF d1])
  have ids2: "connect_ids s2 = ?ids"
    by (simp add: connect_ids_def d2)
  have d3: "deviceIds s3 = Some ?ids"
    unfolding assms(12) by (rule deviceIds_joinRoom [OF d2])
  have base: "resolves_to ?ids (options_of s2 (options_arg options2))"
  proof (cases options2)
    case (Some opts)
    with assms(10) have "no_explicit_device opts" by simp
    then show ?thesis
      using Some by (simp add: options_of_def options_arg_def no_explicit_resolves)
  next
    case None
    with assms(10) have "resolves_to ?ids (defaultConnectOptions s0)"
      by (simp add: no_explicit_resolves)
    then have "resolves_to ?ids (defaultConnectOptions s1)"
      unfolding assms(5) by (rule resolves_to_joinRoom [OF ids0])
    moreover have "\<forall>i \<in> set ins. \<not> names_device i"
      using assms(11) None by simp
    ultimately have "resolves_to ?ids (defaultConnectOptions s2)"
      unfolding assms(6) by (intro resolves_to_run d1)
    then show ?thesis
      using None by (simp add: options_of_def options_arg_def)
  qed
  then obtain a v where a: "opt_audio (options_of s2 (options_arg options2)) = Some a"
    and v: "opt_video (options_of s2 (options_arg options2)) = Some v"
    and da: "\<not> device_truthy (deviceId a) \<or> deviceId a = Some (Exact (dev_audio ?ids))"
    and dv: "\<not> device_truthy (deviceId v) \<or> deviceId v = Some (Exact (dev_video ?ids))"
    by (auto simp add: resolves_to_def split: option.splits)
  have ra: "deviceId (resolveDevice a (dev_audio ?ids)) = Some (Exact (dev_audio ?ids))"
    using da by (auto simp add: resolveDevice_def)
  have rv: "deviceId (resolveDevice v (dev_video ?ids)) = Some (Exact (dev_video ?ids))"
    using dv by (auto simp add: resolveDevice_def)
  have sa: "session_device opt_audio s3 = Some (Exact (dev_audio ?ids))"
    unfolding assms(12)
    by (simp only: session_device_joinRoom session_device_begin [OF assms(7,8,9) a v])
       (simp add: resolved_options_def a ids2 ra)
  have sv: "session_device opt_video s3 = Some (Exact (dev_video ?ids))"
    unfolding assms(12)
    by (simp only: session_device_joinRoom session_device_begin [OF assms(7,8,9) a v])
       (simp add: resolved_options_def v ids2 rv)
  show ?thesis
    using d1 d2 d3 sa sv by (simp add: fetchDeviceIds_def)
qed

lemma eventCallbacks_step:
  assumes "\<forall>b c. i \<noteq> Init b c"
  shows "eventCallbacks (step i s) = eventCallbacks s"
proof (cases i)
  case (JoinRoom sdk accessToken roomName connectOptions)
  then show ?thesis by (simp add: joinRoom_fields)
next
  case (LeaveRoom emitted roomName)
  then show ?thesis
    using same_settingsD(1) [OF same_settings_leaveRoom [of s emitted roomName]] by simp
next
  case (TurnOnMyAudio create publish device)
  then show ?thesis by (simp add: turnOnMyAudio_def turnOnMy_fields)
next
  case (TurnOnMyVideo create publish device)
  then show ?thesis by (simp add: turnOnMyVideo_def turnOnMy_fields)
next
  case TurnOffMyAudio
  then show ?thesis
    using same_settingsD(1) [OF same_settings_turnOffMy [of s Audio]] by (simp add: turnOffMyAudio_def)
next
  case TurnOffMyVideo
  then show ?thesis
    using same_settingsD(1) [OF same_settings_turnOffMy [of s Video]] by (simp add: turnOffMyVideo_def)
next
  case (StartScreenShare env publish height width)
  then show ?thesis
    using same_settingsD(1) [OF same_settings_startScreenShare [of s env publish height width]] by simp
next
  case StopScreenShare
  then show ?thesis
    using same_settingsD(1) [OF same_settings_stopScreenShare [of s]] by simp
next
  case (Emit em n args)
  then show ?thesis
    using same_settingsD(1) [OF same_settings_fire [of s em n args]] by simp
next
  case (OnMediaDevicesListChange callback)
  then show ?thesis
    using same_settingsD(1) [OF same_settings_onMediaDevicesListChange [of s callback]] by simp
qed (use assms in \<open>simp_all add: selectDefaultVideoSource_def selectDefaultAudioSource_def
      split: js_arg.split\<close>)

lemma localStorage_step:
  assumes "\<forall>x. i \<noteq> ChangePref x"
    and "\<forall>d. i \<noteq> SelectDefaultVideoSource d" and "\<forall>d. i \<noteq> SelectDefaultAudioSource d"
  shows "localStorage (step i s) = localStorage s"
proof (cases i)
  case (JoinRoom sdk accessToken roomName connectOptions)
  then show ?thesis by (simp add: joinRoom_fields)
next
  case (LeaveRoom emitted roomName)
  then show ?thesis
    using same_settingsD(4) [OF same_settings_leaveRoom [of s emitted roomName]] by simp
next
  case (TurnOnMyAudio create publish device)
  then show ?thesis by (simp add: turnOnMyAudio_def turnOnMy_fields)
next
  case (TurnOnMyVideo create publish device)
  then show ?thesis by (simp add: turnOnMyVideo_def turnOnMy_fields)
next
  case TurnOffMyAudio
  then show ?thesis
    using same_settingsD(4) [OF same_settings_turnOffMy [of s Audio]] by (simp add: turnOffMyAudio_def)
next
  case TurnOffMyVideo
  then show ?thesis
    using same_settingsD(4) [OF same_settings_turnOffMy [of s Video]] by (simp add: turnOffMyVideo_def)
next
  case (StartScreenShare env publish height width)
  then show ?thesis
    using same_settingsD(4) [OF same_settings_startScreenShare [of s env publish height width]] by simp
next
  case StopScreenShare
  then show ?thesis
    using same_settingsD(4) [OF same_settings_stopScreenShare [of s]] by simp
next
  case (Emit em n args)
  then show ?thesis
    using same_settingsD(4) [OF same_settings_fire [of s em n args]] by simp
next
  case (OnMediaDevicesListChange callback)
  then show ?thesis
    using same_settingsD(4) [OF same_settings_onMediaDevicesListChange [of s callback]] by simp
qed (use assms in \<open>simp_all add: same_settings_init split: js_arg.split\<close>)

lemma stored_cam1_fields [simp]:
  "eventCallbacks stored_cam1 = Some registerCallbacks"
  "deviceIds stored_cam1 = None"
  "currentConnectOptions stored_cam1 = None"
  "defaultConnectOptions stored_cam1 = example_defaults"
  "localStorage stored_cam1 = [(''videoDeviceId'', ''cam-1'')]"
  by (simp_all add: stored_cam1_def assignDefaultVideoInputDeviceId_def setItem_def)

lemma stored_cam1_options [simp]:
  "opt_audio (options_of stored_cam1 (options_arg None)) =
     Some \<lparr>deviceId = None, opt_width = None, opt_height = None\<rparr>"
  "opt_video (options_of stored_cam1 (options_arg None)) =
     Some \<lparr>deviceId = None, opt_width = Some 1280, opt_height = Some 720\<rparr>"
  by (simp_all add: options_of_def options_arg_def example_defaults_def)

lemma stored_cam1_ids [simp]:
  "fetchDeviceIds stored_cam1 = \<lparr>dev_audio = None, dev_video = Some ''cam-1''\<rparr>"
  by (simp add: fetchDeviceIds_def getItem_def)

lemma after_first_fields [simp]:
  "eventCallbacks after_first = Some registerCallbacks"
  "localStorage after_first = [(''videoDeviceId'', ''cam-1'')]"
  "deviceIds after_first = Some \<lparr>dev_audio = None, dev_video = Some ''cam-1''\<rparr>"
  "currentConnectOptions after_first = Some DefaultOptions"
  "opt_audio (defaultConnectOptions after_first) =
     Some \<lparr>deviceId = Some (Exact None), opt_width = None, opt_height = None\<rparr>"
  "opt_video (defaultConnectOptions after_first) =
     Some \<lparr>deviceId = Some (Exact (Some ''cam-1'')), opt_width = Some 1280, opt_height = Some 720\<rparr>"
proof -
  note b = joinRoom_begin_ok [where cb = registerCallbacks and s = stored_cam1
      and accessToken = "Some ''token''" and roomName = "Some ''lobby''" and connectOptions = None,
      OF _ _ _ stored_cam1_options]
  show "eventCallbacks after_first = Some registerCallbacks"
    "localStorage after_first = [(''videoDeviceId'', ''cam-1'')]"
    by (simp_all add: after_first_def joinRoom_fields)
  show "deviceIds after_first = Some \<lparr>dev_audio = None, dev_video = Some ''cam-1''\<rparr>"
    by (simp add: after_first_def joinRoom_fields b connect_ids_def)
  show "currentConnectOptions after_first = Some DefaultOptions"
    by (simp add: after_first_def joinRoom_fields b reref_def options_arg_def)
  show "opt_audio (defaultConnectOptions after_first) =
     Some \<lparr>deviceId = Some (Exact None), opt_width = None, opt_height = None\<rparr>"
    "opt_video (defaultConnectOptions after_first) =
     Some \<lparr>deviceId = Some (Exact (Some ''cam-1'')), opt_width = Some 1280, opt_height = Some 720\<rparr>"
    by (simp_all add: after_first_def joinRoom_fields b commit_def options_arg_def resolved_options_def
          connect_ids_def resolveDevice_def options_of_def example_defaults_def)
qed

theorem device_ids_read_at_first_connect_only_witness:
  "deviceIds after_first = Some (fetchDeviceIds stored_cam1)
   \<and> deviceIds after_changes = Some (fetchDeviceIds stored_cam1)
   \<and> deviceIds after_second = Some (fetchDeviceIds stored_cam1)
   \<and> session_device opt_audio after_second = Some (Exact None)
   \<and> session_device opt_video after_second = Some (Exact (Some ''cam-1''))
   \<and> getItem after_changes ''videoDeviceId'' = Some ''cam-2''"
proof -
  have stored: "getItem stored_cam1 ''videoDeviceId'' = Some ''cam-1''"
    "getItem stored_cam1 ''audioInputDeviceId'' = None"
    by (simp_all add: getItem_def)
  have cb2: "eventCallbacks after_changes = Some registerCallbacks"
    by (simp add: after_changes_def run_def between_def eventCallbacks_step del: step.simps)
  have "localStorage after_changes =
      localStorage (change_pref ClearAudioInput (change_pref (AssignVideoInput ''cam-2'') after_first))"
    by (simp add: after_changes_def run_def between_def localStorage_step del: step.simps) simp
  then have changed: "getItem after_changes ''videoDeviceId'' = Some ''cam-2''"
    by (simp add: getItem_def assignDefaultVideoInputDeviceId_def clearDefaultAudioInputDeviceId_def
          removeItem_def setItem_def)
  have "deviceIds after_first = Some (fetchDeviceIds stored_cam1)
      \<and> deviceIds after_changes = Some (fetchDeviceIds stored_cam1)
      \<and> deviceIds after_second = Some (fetchDeviceIds stored_cam1)
      \<and> session_device opt_audio after_second = Some (Exact (getItem stored_cam1 ''audioInputDeviceId''))
      \<and> session_device opt_video after_second = Some (Exact (getItem stored_cam1 ''videoDeviceId''))"
    by (rule device_ids_read_at_first_connect_only
          [where ?cb1.0 = registerCallbacks and ?cb2.0 = registerCallbacks and ?s0.0 = stored_cam1
             and ?s1.0 = after_first and ?s2.0 = after_changes and ?s3.0 = after_second
             and ins = between
             and ?sdk1.0 = "ConnectOk example_room" and ?sdk2.0 = "ConnectOk second_room"
             and ?token1.0 = "Some ''token''" and ?token2.0 = "Some ''token''"
             and ?room1.0 = "Some ''lobby''" and ?room2.0 = "Some ''lobby''"
             and ?options1.0 = None and ?options2.0 = None,
           OF _ _ _ _ after_first_def after_changes_def _ _ cb2 _ _ after_second_def])
       (simp_all add: no_explicit_device_def example_defaults_def between_def)
  then show ?thesis
    using stored changed by simp
qed

text \<open>
  A device that \<open>turnOnMyVideo\<close> names is written into the options object of the session.
\<close>

lemma turnOnMy_names_default:
  assumes "currentConnectOptions s = Some DefaultOptions"
    and "opt_video (defaultConnectOptions s) = Some v" and "d \<noteq> []"
  shows "defaultConnectOptions (fst (turnOnMy Video m1 m2 m3 m4 create publish (Some d) s)) =
           (defaultConnectOptions s)\<lparr>opt_video := Some (v\<lparr>deviceId := Some (Bare d)\<rparr>)\<rparr>"
    and "currentConnectOptions (fst (turnOnMy Video m1 m2 m3 m4 create publish (Some d) s)) =
           Some DefaultOptions"
  using assms
  by (simp_all add: turnOnMy_def Let_def media_of_def with_media_def options_of_def commit_def
        reref_def split: js_arg.split create_result.split publish_result.split)

text \<open>
  Against claim C10 as stated: after a first connect without options, which reads the
  stored camera \<open>cam-1\<close>, \<open>turnOnMyVideo("cam-X")\<close> writes its identifier into the options
  object of the session, which is the module's default object. After \<open>leaveRoom\<close>, a second
  connect without options finds the identifier there and keeps it: the video device of
  the session is \<open>"cam-X"\<close>, not the cached \<open>{exact: "cam-1"}\<close>.
\<close>

theorem device_named_by_turnOnMyVideo_reaches_later_connect:
  "deviceIds after_first = Some \<lparr>dev_audio = None, dev_video = Some ''cam-1''\<rparr>
   \<and> deviceIds after_named = Some \<lparr>dev_audio = None, dev_video = Some ''cam-1''\<rparr>
   \<and> session_device opt_audio after_named = Some (Exact None)
   \<and> session_device opt_video after_named = Some (Bare ''cam-X'')"
proof -
  let ?left = "fst (leaveRoom example_disconnect ''lobby'' camera_named)"
  note named = turnOnMy_names_default [where s = after_first and d = "''cam-X''",
      OF after_first_fields(4) after_first_fields(6)]
  have same: "same_settings camera_named ?left"
    by (rule same_settings_leaveRoom)
  have cb: "eventCallbacks ?left = Some registerCallbacks"
    using same_settingsD(1) [OF same]
    by (simp add: camera_named_def turnOnMyVideo_def turnOnMy_fields)
  have ids: "deviceIds ?left = Some \<lparr>dev_audio = None, dev_video = Some ''cam-1''\<rparr>"
    using same_settingsD(3) [OF same]
    by (simp add: camera_named_def turnOnMyVideo_def turnOnMy_fields)
  have a: "opt_audio (options_of ?left (options_arg None)) =
      Some \<lparr>deviceId = Some (Exact None), opt_width = None, opt_height = None\<rparr>"
    and v: "opt_video (options_of ?left (options_arg None)) =
      Some \<lparr>deviceId = Some (Bare ''cam-X''), opt_width = Some 1280, opt_height = Some 720\<rparr>"
    using same_settingsD(5) [OF same]
    by (simp_all add: options_of_def options_arg_def camera_named_def turnOnMyVideo_def named)
  have d: "deviceIds after_named = Some \<lparr>dev_audio = None, dev_video = Some ''cam-1''\<rparr>"
    unfolding after_named_def by (rule deviceIds_joinRoom [OF ids])
  have begun: "session_device sel (fst (joinRoom_begin (Some ''token'') (Some ''lobby'') None ?left)) =
      (case sel (resolved_options (Some ''lobby'') None ?left) of None \<Rightarrow> None | Some m \<Rightarrow> deviceId m)"
    for sel
    by (rule session_device_begin [OF _ _ cb a v]) simp_all
  have sa: "session_device opt_audio after_named = Some (Exact None)"
    unfolding after_named_def
    by (simp add: session_device_joinRoom begun resolved_options_def a resolveDevice_def)
  have sv: "session_device opt_video after_named = Some (Bare ''cam-X'')"
    unfolding after_named_def
    by (simp add: session_device_joinRoom begun resolved_options_def v resolveDevice_def)
  show ?thesis
    using d sa sv by simp
qed

section \<open>Facts about track notifications\<close>

lemma carries_mono:
  assumes "set pubs \<subseteq> set pubs'" and "set kinds \<subseteq> set kinds'" and "carries pubs kinds e"
  shows "carries pubs' kinds' e"
proof (cases e)
  case (Notify ev a d)
  show ?thesis
  proof (cases a)
    case (PTrack tr p)
    show ?thesis
    proof (cases tr)
      case (TrackObject t)
      then show ?thesis using assms(3) Notify PTrack by (auto split: if_splits)
    next
      case (Plain k x)
      then show ?thesis using assms Notify PTrack by (auto split: if_splits)
    qed
  qed (use assms(3) Notify in \<open>auto split: if_splits\<close>)
qed simp_all

lemma carries_notify_other:
  "ev \<noteq> ParticipantSubscribedTrack \<Longrightarrow> ev \<noteq> ParticipantUnsubscribedTrack \<Longrightarrow>
   e \<in> set (fst (notifyOfEvent cbs ev a)) \<Longrightarrow> carries pubs kinds e"
  by (cases cbs) auto

lemma carries_trackSubscribed:
  "described pubs kinds tr \<Longrightarrow> e \<in> set (fst (trackSubscribed cbs (PTrack tr (Some p)))) \<Longrightarrow>
   carries pubs kinds e"
  by (cases cbs) (auto simp add: trackSubscribed_def)

lemma carries_trackUnsubscribed:
  "described pubs kinds tr \<Longrightarrow> e \<in> set (fst (trackUnsubscribed cbs (PTrack tr (Some p)))) \<Longrightarrow>
   carries pubs kinds e"
  by (cases cbs) (auto simp add: trackUnsubscribed_def)

lemma carries_setup: "e \<in> set (fst (setupTrackMuteEvents tr p)) \<Longrightarrow> carries pubs kinds e"
  by (cases tr) (auto simp add: setupTrackMuteEvents_def)

lemma described_track [simp]: "described pubs kinds (TrackObject t)"
  by simp

lemma described_spread: "pub \<in> set pubs \<Longrightarrow> described pubs kinds (spread pub)"
  by (auto simp add: spread_def)

lemma described_forced: "kind \<in> set kinds \<Longrightarrow> described pubs kinds (Plain (Some kind) None)"
  by auto

lemmas carries_track_object =
  carries_trackSubscribed [OF described_track] carries_trackUnsubscribed [OF described_track]

lemmas carries_publication =
  carries_trackSubscribed [OF described_spread] carries_trackUnsubscribed [OF described_spread]

lemma carries_attach:
  "pub \<in> set pubs \<Longrightarrow> e \<in> set (fst (attachPublication cbs p b pub)) \<Longrightarrow> carries pubs kinds e"
  unfolding attachPublication_def
  by (auto dest!: andThen_effects dest: carries_setup carries_publication split: if_splits)

lemma carries_notify_ParticipantConnected:
  "e \<in> set (fst (notifyOfEvent cbs ParticipantConnected a)) \<Longrightarrow> carries pubs kinds e"
  by (rule carries_notify_other [where ev = ParticipantConnected]) simp_all

lemma carries_participantConnected:
  assumes "set (tracks p) \<subseteq> set pubs" and "e \<in> set (fst (participantConnected cbs p v))"
  shows "carries pubs kinds e"
  using assms unfolding participantConnected_def
  by (auto dest!: andThen_effects forEach_effects
        dest: carries_attach carries_notify_ParticipantConnected)

lemma carries_participantDisconnected:
  "e \<in> set (fst (participantDisconnected cbs p)) \<Longrightarrow> carries pubs kinds e"
  unfolding participantDisconnected_def
  by (rule carries_notify_other [where ev = ParticipantDisconnected]) simp_all

lemma carries_dominantSpeakerChanged:
  "e \<in> set (fst (dominantSpeakerChanged cbs p)) \<Longrightarrow> carries pubs kinds e"
  unfolding dominantSpeakerChanged_def
  by (rule carries_notify_other [where ev = DominantSpeakerChanged]) simp_all

lemma carries_notify_ErrorOccured:
  "e \<in> set (fst (notifyOfEvent cbs ErrorOccured a)) \<Longrightarrow> carries pubs kinds e"
  by (rule carries_notify_other [where ev = ErrorOccured]) simp_all

lemma carries_run_handler:
  assumes "set (shown args) \<subseteq> set pubs" and "e \<in> set (fst (run_handler cbs h args))"
  shows "carries pubs kinds e"
  using assms
  by (cases h; cases args)
     (auto dest!: andThen_effects forEach_effects
           dest: carries_track_object carries_publication carries_setup carries_participantConnected
                 carries_participantDisconnected carries_dominantSpeakerChanged
                 carries_notify_ErrorOccured
           split: if_splits)

lemma carries_run_listeners:
  assumes "\<forall>e \<in> set (trace s). carries pubs kinds e" and "set (shown args) \<subseteq> set pubs"
  shows "\<forall>e \<in> set (trace (fst (run_listeners ls args s))). carries pubs kinds e"
  using assms(1)
proof (induction ls arbitrary: s)
  case Nil
  then show ?case by simp
next
  case (Cons l ls)
  obtain em n h once where l: "l = (em, n, h, once)"
    by (cases l) auto
  let ?s1 = "if once then s\<lparr>listeners := remove1 (em, n, h, once) (listeners s)\<rparr> else s"
  obtain es out where r: "run_handler (eventCallbacks ?s1) h args = (es, out)"
    by (cases "run_handler (eventCallbacks ?s1) h args") auto
  have es: "\<forall>e \<in> set es. carries pubs kinds e"
    using carries_run_handler [OF assms(2), of _ "eventCallbacks ?s1" h] r by auto
  have s1: "\<forall>e \<in> set (trace (perform es ?s1)). carries pubs kinds e"
    using Cons.prems es by auto
  show ?case
  proof (cases out)
    case Normal
    then show ?thesis
      using Cons.IH [OF s1] r by (simp add: l Let_def)
  next
    case (Throw err)
    then show ?thesis
      using s1 r by (simp add: l Let_def)
  qed
qed

lemma carries_fire:
  assumes "\<forall>e \<in> set (trace s). carries pubs kinds e" and "set (shown args) \<subseteq> set pubs"
  shows "\<forall>e \<in> set (trace (fst (fire em n args s))). carries pubs kinds e"
  unfolding fire_def by (rule carries_run_listeners [OF assms])

lemma carries_emit_all:
  assumes "\<forall>e \<in> set (trace s). carries pubs kinds e"
    and "set (concat (map (\<lambda>(em, n, args). shown args) emitted)) \<subseteq> set pubs"
  shows "\<forall>e \<in> set (trace (fst (emit_all emitted s))). carries pubs kinds e"
  using assms
proof (induction emitted arbitrary: s)
  case Nil
  then show ?case by simp
next
  case (Cons x rest)
  obtain em n args where x: "x = (em, n, args)"
    by (cases x) auto
  obtain s1 out where f: "fire em n args s = (s1, out)"
    by (cases "fire em n args s") auto
  have "set (shown args) \<subseteq> set pubs"
    using Cons.prems(2) by (simp add: x)
  then have s1: "\<forall>e \<in> set (trace s1). carries pubs kinds e"
    using carries_fire [OF Cons.prems(1), of args em n] f by simp
  have rest: "set (concat (map (\<lambda>(em, n, args). shown args) rest)) \<subseteq> set pubs"
    using Cons.prems(2) by simp
  show ?case
  proof (cases out)
    case Normal
    then show ?thesis
      using Cons.IH [OF s1 rest] f by (simp add: x)
  next
    case (Throw err)
    then show ?thesis
      using s1 f by (simp add: x)
  qed
qed

lemma carries_andThen:
  "\<forall>e \<in> set (fst a). carries pubs kinds e \<Longrightarrow> \<forall>e \<in> set (fst b). carries pubs kinds e \<Longrightarrow>
   \<forall>e \<in> set (fst (andThen a b)). carries pubs kinds e"
  by (auto dest: andThen_effects)

lemma carries_joinRoom_begin:
  assumes "\<forall>e \<in> set (trace s). carries pubs kinds e"
  shows "\<forall>e \<in> set (trace (fst (joinRoom_begin accessToken roomName connectOptions s))).
           carries pubs kinds e"
  using assms joinRoom_begin_trace [of accessToken roomName connectOptions s] by auto

lemma carries_notify_RoomConnected:
  "e \<in> set (fst (notifyOfEvent cbs RoomConnected a)) \<Longrightarrow> carries pubs kinds e"
  by (rule carries_notify_other [where ev = RoomConnected]) simp_all

lemma carries_notify_Complete:
  "e \<in> set (fst (notifyOfEvent cbs ExistingParticipantsReportingComplete a)) \<Longrightarrow> carries pubs kinds e"
  by (rule carries_notify_other [where ev = ExistingParticipantsReportingComplete]) simp_all

lemma carries_notify_ParticipantDisconnected:
  "e \<in> set (fst (notifyOfEvent cbs ParticipantDisconnected a)) \<Longrightarrow> carries pubs kinds e"
  by (rule carries_notify_other [where ev = ParticipantDisconnected]) simp_all

lemma carries_notify_Debug: "e \<in> set (fst (notifyOfEvent cbs Debug a)) \<Longrightarrow> carries pubs kinds e"
  by (rule carries_notify_other [where ev = Debug]) simp_all

lemma carries_joinRoom_connected:
  assumes "\<forall>e \<in> set (trace s). carries pubs kinds e"
    and "set (tracks (localParticipant r)) \<subseteq> set pubs"
    and "\<forall>(k, p) \<in> set (participants r). set (tracks p) \<subseteq> set pubs"
  shows "\<forall>e \<in> set (trace (fst (joinRoom_connected r s))). carries pubs kinds e"
proof -
  let ?first = "notifyOfEvent (eventCallbacks s) RoomConnected (PRoom (room_sid r))"
  let ?rest = "andThen (participantConnected (eventCallbacks s) (localParticipant r) (JBool False))
       (andThen (forEach (\<lambda>(k, p). participantConnected (eventCallbacks s) p (JString k)) (participants r))
       (andThen ([Listen (OnRoom (room_sid r)) ''participantConnected'' RoomParticipantConnected False,
                  Listen (OnRoom (room_sid r)) ''participantDisconnected'' RoomParticipantDisconnected False,
                  Listen (OnRoom (room_sid r)) ''trackSubscribed'' RoomTrackSubscribed False], Normal)
       (andThen (notifyOfEvent (eventCallbacks s) ExistingParticipantsReportingComplete (PRoom (room_sid r)))
                ([Listen (OnRoom (room_sid r)) ''dominantSpeakerChanged'' RoomDominantSpeakerChanged False,
                  Listen (OnRoom (room_sid r)) ''disconnected'' RoomDisconnected True], Normal))))"
  have first: "\<forall>e \<in> set (fst ?first). carries pubs kinds e"
    by (auto dest: carries_notify_RoomConnected)
  have roster: "\<forall>e \<in> set (fst (forEach (\<lambda>(k, p). participantConnected (eventCallbacks s) p (JString k))
      (participants r))). carries pubs kinds e"
    using assms(3) by (auto dest!: forEach_effects dest: carries_participantConnected)
  have rest: "\<forall>e \<in> set (fst ?rest). carries pubs kinds e"
    by (intro carries_andThen roster)
       (auto dest: carries_participantConnected [OF assms(2)] carries_notify_Complete)
  have "trace (fst (joinRoom_connected r s)) = trace s @ fst ?first
      \<or> trace (fst (joinRoom_connected r s)) = trace s @ fst ?first @ fst ?rest"
    by (simp add: joinRoom_connected_def Let_def split: prod.split outcome.split)
  then show ?thesis
    using assms(1) first rest by auto
qed

lemma in_roster:
  "(k, p) \<in> set ps \<Longrightarrow> x \<in> set (tracks p) \<Longrightarrow> x \<in> set (concat (map (\<lambda>(k, p). tracks p) ps))"
  by (induction ps) auto

lemma carries_joinRoom:
  assumes "\<forall>e \<in> set (trace s). carries pubs kinds e"
    and "set (handed (JoinRoom sdk accessToken roomName connectOptions)) \<subseteq> set pubs"
  shows "\<forall>e \<in> set (trace (fst (joinRoom sdk accessToken roomName connectOptions s))).
           carries pubs kinds e"
proof (cases sdk)
  case (ConnectFailed err)
  then show ?thesis
    using carries_joinRoom_begin [OF assms(1), of accessToken roomName connectOptions]
    by (simp add: joinRoom_def split: prod.split sum.split)
next
  case (ConnectOk r)
  have l: "set (tracks (localParticipant r)) \<subseteq> set pubs"
    using assms(2) ConnectOk by simp
  have "set (concat (map (\<lambda>(k, p). tracks p) (participants r))) \<subseteq> set pubs"
    using assms(2) ConnectOk by simp
  then have ps: "\<forall>(k, p) \<in> set (participants r). set (tracks p) \<subseteq> set pubs"
    using in_roster [of _ _ "participants r"] by blast
  show ?thesis
    using carries_joinRoom_begin [OF assms(1), of accessToken roomName connectOptions]
      carries_joinRoom_connected [OF carries_joinRoom_begin [OF assms(1)] l ps,
        of accessToken roomName connectOptions]
    by (simp add: joinRoom_def ConnectOk split: prod.split sum.split)
qed

lemma carries_forced_unsubscribed:
  assumes "kind \<in> set kinds"
    and "trackUnsubscribed cbs (PTrack (Plain (Some kind) None) (Some p)) = (es, out)"
    and "e \<in> set es"
  shows "carries pubs kinds e"
proof -
  have "e \<in> set (fst (trackUnsubscribed cbs (PTrack (Plain (Some kind) None) (Some p))))"
    using assms(2,3) by simp
  then show ?thesis
    by (rule carries_trackUnsubscribed [OF described_forced [OF assms(1)]])
qed

lemma turnOffMy_trace:
  "trace (fst (turnOffMy kind m1 m2 m3 m4 s)) = trace s
   \<or> (\<exists>(t::track) p. trace (fst (turnOffMy kind m1 m2 m3 m4 s)) =
          trace s @ [Call (UnpublishTrack (track_name t)), Call (StopTrack (track_name t))]
            @ fst (trackUnsubscribed (eventCallbacks s) (PTrack (Plain (Some kind) None) (Some p))))"
proof (cases "currentRoom s")
  case (Given r)
  show ?thesis
  proof (cases "filter (\<lambda>pub. pub_kind pub = kind) (tracks (localParticipant r))")
    case Nil
    then show ?thesis
      using Given by (simp add: turnOffMy_def)
  next
    case (Cons pub rest)
    show ?thesis
    proof (cases "pub_track pub")
      case None
      then show ?thesis
        using Given Cons by (simp add: turnOffMy_def)
    next
      case (Some t)
      have tr: "trace (fst (turnOffMy kind m1 m2 m3 m4 s)) =
          trace s @ [Call (UnpublishTrack (track_name t)), Call (StopTrack (track_name t))]
            @ fst (trackUnsubscribed (eventCallbacks s)
                     (PTrack (Plain (Some kind) None) (Some (sid (localParticipant r)))))"
        using Given Cons Some
        by (simp add: turnOffMy_def Let_def split: prod.split outcome.split)
      show ?thesis
        by (rule disjI2, rule exI [of _ t], rule exI [of _ "sid (localParticipant r)"], rule tr)
    qed
  qed
qed (simp_all add: turnOffMy_def)

lemma carries_turnOffMy:
  assumes "\<forall>e \<in> set (trace s). carries pubs kinds e" and "kind \<in> set kinds"
  shows "\<forall>e \<in> set (trace (fst (turnOffMy kind m1 m2 m3 m4 s))). carries pubs kinds e"
proof -
  have forced: "\<forall>e \<in> set (fst (trackUnsubscribed (eventCallbacks s)
      (PTrack (Plain (Some kind) None) (Some p)))). carries pubs kinds e" for p
    by (auto intro: carries_trackUnsubscribed [OF described_forced [OF assms(2)]])
  from turnOffMy_trace [of kind m1 m2 m3 m4 s] show ?thesis
  proof
    assume "trace (fst (turnOffMy kind m1 m2 m3 m4 s)) = trace s"
    then show ?thesis using assms(1) by simp
  next
    assume "\<exists>(t::track) p. trace (fst (turnOffMy kind m1 m2 m3 m4 s)) =
          trace s @ [Call (UnpublishTrack (track_name t)), Call (StopTrack (track_name t))]
            @ fst (trackUnsubscribed (eventCallbacks s) (PTrack (Plain (Some kind) None) (Some p)))"
    then obtain t :: track and p where "trace (fst (turnOffMy kind m1 m2 m3 m4 s)) =
          trace s @ [Call (UnpublishTrack (track_name t)), Call (StopTrack (track_name t))]
            @ fst (trackUnsubscribed (eventCallbacks s) (PTrack (Plain (Some kind) None) (Some p)))"
      by blast
    then show ?thesis
      using assms(1) forced [of p] by auto
  qed
qed

lemma turnOnMy_trace:
  "\<exists>cs. trace (fst (turnOnMy kind m1 m2 m3 m4 create publish device s)) = trace s @ map Call cs"
proof -
  have "trace (fst (turnOnMy kind m1 m2 m3 m4 create publish device s)) = trace s @ map Call []
      \<or> (\<exists>m. trace (fst (turnOnMy kind m1 m2 m3 m4 create publish device s)) =
             trace s @ map Call [CreateLocalTrack kind m])
      \<or> (\<exists>m t. trace (fst (turnOnMy kind m1 m2 m3 m4 create publish device s)) =
             trace s @ map Call [CreateLocalTrack kind m, PublishTrack t None])"
    by (simp add: turnOnMy_def Let_def
          split: option.split js_arg.split create_result.split publish_result.split)
  then show ?thesis by blast
qed

lemma carries_turnOnMy:
  assumes "\<forall>e \<in> set (trace s). carries pubs kinds e"
  shows "\<forall>e \<in> set (trace (fst (turnOnMy kind m1 m2 m3 m4 create publish device s))).
           carries pubs kinds e"
  using assms turnOnMy_trace [of kind m1 m2 m3 m4 create publish device s] by auto


lemma carries_startScreenShare:
  assumes "\<forall>e \<in> set (trace s). carries pubs kinds e"
  shows "\<forall>e \<in> set (trace (fst (startScreenShare env publish height width s))). carries pubs kinds e"
  using assms
  by (auto simp add: startScreenShare_def setPriorities_def Let_def
        split: js_arg.splits sum.splits publish_result.splits)

lemma carries_stopScreenShare:
  assumes "\<forall>e \<in> set (trace s). carries pubs kinds e"
  shows "\<forall>e \<in> set (trace (fst (stopScreenShare s))). carries pubs kinds e"
  using assms
  by (auto simp add: stopScreenShare_def setPriorities_def Let_def split: option.splits js_arg.splits)

lemma carries_leaveRoom:
  assumes "\<forall>e \<in> set (trace s). carries pubs kinds e"
    and "Video \<in> set kinds" and "Audio \<in> set kinds"
    and "set (concat (map (\<lambda>(em, n, args). shown args) emitted)) \<subseteq> set pubs"
  shows "\<forall>e \<in> set (trace (fst (leaveRoom emitted roomName s))). carries pubs kinds e"
proof -
  let ?s2 = "fst (turnOffMyAudio (fst (turnOffMyVideo s)))"
  let ?cbs = "eventCallbacks ?s2"
  let ?first = "notifyOfEvent ?cbs ParticipantDisconnected
      (PParticipant (case currentRoom ?s2 of Given r \<Rightarrow> Some (sid (localParticipant r)) | _ \<Rightarrow> None))"
  have s2: "\<forall>e \<in> set (trace ?s2). carries pubs kinds e"
    unfolding turnOffMyAudio_def turnOffMyVideo_def
    by (intro carries_turnOffMy assms)
  obtain es out where first: "?first = (es, out)"
    by (cases ?first) auto
  have es: "\<forall>e \<in> set es. carries pubs kinds e"
    using carries_notify_ParticipantDisconnected [of _ ?cbs] first by (metis fst_conv)
  have s3: "\<forall>e \<in> set (trace (perform es ?s2)). carries pubs kinds e"
    using s2 es by auto
  show ?thesis
  proof (cases out)
    case (Throw err)
    then show ?thesis
      using s3 first by (simp add: leaveRoom_def Let_def)
  next
    case Normal
    show ?thesis
    proof (cases "\<exists>r. currentRoom ?s2 = Given r")
      case False
      then show ?thesis
        using s3 first Normal by (simp add: leaveRoom_def Let_def split: js_arg.split)
    next
      case True
      then obtain r where Some: "currentRoom ?s2 = Given r" by blast
      let ?second = "andThen
          (forEach (\<lambda>(k, p). notifyOfEvent ?cbs ParticipantDisconnected (PParticipant (Some (sid p))))
             (participants r))
          (notifyOfEvent ?cbs Debug (PText (''Disconnected from room '' @ roomName)))"
      obtain es' out' where second: "?second = (es', out')"
        by (cases ?second) auto
      have "\<forall>e \<in> set (fst ?second). carries pubs kinds e"
        by (intro carries_andThen)
           (auto dest!: forEach_effects dest: carries_notify_ParticipantDisconnected carries_notify_Debug)
      then have es': "\<forall>e \<in> set es'. carries pubs kinds e"
        using second by simp
      show ?thesis
      proof (cases out')
        case (Throw err)
        then show ?thesis
          using s3 es' first Normal Some second by (simp add: leaveRoom_def Let_def) auto
      next
        case Normal2: Normal
        let ?s4 = "perform (es' @ [Call (RoomDisconnect (room_sid r))]) (perform es ?s2)"
        have s4: "\<forall>e \<in> set (trace ?s4). carries pubs kinds e"
          using s3 es' by auto
        have fired: "\<forall>e \<in> set (trace (fst (emit_all emitted ?s4))). carries pubs kinds e"
          by (rule carries_emit_all [OF s4 assms(4)])
        show ?thesis
          using fired first Normal Some second Normal2
          by (simp add: leaveRoom_def Let_def split: prod.split outcome.split)
      qed
    qed
  qed
qed

lemma carries_step:
  assumes "\<forall>e \<in> set (trace s). carries pubs kinds e"
    and "set (handed i) \<subseteq> set pubs" and "set (forced i) \<subseteq> set kinds"
  shows "\<forall>e \<in> set (trace (step i s)). carries pubs kinds e"
proof (cases i)
  case (Init isSupported event_callbacks)
  then show ?thesis
    using assms(1) by (cases event_callbacks) (simp_all add: init_def)
next
  case (JoinRoom sdk accessToken roomName connectOptions)
  then show ?thesis
    using carries_joinRoom [OF assms(1), of sdk accessToken roomName connectOptions] assms(2) by simp
next
  case (LeaveRoom emitted roomName)
  then show ?thesis
    using carries_leaveRoom [OF assms(1), of emitted roomName] assms(2,3) by simp
next
  case (TurnOnMyAudio create publish device)
  then show ?thesis
    using carries_turnOnMy [OF assms(1)] by (simp add: turnOnMyAudio_def)
next
  case (TurnOnMyVideo create publish device)
  then show ?thesis
    using carries_turnOnMy [OF assms(1)] by (simp add: turnOnMyVideo_def)
next
  case TurnOffMyAudio
  then show ?thesis
    using carries_turnOffMy [OF assms(1), of Audio] assms(3) by (simp add: turnOffMyAudio_def)
next
  case TurnOffMyVideo
  then show ?thesis
    using carries_turnOffMy [OF assms(1), of Video] assms(3) by (simp add: turnOffMyVideo_def)
next
  case (StartScreenShare env publish height width)
  then show ?thesis
    using carries_startScreenShare [OF assms(1)] by simp
next
  case StopScreenShare
  then show ?thesis
    using carries_stopScreenShare [OF assms(1)] by simp
next
  case (ChangePref x)
  then show ?thesis
    using assms(1) by simp
next
  case (SelectDefaultVideoSource first_device)
  then show ?thesis
    using assms(1) by (simp add: selectDefaultVideoSource_def)
next
  case (SelectDefaultAudioSource first_device)
  then show ?thesis
    using assms(1) by (simp add: selectDefaultAudioSource_def)
next
  case (OnMediaDevicesListChange callback)
  obtain es out where n: "notifyOfEvent (eventCallbacks s) ErrorOccured
      (PText (''onMediaDevicesListChange - callback was not supplied, ''
              @ ''no change handler will be registered'')) = (es, out)"
    by (cases "notifyOfEvent (eventCallbacks s) ErrorOccured
      (PText (''onMediaDevicesListChange - callback was not supplied, ''
              @ ''no change handler will be registered''))") auto
  have "\<forall>e \<in> set es. carries pubs kinds e"
    using carries_notify_ErrorOccured [of _ "eventCallbacks s"] n by (metis fst_conv)
  then show ?thesis
    using assms(1) n OnMediaDevicesListChange by (auto simp add: onMediaDevicesListChange_def)
next
  case (Emit em n args)
  then show ?thesis
    using carries_fire [OF assms(1), of args em n] assms(2) by simp
next
  case (RoomUpdate r')
  then show ?thesis
    using assms(1) by (simp split: js_arg.split)
qed

lemma carries_fold:
  assumes "\<forall>e \<in> set (trace s). carries pubs kinds e"
    and "set (concat (map handed ins)) \<subseteq> set pubs" and "set (concat (map forced ins)) \<subseteq> set kinds"
  shows "\<forall>e \<in> set (trace (fold step ins s)). carries pubs kinds e"
  using assms
proof (induction ins arbitrary: s)
  case Nil
  then show ?case by simp
next
  case (Cons i ins)
  have "\<forall>e \<in> set (trace (step i s)). carries pubs kinds e"
    using Cons.prems by (intro carries_step) simp_all
  then show ?case
    using Cons.IH [of "step i s"] Cons.prems(2,3) by simp
qed

section \<open>What track notifications carry\<close>

text \<open>
  Claim C6, as the code has it. In every run of a new engine, every track subscribed or
  unsubscribed notification in the trace carries a participant that is not \<open>null\<close> and a
  track member that is one of three things: the SDK's track object, which has its kind; a
  copy of a publication that the SDK handed to the engine in the run
  (\<open>{...publication.track, sid}\<close>), with the track SID of the publication and with the
  kind of the publication's track exactly when the publication has its track; or the
  literal \<open>{kind}\<close> of a forced unpublish that is part of the run (\<open>turnOffMyVideo\<close>,
  \<open>turnOffMyAudio\<close>, \<open>leaveRoom\<close>), with that kind and without SID. So the kind is missing
  exactly in the copy of a publication that has no track; the code never reads the kind of
  the publication itself.
\<close>

theorem track_notifications_carry_participant_and_tag:
  assumes "e \<in> set (trace (run ins (new_engine defaults storage)))"
  shows "carries (concat (map handed ins)) (concat (map forced ins)) e"
proof -
  have "\<forall>e \<in> set (trace (new_engine defaults storage)).
      carries (concat (map handed ins)) (concat (map forced ins)) e"
    by (simp add: new_engine_def)
  then have "\<forall>e \<in> set (trace (fold step ins (new_engine defaults storage))).
      carries (concat (map handed ins)) (concat (map forced ins)) e"
    by (rule carries_fold) simp_all
  then show ?thesis
    using assms by (simp add: run_def)
qed

lemma unpublishing_run_eq: "run unpublishing_run (new_engine example_defaults []) = far_unpublished"
  by (simp add: run_def unpublishing_run_def far_unpublished_def connected_to_def registered_def
        idle_engine_def)

theorem track_notifications_carry_participant_and_tag_witness:
  "Notify ParticipantUnsubscribedTrack (PTrack (Plain None (Some ''MT-far'')) (Some ''PA-remote'')) True
     \<in> set (trace (run unpublishing_run (new_engine example_defaults [])))
   \<and> carries (concat (map handed unpublishing_run)) (concat (map forced unpublishing_run))
         (Notify ParticipantUnsubscribedTrack
            (PTrack (Plain None (Some ''MT-far'')) (Some ''PA-remote'')) True)"
proof -
  have m: "Notify ParticipantUnsubscribedTrack (PTrack (Plain None (Some ''MT-far'')) (Some ''PA-remote'')) True
      \<in> set (trace (run unpublishing_run (new_engine example_defaults [])))"
    by (simp add: unpublishing_run_eq far_unpublished_trace)
  show ?thesis
    using track_notifications_carry_participant_and_tag [OF m] m by blast
qed

text \<open>
  Against claim C6 as stated: when the remote participant of the example session
  unpublishes a video publication that has no track, the unsubscribed notification carries
  \<open>{sid: "MT-far"}\<close>, without a media kind.
\<close>

theorem remote_unpublish_without_kind:
  "Notify ParticipantUnsubscribedTrack (PTrack (Plain None (Some ''MT-far'')) (Some ''PA-remote'')) True
     \<in> set (trace far_unpublished)
   \<and> far_unpublished = run unpublishing_run (new_engine example_defaults [])
   \<and> descr_kind (Plain None (Some ''MT-far'')) = None
   \<and> pub_kind trackless_far = Video"
  by (simp add: far_unpublished_trace trackless_far_def unpublishing_run_eq)

end
